theory Spec2Isabelle
  imports Main "HOL-Library.AList" "HOL-Library.Sublist" "HOL-Library.Char_ord" "HOL-Library.List_Lexorder"
begin

section \<open>Data model\<close>

text \<open>
  Python values that occur as frame attributes and as flat tag values. Only their truth
  value matters to the code (\<^verbatim>\<open>frame.lang or "eng"\<close>).
\<close>

datatype pyval = PNone | PInt int | PStr string | PList "string list" | PBytes "nat list"

fun truthy :: "pyval \<Rightarrow> bool" where
  "truthy PNone = False"
| "truthy (PInt n) = (n \<noteq> 0)"
| "truthy (PStr s) = (s \<noteq> [])"
| "truthy (PList xs) = (xs \<noteq> [])"
| "truthy (PBytes bs) = (bs \<noteq> [])"

definition py_or :: "pyval \<Rightarrow> pyval \<Rightarrow> pyval" where
  "py_or a b = (if truthy a then a else b)"

text \<open>
  The frame classes that \<^verbatim>\<open>wav2mp3_multi_threaded_version_2.py\<close> imports from
  \<^verbatim>\<open>mutagen.id3\<close>, and any other class by its name.
\<close>

datatype frame_cls =
  TIT2 | TALB | TPE1 | TPE2 | TCON | TRCK | TPOS | TYER | TDRC | TCOM | TSSE
  | TXXX | COMM | APIC | OtherCls string

text \<open>
  A frame object: its class and its attributes. \<open>None\<close> is an attribute the object does
  not have (for a source frame \<^verbatim>\<open>hasattr\<close> is false and reading it raises; for a
  frame the code constructs, the keyword was not passed, so the tag library's default
  applies).
\<close>

record id3_frame =
  fcls :: frame_cls
  fencoding :: "pyval option"
  ftext :: "pyval option"
  flang :: "pyval option"
  fdesc :: "pyval option"
  fmime :: "pyval option"
  ftype :: "pyval option"
  fdata :: "pyval option"

type_synonym path = "string list"
type_synonym pcm = "nat list"

text \<open>
  A tag container of the tag library is a dictionary from keys to frames, in insertion
  order: an association list with distinct keys.
\<close>

type_synonym tagset = "(string \<times> id3_frame) list"

datatype wav_tags =
  RichTags tagset
  | FlatTags "(string \<times> pyval) list"

text \<open>
  File contents, as far as the two libraries see them. For a source file, \<open>decoded\<close> is
  what \<^verbatim>\<open>AudioSegment.from_wav\<close> makes of it (\<open>None\<close>: it raises) and \<open>meta\<close> is
  what \<^verbatim>\<open>WAVE(...)\<close> makes of it (\<open>None\<close>: it raises; \<open>Some None\<close>: the file has
  no tag container). An MP3 file carries its audio, its bitrate and its tag container
  (\<open>None\<close>: no ID3 header). \<open>Empty\<close> is a file of no bytes, \<open>Other\<close> any other file.
\<close>

datatype content =
  Wav (decoded: "pcm option") (meta: "wav_tags option option")
  | Mp3 (audio: pcm) (bitrate: string) (tags: "tagset option")
  | Empty
  | Other

datatype node = Dir | File content

type_synonym filesys = "(path \<times> node) list"

datatype exn =
  AttributeError string
  | ValueError
  | FileExistsError
  | NotADirectoryError
  | IsADirectoryError
  | FileNotFoundError
  | CouldntDecodeError
  | CouldntEncodeError
  | MutagenError
  | IndexError
  | TypeError

datatype level = INFO | WARNING | ERROR

datatype log_event =
  FrameNotCloned string exn
  | FrameSkipped string
  | TagsNotCopied path exn
  | AlreadyPresent path
  | ConvertedMsg path path nat
  | ConversionError path exn
  | StartMsg
  | SourceMsg path
  | DestMsg path
  | BitrateMsg string
  | WorkersMsg int
  | DryRunMsg bool
  | DoneMsg nat nat nat
  | TagsRead string "(string \<times> string) list"
  | TagsNotRead string exn
  | AlreadyPresentName string
  | ConvertedNames string string
  | ConversionErrorName string exn

text \<open>The level each message is logged at (\<^verbatim>\<open>logging.info/warning/error\<close>).\<close>

fun level_of :: "log_event \<Rightarrow> level" where
  "level_of (FrameNotCloned k e) = WARNING"
| "level_of (TagsNotCopied p e) = WARNING"
| "level_of (ConversionError p e) = ERROR"
| "level_of (TagsNotRead n e) = WARNING"
| "level_of (ConversionErrorName n e) = ERROR"
| "level_of ev = INFO"

datatype con_event =
  SrcMissing path
  | NoWavFiles
  | FoundMsg nat
  | ConBitrate string
  | ConWorkers int
  | DryRunActive
  | PreviewPanel path "wav_tags option"
  | PreviewError path exn
  | NoPreview
  | DryRunTable nat nat
  | SummaryTable nat nat nat

record world =
  fs :: filesys
  log :: "log_event list"
  console :: "con_event list"

text \<open>
  What the code cannot decide by itself: where the tag library and the codec raise, the
  tag container a freshly encoded file carries, the one the encoder writes when it is
  given a dictionary of tags, and the key under which the tag library stores a frame of
  a class the script does not import.
\<close>

record lib =
  frame_raises :: "id3_frame \<Rightarrow> bool"
  save_raises :: "path \<Rightarrow> bool"
  export_raises :: "pcm \<Rightarrow> string \<Rightarrow> bool"
  export_tags :: "tagset option"
  export_meta :: "(string \<times> string) list \<Rightarrow> tagset option"
  other_key :: "string \<Rightarrow> id3_frame \<Rightarrow> string"

section \<open>Effects: state passing with exceptions\<close>

type_synonym 'a io = "world \<Rightarrow> (exn + 'a) \<times> world"

definition ret :: "'a \<Rightarrow> 'a io" where
  "ret x w = (Inr x, w)"

definition bindM :: "'a io \<Rightarrow> ('a \<Rightarrow> 'b io) \<Rightarrow> 'b io" where
  "bindM m f w = (case m w of (Inl e, w') \<Rightarrow> (Inl e, w') | (Inr x, w') \<Rightarrow> f x w')"

definition try_except :: "'a io \<Rightarrow> (exn \<Rightarrow> 'a io) \<Rightarrow> 'a io" where
  "try_except m h w = (case m w of (Inl e, w') \<Rightarrow> h e w' | (Inr x, w') \<Rightarrow> (Inr x, w'))"

definition lift :: "exn + 'a \<Rightarrow> 'a io" where
  "lift r w = (r, w)"

definition logging :: "log_event \<Rightarrow> unit io" where
  "logging ev w = (Inr (), w\<lparr>log := log w @ [ev]\<rparr>)"

definition print :: "con_event \<Rightarrow> unit io" where
  "print ev w = (Inr (), w\<lparr>console := console w @ [ev]\<rparr>)"

section \<open>Tag utilities\<close>

definition getattr :: "'a option \<Rightarrow> string \<Rightarrow> exn + 'a" where
  "getattr v name = (case v of None \<Rightarrow> Inl (AttributeError name) | Some x \<Rightarrow> Inr x)"

definition bindE :: "exn + 'a \<Rightarrow> ('a \<Rightarrow> exn + 'b) \<Rightarrow> exn + 'b" where
  "bindE r f = (case r of Inl e \<Rightarrow> Inl e | Inr x \<Rightarrow> f x)"

definition new_frame :: "frame_cls \<Rightarrow> id3_frame" where
  "new_frame c = \<lparr>fcls = c, fencoding = None, ftext = None, flang = None, fdesc = None,
     fmime = None, ftype = None, fdata = None\<rparr>"

text \<open>
  The key under which the tag library stores a frame (\<^verbatim>\<open>frame.HashKey\<close>): the frame id,
  followed for a comment by its description and its language, and for a user-defined
  text frame and a picture by its description. A keyword that was not passed has the
  library's default: the empty description, the language \<open>XXX\<close>. A description or a
  language that is not a string is taken as empty.
\<close>

fun frame_id :: "frame_cls \<Rightarrow> string" where
  "frame_id TIT2 = ''TIT2''"
| "frame_id TALB = ''TALB''"
| "frame_id TPE1 = ''TPE1''"
| "frame_id TPE2 = ''TPE2''"
| "frame_id TCON = ''TCON''"
| "frame_id TRCK = ''TRCK''"
| "frame_id TPOS = ''TPOS''"
| "frame_id TYER = ''TYER''"
| "frame_id TDRC = ''TDRC''"
| "frame_id TCOM = ''TCOM''"
| "frame_id TSSE = ''TSSE''"
| "frame_id TXXX = ''TXXX''"
| "frame_id COMM = ''COMM''"
| "frame_id APIC = ''APIC''"
| "frame_id (OtherCls n) = n"

fun key_text :: "pyval option \<Rightarrow> string \<Rightarrow> string" where
  "key_text None dflt = dflt"
| "key_text (Some (PStr s)) dflt = s"
| "key_text (Some v) dflt = []"

definition hash_key :: "lib \<Rightarrow> id3_frame \<Rightarrow> string" where
  "hash_key L f =
    (case fcls f of
       COMM \<Rightarrow> ''COMM:'' @ key_text (fdesc f) [] @ '':'' @ key_text (flang f) ''XXX''
     | TXXX \<Rightarrow> ''TXXX:'' @ key_text (fdesc f) []
     | APIC \<Rightarrow> ''APIC:'' @ key_text (fdesc f) []
     | OtherCls n \<Rightarrow> other_key L n f
     | c \<Rightarrow> frame_id c)"

text \<open>
  \<^verbatim>\<open>mp3_tags.add(cls(...))\<close>: the library builds the frame from the keywords passed and
  stores it under its key, in the place of a frame already stored under that key, or
  raises.
\<close>

definition add_frame :: "lib \<Rightarrow> tagset \<Rightarrow> id3_frame \<Rightarrow> exn + tagset" where
  "add_frame L mp3_tags f =
    (if frame_raises L f then Inl MutagenError
     else Inr (AList.update (hash_key L f) f mp3_tags))"

text \<open>
  The body of the \<^verbatim>\<open>try\<close> of \<^verbatim>\<open>_clone_id3_frame_to\<close>: \<open>Inr (Some t)\<close> when a branch
  added the frame and returned True, \<open>Inr None\<close> when no branch matched.
\<close>

definition clone_branches :: "lib \<Rightarrow> tagset \<Rightarrow> id3_frame \<Rightarrow> exn + tagset option" where
  "clone_branches L mp3_tags frame =
    (if ftext frame \<noteq> None then
       bindE (getattr (ftext frame) ''text'') (\<lambda>text.
       bindE (add_frame L mp3_tags ((new_frame (fcls frame))\<lparr>fencoding := Some (PInt 3), ftext := Some text\<rparr>))
         (\<lambda>t. Inr (Some t)))
     else if fcls frame = COMM then
       bindE (getattr (flang frame) ''lang'') (\<lambda>lang.
       bindE (getattr (fdesc frame) ''desc'') (\<lambda>desc.
       bindE (getattr (ftext frame) ''text'') (\<lambda>text.
       bindE (add_frame L mp3_tags ((new_frame COMM)\<lparr>fencoding := Some (PInt 3),
                flang := Some (py_or lang (PStr ''eng'')), fdesc := Some (py_or desc (PStr [])),
                ftext := Some text\<rparr>))
         (\<lambda>t. Inr (Some t)))))
     else if fcls frame = APIC then
       bindE (getattr (fmime frame) ''mime'') (\<lambda>mime.
       bindE (getattr (ftype frame) ''type'') (\<lambda>type.
       bindE (getattr (fdesc frame) ''desc'') (\<lambda>desc.
       bindE (getattr (fdata frame) ''data'') (\<lambda>data.
       bindE (add_frame L mp3_tags ((new_frame APIC)\<lparr>fencoding := Some (PInt 3),
                fmime := Some mime, ftype := Some type, fdesc := Some (py_or desc (PStr [])),
                fdata := Some data\<rparr>))
         (\<lambda>t. Inr (Some t))))))
     else if fcls frame = TXXX then
       bindE (getattr (fdesc frame) ''desc'') (\<lambda>desc.
       bindE (getattr (ftext frame) ''text'') (\<lambda>text.
       bindE (add_frame L mp3_tags ((new_frame TXXX)\<lparr>fencoding := Some (PInt 3),
                fdesc := Some (py_or desc (PStr [])), ftext := Some text\<rparr>))
         (\<lambda>t. Inr (Some t))))
     else Inr None)"

text \<open>
  \<^verbatim>\<open>_clone_id3_frame_to(mp3_tags, key, frame)\<close>: the target tag set is mutated in place,
  so it is passed in and returned with the result.
\<close>

definition clone_id3_frame_to :: "lib \<Rightarrow> tagset \<Rightarrow> string \<Rightarrow> id3_frame \<Rightarrow> (bool \<times> tagset) io" where
  "clone_id3_frame_to L mp3_tags key frame =
    (case clone_branches L mp3_tags frame of
       Inr (Some t) \<Rightarrow> ret (True, t)
     | Inl e \<Rightarrow> bindM (logging (FrameNotCloned key e)) (\<lambda>_. ret (False, mp3_tags))
     | Inr None \<Rightarrow> bindM (logging (FrameSkipped key)) (\<lambda>_. ret (False, mp3_tags)))"

text \<open>
  An open MP3 file (\<^verbatim>\<open>MP3(str(mp3_file))\<close>): the file it was read from and what was
  read.
\<close>

record mp3_handle =
  filename :: path
  h_audio :: pcm
  h_bitrate :: string
  h_tags :: "tagset option"

section \<open>File system\<close>

text \<open>
  Paths are lists of components below one common root; the root \<open>[]\<close> is always a
  directory. The file system is an association list so that the directory walk can
  enumerate it.
\<close>

definition node_at :: "filesys \<Rightarrow> path \<Rightarrow> node option" where
  "node_at f p = (if p = [] then Some Dir else map_of f p)"

definition path_exists :: "path \<Rightarrow> bool io" where
  "path_exists p w = (Inr (node_at (fs w) p \<noteq> None), w)"

definition parent :: "path \<Rightarrow> path" where
  "parent p = butlast p"

text \<open>
  \<^verbatim>\<open>Path.mkdir(parents=True, exist_ok=True)\<close>: an existing directory is accepted, a
  file in the way raises, missing ancestors are created first.
\<close>

function mkdir_parents :: "filesys \<Rightarrow> path \<Rightarrow> exn + filesys" where
  "mkdir_parents f p =
    (case node_at f p of
       Some Dir \<Rightarrow> Inr f
     | Some (File c) \<Rightarrow> Inl FileExistsError
     | None \<Rightarrow>
         (case node_at f (parent p) of
            Some Dir \<Rightarrow> Inr (AList.update p Dir f)
          | Some (File c) \<Rightarrow> Inl NotADirectoryError
          | None \<Rightarrow>
              (if p = [] then Inl FileNotFoundError
               else case mkdir_parents f (parent p) of
                      Inl e \<Rightarrow> Inl e
                    | Inr f' \<Rightarrow> Inr (AList.update p Dir f'))))"
  by pat_completeness auto
termination
  by (relation "measure (\<lambda>(f, p). length p)") (auto simp: parent_def)

declare mkdir_parents.simps [simp del]

definition mkdir :: "path \<Rightarrow> unit io" where
  "mkdir p w = (case mkdir_parents (fs w) p of
                  Inl e \<Rightarrow> (Inl e, w)
                | Inr f' \<Rightarrow> (Inr (), w\<lparr>fs := f'\<rparr>))"

text \<open>
  \<^verbatim>\<open>Path.relative_to\<close>, \<^verbatim>\<open>Path.suffix\<close> and \<^verbatim>\<open>Path.with_suffix\<close> of pathlib: the
  suffix starts at the last dot of the name, unless that dot is the first or the last
  character.
\<close>

definition relative_to :: "path \<Rightarrow> path \<Rightarrow> exn + path" where
  "relative_to p root = (if prefix root p then Inr (drop (length root) p) else Inl ValueError)"

definition rfind :: "string \<Rightarrow> char \<Rightarrow> nat option" where
  "rfind s c = (if c \<in> set s
                then Some (length s - 1 - length (takeWhile (\<lambda>x. x \<noteq> c) (rev s)))
                else None)"

definition path_suffix :: "string \<Rightarrow> string" where
  "path_suffix name =
    (case rfind name CHR ''.'' of
       None \<Rightarrow> []
     | Some i \<Rightarrow> if 0 < i \<and> i + 1 < length name then drop i name else [])"

definition with_suffix :: "path \<Rightarrow> string \<Rightarrow> exn + path" where
  "with_suffix p suf =
    (if p = [] then Inl ValueError
     else let name = last p; old_suffix = path_suffix name in
          if old_suffix = [] then Inr (butlast p @ [name @ suf])
          else Inr (butlast p @ [take (length name - length old_suffix) name @ suf]))"

text \<open>
  \<^verbatim>\<open>src_path.rglob("*.wav")\<close>: every entry below the root, at any depth, whose name
  matches the pattern. The scripts are written for POSIX paths, where the match is
  case-sensitive.
\<close>

definition glob_wav :: "string \<Rightarrow> bool" where
  "glob_wav name = suffix ''.wav'' name"

definition rglob :: "path \<Rightarrow> path list io" where
  "rglob root w =
    (Inr (filter (\<lambda>p. strict_prefix root p \<and> glob_wav (last p)) (remdups (map fst (fs w)))), w)"

section \<open>Library calls on files\<close>

fun wave_of :: "node option \<Rightarrow> exn + wav_tags option" where
  "wave_of (Some (File (Wav d (Some t)))) = Inr t"
| "wave_of None = Inl FileNotFoundError"
| "wave_of (Some Dir) = Inl IsADirectoryError"
| "wave_of (Some (File c)) = Inl MutagenError"

definition WAVE :: "path \<Rightarrow> wav_tags option io" where
  "WAVE p w = (wave_of (node_at (fs w) p), w)"

fun mp3_of :: "path \<Rightarrow> node option \<Rightarrow> exn + mp3_handle" where
  "mp3_of p (Some (File (Mp3 a br t))) =
     Inr \<lparr>filename = p, h_audio = a, h_bitrate = br, h_tags = t\<rparr>"
| "mp3_of p None = Inl FileNotFoundError"
| "mp3_of p (Some Dir) = Inl IsADirectoryError"
| "mp3_of p (Some (File c)) = Inl MutagenError"

definition MP3 :: "path \<Rightarrow> mp3_handle io" where
  "MP3 p w = (mp3_of p (node_at (fs w) p), w)"

definition save :: "lib \<Rightarrow> mp3_handle \<Rightarrow> unit io" where
  "save L h w =
    (if save_raises L (filename h) then (Inl MutagenError, w)
     else (Inr (), w\<lparr>fs := AList.update (filename h)
                         (File (Mp3 (h_audio h) (h_bitrate h) (h_tags h))) (fs w)\<rparr>))"

fun from_wav_of :: "node option \<Rightarrow> exn + pcm" where
  "from_wav_of (Some (File (Wav (Some a) m))) = Inr a"
| "from_wav_of None = Inl FileNotFoundError"
| "from_wav_of (Some Dir) = Inl IsADirectoryError"
| "from_wav_of (Some (File c)) = Inl CouldntDecodeError"

definition from_wav :: "path \<Rightarrow> pcm io" where
  "from_wav p w = (from_wav_of (node_at (fs w) p), w)"

text \<open>
  \<^verbatim>\<open>audio.export(str(mp3_file), format="mp3", bitrate=bitrate)\<close>. The audio library
  first opens the destination for writing, which creates it empty (or empties it), then
  runs the encoder into a temporary file, and copies the result into the destination
  only when the encoder has succeeded: a failed encode leaves the empty file behind.
\<close>

definition open_wb :: "path \<Rightarrow> unit io" where
  "open_wb p w =
    (case node_at (fs w) p of
       Some Dir \<Rightarrow> (Inl IsADirectoryError, w)
     | other \<Rightarrow>
        (case node_at (fs w) (parent p) of
           Some Dir \<Rightarrow> (Inr (), w\<lparr>fs := AList.update p (File Empty) (fs w)\<rparr>)
         | Some (File c) \<Rightarrow> (Inl NotADirectoryError, w)
         | None \<Rightarrow> (Inl FileNotFoundError, w)))"

definition encode :: "lib \<Rightarrow> pcm \<Rightarrow> path \<Rightarrow> string \<Rightarrow> tagset option \<Rightarrow> unit io" where
  "encode L a p br tgs w =
    (if export_raises L a br then (Inl CouldntEncodeError, w)
     else (Inr (), w\<lparr>fs := AList.update p (File (Mp3 a br tgs)) (fs w)\<rparr>))"

definition export :: "lib \<Rightarrow> pcm \<Rightarrow> path \<Rightarrow> string \<Rightarrow> unit io" where
  "export L a p br = bindM (open_wb p) (\<lambda>_. encode L a p br (export_tags L))"

section \<open>Copying tags\<close>

fun clone_loop :: "lib \<Rightarrow> tagset \<Rightarrow> tagset \<Rightarrow> nat \<Rightarrow> (nat \<times> tagset) io" where
  "clone_loop L [] t copied = ret (copied, t)"
| "clone_loop L ((key, frame) # rest) t copied =
     bindM (clone_id3_frame_to L t key frame)
       (\<lambda>(ok, t'). clone_loop L rest t' (if ok then copied + 1 else copied))"

text \<open>
  \<^verbatim>\<open>_copy_id3_from_wav_id3\<close>: the target container is created or cleared, so it starts
  empty either way.
\<close>

definition fresh_tags :: "mp3_handle \<Rightarrow> tagset" where
  "fresh_tags h = (case h_tags h of None \<Rightarrow> [] | Some t \<Rightarrow> [])"

definition copy_id3_from_wav_id3 :: "lib \<Rightarrow> tagset \<Rightarrow> mp3_handle \<Rightarrow> nat io" where
  "copy_id3_from_wav_id3 L wav_id3 mp3_audio =
     bindM (clone_loop L wav_id3 (fresh_tags mp3_audio) 0) (\<lambda>(copied, t).
     bindM (save L (mp3_audio\<lparr>h_tags := Some t\<rparr>)) (\<lambda>_.
     ret copied))"

definition mapping :: "(string \<times> frame_cls) list" where
  "mapping = [(''INAM'', TIT2), (''IART'', TPE1), (''IPRD'', TALB), (''ICRD'', TYER),
              (''IGNR'', TCON), (''ITRK'', TRCK)]"

fun riff_loop :: "lib \<Rightarrow> (string \<times> pyval) list \<Rightarrow> (string \<times> frame_cls) list \<Rightarrow> tagset \<Rightarrow> nat \<Rightarrow> exn + (nat \<times> tagset)" where
  "riff_loop L tgs [] t copied = Inr (copied, t)"
| "riff_loop L tgs ((wav_key, c) # rest) t copied =
     (case map_of tgs wav_key of
        None \<Rightarrow> riff_loop L tgs rest t copied
      | Some v \<Rightarrow>
          bindE (add_frame L t ((new_frame c)\<lparr>fencoding := Some (PInt 3), ftext := Some v\<rparr>))
            (\<lambda>t'. riff_loop L tgs rest t' (copied + 1)))"

definition riff_comment :: "lib \<Rightarrow> (string \<times> pyval) list \<Rightarrow> tagset \<Rightarrow> nat \<Rightarrow> exn + (nat \<times> tagset)" where
  "riff_comment L tgs t copied =
     (case map_of tgs ''ICMT'' of
        None \<Rightarrow> Inr (copied, t)
      | Some v \<Rightarrow>
          bindE (add_frame L t ((new_frame COMM)\<lparr>fencoding := Some (PInt 3),
                   flang := Some (PStr ''eng''), fdesc := Some (PStr []), ftext := Some v\<rparr>))
            (\<lambda>t'. Inr (copied + 1, t')))"

definition riff_software :: "lib \<Rightarrow> (string \<times> pyval) list \<Rightarrow> tagset \<Rightarrow> nat \<Rightarrow> exn + (nat \<times> tagset)" where
  "riff_software L tgs t copied =
     (case map_of tgs ''ISFT'' of
        None \<Rightarrow> Inr (copied, t)
      | Some v \<Rightarrow>
          bindE (add_frame L t ((new_frame TSSE)\<lparr>fencoding := Some (PInt 3), ftext := Some v\<rparr>))
            (\<lambda>t'. Inr (copied + 1, t')))"

text \<open>
  The frames \<^verbatim>\<open>_copy_from_riff_info\<close> builds before it saves: the six table rows, then
  the comment, then the encoder software.
\<close>

definition riff_frames :: "lib \<Rightarrow> (string \<times> pyval) list \<Rightarrow> tagset \<Rightarrow> exn + (nat \<times> tagset)" where
  "riff_frames L tgs t0 =
     bindE (riff_loop L tgs mapping t0 0) (\<lambda>(c1, t1).
     bindE (riff_comment L tgs t1 c1) (\<lambda>(c2, t2).
     riff_software L tgs t2 c2))"

definition copy_from_riff_info :: "lib \<Rightarrow> (string \<times> pyval) list \<Rightarrow> mp3_handle \<Rightarrow> nat io" where
  "copy_from_riff_info L tgs mp3_audio =
     bindM (lift (riff_frames L tgs (fresh_tags mp3_audio))) (\<lambda>(copied, t).
     bindM (save L (mp3_audio\<lparr>h_tags := Some t\<rparr>)) (\<lambda>_.
     ret copied))"

text \<open>
  \<^verbatim>\<open>copy_tags\<close>. \<^verbatim>\<open>if not wav_meta.tags\<close> holds for a missing container and for an empty
  one.
\<close>

definition copy_tags_body :: "lib \<Rightarrow> path \<Rightarrow> path \<Rightarrow> nat io" where
  "copy_tags_body L wav_file mp3_file =
     bindM (WAVE wav_file) (\<lambda>wav_meta.
       case wav_meta of
         None \<Rightarrow> ret 0
       | Some (RichTags wav_id3) \<Rightarrow>
           if wav_id3 = [] then ret 0
           else bindM (MP3 mp3_file) (\<lambda>mp3_audio. copy_id3_from_wav_id3 L wav_id3 mp3_audio)
       | Some (FlatTags tgs) \<Rightarrow>
           if tgs = [] then ret 0
           else bindM (MP3 mp3_file) (\<lambda>mp3_audio. copy_from_riff_info L tgs mp3_audio))"

definition copy_tags :: "lib \<Rightarrow> path \<Rightarrow> path \<Rightarrow> nat io" where
  "copy_tags L wav_file mp3_file =
     try_except (copy_tags_body L wav_file mp3_file)
       (\<lambda>e. bindM (logging (TagsNotCopied wav_file e)) (\<lambda>_. ret 0))"

section \<open>Preview\<close>

text \<open>
  \<^verbatim>\<open>preview_tags\<close> reads the tags of the first files and prints them; what it prints
  for one file is one console event here.
\<close>

fun preview_loop :: "path list \<Rightarrow> nat \<Rightarrow> nat io" where
  "preview_loop [] shown = ret shown"
| "preview_loop (wav # rest) shown =
     bindM (try_except
              (bindM (WAVE wav) (\<lambda>m.
               bindM (print (PreviewPanel wav m)) (\<lambda>_. ret (shown + 1))))
              (\<lambda>e. bindM (print (PreviewError wav e)) (\<lambda>_. ret shown)))
       (\<lambda>shown'. preview_loop rest shown')"

definition preview_tags :: "path list \<Rightarrow> int \<Rightarrow> unit io" where
  "preview_tags files limit =
     bindM (preview_loop (take (nat limit) files) 0) (\<lambda>shown.
     if shown = 0 then print NoPreview else ret ())"

section \<open>Conversion\<close>

text \<open>
  The destination of a source file, as \<^verbatim>\<open>convert_one\<close> and the dry run both compute
  it: \<^verbatim>\<open>dst_root / wav_file.relative_to(src_root).with_suffix(".mp3")\<close>.
\<close>

definition mp3_path :: "path \<Rightarrow> path \<Rightarrow> path \<Rightarrow> exn + path" where
  "mp3_path wav_file src_root dst_root =
     bindE (relative_to wav_file src_root) (\<lambda>relative_path.
     bindE (with_suffix relative_path ''.mp3'') (\<lambda>rel_mp3.
     Inr (dst_root @ rel_mp3)))"

definition convert_one :: "lib \<Rightarrow> path \<Rightarrow> path \<Rightarrow> path \<Rightarrow> string \<Rightarrow> bool \<Rightarrow> string io" where
  "convert_one L wav_file src_root dst_root br dry_run =
     bindM (lift (mp3_path wav_file src_root dst_root)) (\<lambda>mp3_file.
     bindM (mkdir (parent mp3_file)) (\<lambda>_.
     bindM (path_exists mp3_file) (\<lambda>ex.
     if ex then
       bindM (logging (AlreadyPresent mp3_file)) (\<lambda>_. ret ''skipped'')
     else if dry_run then ret ''would_convert''
     else
       try_except
         (bindM (from_wav wav_file) (\<lambda>a.
          bindM (export L a mp3_file br) (\<lambda>_.
          bindM (copy_tags L wav_file mp3_file) (\<lambda>copied.
          bindM (logging (ConvertedMsg wav_file mp3_file copied)) (\<lambda>_.
          ret ''converted'')))))
         (\<lambda>e. bindM (logging (ConversionError wav_file e)) (\<lambda>_. ret ''failed'')))))"

text \<open>
  \<^verbatim>\<open>logging.basicConfig(filename=...)\<close> opens the log file for appending: it is created
  when missing, and a directory in its place raises. The log's lines are the \<open>log\<close> of
  the world.
\<close>

definition setup_logging :: "path \<Rightarrow> unit io" where
  "setup_logging log_file w =
    (case node_at (fs w) log_file of
       Some Dir \<Rightarrow> (Inl IsADirectoryError, w)
     | Some (File c) \<Rightarrow> (Inr (), w)
     | None \<Rightarrow> (Inr (), w\<lparr>fs := AList.update log_file (File Other) (fs w)\<rparr>))"

text \<open>The counting loop of the dry run.\<close>

fun dry_run_loop :: "path list \<Rightarrow> path \<Rightarrow> path \<Rightarrow> nat \<Rightarrow> nat \<Rightarrow> (nat \<times> nat) io" where
  "dry_run_loop [] src_path dst_path would_convert would_skip = ret (would_convert, would_skip)"
| "dry_run_loop (wav # rest) src_path dst_path would_convert would_skip =
     bindM (lift (mp3_path wav src_path dst_path)) (\<lambda>mp3_file.
     bindM (path_exists mp3_file) (\<lambda>ex.
     if ex then dry_run_loop rest src_path dst_path would_convert (would_skip + 1)
     else dry_run_loop rest src_path dst_path (would_convert + 1) would_skip))"

text \<open>
  The pool, on the schedule that runs the submitted tasks one after the other in
  submission order. Every submitted task runs; a task that raises keeps its exception in
  its future.
\<close>

fun submit_all :: "lib \<Rightarrow> path list \<Rightarrow> path \<Rightarrow> path \<Rightarrow> string \<Rightarrow> world \<Rightarrow> (exn + string) list \<times> world" where
  "submit_all L [] src_path dst_path br w = ([], w)"
| "submit_all L (wav # rest) src_path dst_path br w =
     (case convert_one L wav src_path dst_path br False w of
        (r, w1) \<Rightarrow> (case submit_all L rest src_path dst_path br w1 of
                      (rs, w2) \<Rightarrow> (r # rs, w2)))"

text \<open>The loop over the futures: \<^verbatim>\<open>fut.result()\<close> re-raises a task's exception.\<close>

fun tally :: "(exn + string) list \<Rightarrow> nat \<Rightarrow> nat \<Rightarrow> nat \<Rightarrow> exn + (nat \<times> nat \<times> nat)" where
  "tally [] converted skipped failed = Inr (converted, skipped, failed)"
| "tally (Inl e # rest) converted skipped failed = Inl e"
| "tally (Inr status # rest) converted skipped failed =
     (if status = ''converted'' then tally rest (converted + 1) skipped failed
      else if status = ''skipped'' then tally rest converted (skipped + 1) failed
      else if status = ''failed'' then tally rest converted skipped (failed + 1)
      else tally rest converted skipped failed)"

definition thenM :: "unit io \<Rightarrow> 'a io \<Rightarrow> 'a io" where
  "thenM m k = bindM m (\<lambda>_. k)"

definition log_header :: "path \<Rightarrow> path \<Rightarrow> string \<Rightarrow> int \<Rightarrow> bool \<Rightarrow> unit io" where
  "log_header src_path dst_path br workers dry_run =
     thenM (logging StartMsg)
    (thenM (logging (SourceMsg src_path))
    (thenM (logging (DestMsg dst_path))
    (thenM (logging (BitrateMsg br))
    (thenM (logging (WorkersMsg workers))
           (logging (DryRunMsg dry_run))))))"

definition convert_parallel :: "lib \<Rightarrow> path list \<Rightarrow> path \<Rightarrow> path \<Rightarrow> string \<Rightarrow> int \<Rightarrow> unit io" where
  "convert_parallel L wav_files src_path dst_path br workers w =
     (if workers \<le> 0 then (Inl ValueError, w)
      else case submit_all L wav_files src_path dst_path br w of
             (results, w1) \<Rightarrow>
               (case tally results 0 0 0 of
                  Inl e \<Rightarrow> (Inl e, w1)
                | Inr (converted, skipped, failed) \<Rightarrow>
                    thenM (print (SummaryTable converted skipped failed))
                          (logging (DoneMsg converted skipped failed)) w1))"

text \<open>
  \<^verbatim>\<open>run_conversion\<close>, in two parts: what it does once the list of source files is
  known and not empty (\<open>process_found\<close>: the console header, the preview, then either
  the dry-run table or the parallel conversion), and the checks, the log set-up and the
  directory walk before that.
\<close>

definition dry_run_report :: "path list \<Rightarrow> path \<Rightarrow> path \<Rightarrow> unit io" where
  "dry_run_report wav_files src_path dst_path =
     bindM (dry_run_loop wav_files src_path dst_path 0 0) (\<lambda>(would_convert, would_skip).
     print (DryRunTable would_convert would_skip))"

definition process_found :: "lib \<Rightarrow> path list \<Rightarrow> path \<Rightarrow> path \<Rightarrow> string \<Rightarrow> int \<Rightarrow> bool \<Rightarrow> int \<Rightarrow> unit io" where
  "process_found L wav_files src_path dst_path br workers dry_run preview_count =
     thenM (print (FoundMsg (length wav_files)))
    (thenM (print (ConBitrate br))
    (thenM (print (ConWorkers workers))
    (thenM (if dry_run then print DryRunActive else ret ())
    (thenM (if preview_count > 0 then preview_tags wav_files preview_count else ret ())
    (if dry_run then dry_run_report wav_files src_path dst_path
     else convert_parallel L wav_files src_path dst_path br workers)))))"

definition run_conversion :: "lib \<Rightarrow> path \<Rightarrow> path \<Rightarrow> string \<Rightarrow> int \<Rightarrow> bool \<Rightarrow> int \<Rightarrow> unit io" where
  "run_conversion L src_path dst_path br workers dry_run preview_count =
     bindM (path_exists src_path) (\<lambda>ex.
     if \<not> ex then print (SrcMissing src_path)
     else
       thenM (mkdir dst_path)
      (thenM (setup_logging (dst_path @ [''conversion.log'']))
      (thenM (log_header src_path dst_path br workers dry_run)
      (bindM (rglob src_path) (\<lambda>found.
       if sort found = [] then print NoWavFiles
       else process_found L (sort found) src_path dst_path br workers dry_run
              preview_count)))))"

section \<open>The worker of the script without dry run\<close>

text \<open>
  \<^verbatim>\<open>wav2mp3.py\<close>: \<^verbatim>\<open>read_wav_tags\<close> builds a dictionary of at most eight tags, each the
  string of the first value under its key, and \<^verbatim>\<open>process_file\<close> hands it to the
  encoder. Its log lines name files by their last component.
\<close>

definition path_name :: "path \<Rightarrow> string" where
  "path_name p = (if p = [] then [] else last p)"

definition tag_map :: "(string \<times> string) list" where
  "tag_map = [(''TIT2'', ''title''), (''TPE1'', ''artist''), (''TALB'', ''album''),
              (''TDRC'', ''date''), (''TCON'', ''genre''), (''TRCK'', ''tracknumber''),
              (''TPE2'', ''albumartist''), (''COMM'', ''comment'')]"

text \<open>\<^verbatim>\<open>str(n)\<close> for a byte, and \<^verbatim>\<open>str(v[0])\<close> for a value.\<close>

function str_nat :: "nat \<Rightarrow> string" where
  "str_nat n = (if n < 10 then [char_of (48 + n)]
                else str_nat (n div 10) @ [char_of (48 + n mod 10)])"
  by pat_completeness auto
termination
  by (relation "measure id") auto

declare str_nat.simps [simp del]

fun first_str :: "pyval \<Rightarrow> exn + string" where
  "first_str (PList (x # xs)) = Inr x"
| "first_str (PList []) = Inl IndexError"
| "first_str (PStr (c # cs)) = Inr [c]"
| "first_str (PStr []) = Inl IndexError"
| "first_str (PBytes (b # bs)) = Inr (str_nat b)"
| "first_str (PBytes []) = Inl IndexError"
| "first_str PNone = Inl TypeError"
| "first_str (PInt n) = Inl TypeError"

text \<open>
  \<^verbatim>\<open>wav_key in wav_meta.tags\<close> and \<^verbatim>\<open>str(wav_meta.tags[wav_key][0])\<close>: \<open>None\<close> when the
  key is absent. A frame without text cannot be indexed.
\<close>

fun tag_value :: "wav_tags \<Rightarrow> string \<Rightarrow> (exn + string) option" where
  "tag_value (RichTags wav_id3) wav_key =
     (case map_of wav_id3 wav_key of
        None \<Rightarrow> None
      | Some frame \<Rightarrow>
          Some (case ftext frame of None \<Rightarrow> Inl TypeError | Some v \<Rightarrow> first_str v))"
| "tag_value (FlatTags tgs) wav_key =
     (case map_of tgs wav_key of None \<Rightarrow> None | Some v \<Rightarrow> Some (first_str v))"

fun pydub_loop :: "wav_tags \<Rightarrow> (string \<times> string) list \<Rightarrow> exn + (string \<times> string) list" where
  "pydub_loop t [] = Inr []"
| "pydub_loop t ((wav_key, pydub_key) # rest) =
     (case tag_value t wav_key of
        None \<Rightarrow> pydub_loop t rest
      | Some r \<Rightarrow>
          bindE r (\<lambda>v. bindE (pydub_loop t rest) (\<lambda>pydub_tags. Inr ((pydub_key, v) # pydub_tags))))"

fun tags_empty :: "wav_tags \<Rightarrow> bool" where
  "tags_empty (RichTags wav_id3) = (wav_id3 = [])"
| "tags_empty (FlatTags tgs) = (tgs = [])"

definition read_wav_tags :: "path \<Rightarrow> (string \<times> string) list io" where
  "read_wav_tags wav_file =
     try_except
       (bindM (WAVE wav_file) (\<lambda>wav_meta.
          case wav_meta of
            None \<Rightarrow> ret []
          | Some t \<Rightarrow>
              if tags_empty t then ret []
              else
                bindM (lift (pydub_loop t tag_map)) (\<lambda>pydub_tags.
                thenM (if pydub_tags \<noteq> [] then logging (TagsRead (path_name wav_file) pydub_tags)
                       else ret ())
                      (ret pydub_tags))))
       (\<lambda>e. thenM (logging (TagsNotRead (path_name wav_file) e)) (ret []))"

text \<open>\<^verbatim>\<open>audio.export(mp3_file, format="mp3", bitrate=bitrate, tags=tags_to_apply)\<close>.\<close>

definition export_with :: "lib \<Rightarrow> pcm \<Rightarrow> path \<Rightarrow> string \<Rightarrow> (string \<times> string) list \<Rightarrow> unit io" where
  "export_with L a p br tgs = bindM (open_wb p) (\<lambda>_. encode L a p br (export_meta L tgs))"

definition process_file :: "lib \<Rightarrow> path \<Rightarrow> path \<Rightarrow> path \<Rightarrow> string \<Rightarrow> string io" where
  "process_file L wav_file src_path dst_path br =
     try_except
       (bindM (lift (mp3_path wav_file src_path dst_path)) (\<lambda>mp3_file.
        thenM (mkdir (parent mp3_file))
       (bindM (path_exists mp3_file) (\<lambda>ex.
        if ex then
          thenM (logging (AlreadyPresentName (path_name mp3_file))) (ret ''skipped'')
        else
          bindM (read_wav_tags wav_file) (\<lambda>tags_to_apply.
          bindM (from_wav wav_file) (\<lambda>a.
          thenM (export_with L a mp3_file br tags_to_apply)
         (thenM (logging (ConvertedNames (path_name wav_file) (path_name mp3_file)))
                (ret ''converted''))))))))
       (\<lambda>e. thenM (logging (ConversionErrorName (path_name wav_file) e)) (ret ''error''))"

section \<open>Command line\<close>

record args =
  src :: path
  dst :: path
  bitrate_arg :: string
  workers_arg :: int
  dry_run_arg :: bool
  preview_arg :: int

text \<open>
  \<^verbatim>\<open>main\<close> returns the process exit status: 0 when \<^verbatim>\<open>run_conversion\<close> returns, 1 when
  an exception leaves it.
\<close>

definition main :: "lib \<Rightarrow> args \<Rightarrow> world \<Rightarrow> int \<times> world" where
  "main L a w =
    (case run_conversion L (src a) (dst a) (bitrate_arg a) (workers_arg a) (dry_run_arg a)
            (preview_arg a) w of
       (Inl e, w') \<Rightarrow> (1, w')
     | (Inr u, w') \<Rightarrow> (0, w'))"

section \<open>The flat translation table\<close>

text \<open>
  The flat path as one table: each well-known key with the frame it becomes. This is
  what \<^verbatim>\<open>_copy_from_riff_info\<close> is compared with below.
\<close>

definition text_frame :: "frame_cls \<Rightarrow> pyval \<Rightarrow> id3_frame" where
  "text_frame c v = (new_frame c)\<lparr>fencoding := Some (PInt 3), ftext := Some v\<rparr>"

definition flat_table :: "(string \<times> (pyval \<Rightarrow> id3_frame)) list" where
  "flat_table =
     [(''INAM'', text_frame TIT2), (''IART'', text_frame TPE1), (''IPRD'', text_frame TALB),
      (''ICRD'', text_frame TYER), (''IGNR'', text_frame TCON), (''ITRK'', text_frame TRCK),
      (''ICMT'', \<lambda>v. (text_frame COMM v)\<lparr>flang := Some (PStr ''eng''), fdesc := Some (PStr [])\<rparr>),
      (''ISFT'', text_frame TSSE)]"

definition translate_flat :: "(string \<times> pyval) list \<Rightarrow> id3_frame list" where
  "translate_flat tgs =
     concat (map (\<lambda>(k, mk). case map_of tgs k of None \<Rightarrow> [] | Some v \<Rightarrow> [mk v]) flat_table)"

text \<open>Frames with the keys under which the tag library stores them.\<close>

definition keyed :: "lib \<Rightarrow> id3_frame list \<Rightarrow> tagset" where
  "keyed L gs = map (\<lambda>g. (hash_key L g, g)) gs"

section \<open>The rich translation, frame by frame\<close>

text \<open>
  What the cloning makes of one source frame, to compare \<^verbatim>\<open>_clone_id3_frame_to\<close> and
  the loop around it with: a frame with a \<open>text\<close> attribute becomes a frame of its class
  with encoding 3 and that text; a picture with all its attributes becomes a picture;
  any other frame has no clone; and there is no clone when the tag library refuses it.
  The translation of a container stores the clones one after the other, each under its
  key, a later one in the place of an earlier one with the same key.
\<close>

definition accepted :: "lib \<Rightarrow> id3_frame \<Rightarrow> id3_frame option" where
  "accepted L g = (if frame_raises L g then None else Some g)"

definition clone_of :: "lib \<Rightarrow> id3_frame \<Rightarrow> id3_frame option" where
  "clone_of L f =
    (case ftext f of
       Some v \<Rightarrow> accepted L (text_frame (fcls f) v)
     | None \<Rightarrow>
        if fcls f = APIC then
          (case fmime f of None \<Rightarrow> None | Some mime \<Rightarrow>
           case ftype f of None \<Rightarrow> None | Some ty \<Rightarrow>
           case fdesc f of None \<Rightarrow> None | Some de \<Rightarrow>
           case fdata f of None \<Rightarrow> None | Some da \<Rightarrow>
             accepted L ((new_frame APIC)\<lparr>fencoding := Some (PInt 3), fmime := Some mime,
               ftype := Some ty, fdesc := Some (py_or de (PStr [])), fdata := Some da\<rparr>))
        else None)"

definition store :: "lib \<Rightarrow> tagset \<Rightarrow> id3_frame \<Rightarrow> tagset" where
  "store L t g = AList.update (hash_key L g) g t"

definition translate_rich :: "lib \<Rightarrow> tagset \<Rightarrow> tagset \<Rightarrow> tagset" where
  "translate_rich L wav_id3 t =
     foldl (\<lambda>t (k, f). case clone_of L f of None \<Rightarrow> t | Some g \<Rightarrow> store L t g) t wav_id3"

definition copied_count :: "lib \<Rightarrow> tagset \<Rightarrow> nat" where
  "copied_count L wav_id3 = length (filter (\<lambda>(k, f). clone_of L f \<noteq> None) wav_id3)"

section \<open>Reference inputs\<close>

text \<open>
  A library that never raises, with an encoder that writes no tag container, and one
  whose save always raises.
\<close>

definition accepting_lib :: lib where
  "accepting_lib = \<lparr>frame_raises = (\<lambda>f. False), save_raises = (\<lambda>p. False),
     export_raises = (\<lambda>a br. False), export_tags = None, export_meta = (\<lambda>tgs. None),
     other_key = (\<lambda>n f. n)\<rparr>"

definition no_save_lib :: lib where
  "no_save_lib = accepting_lib\<lparr>save_raises := (\<lambda>p. True)\<rparr>"

definition no_encode_lib :: lib where
  "no_encode_lib = accepting_lib\<lparr>export_raises := (\<lambda>a br. True)\<rparr>"

definition empty_world :: world where
  "empty_world = \<lparr>fs = [], log = [], console = []\<rparr>"

definition song_handle :: mp3_handle where
  "song_handle = \<lparr>filename = [''d'', ''1.mp3''], h_audio = [1, 2], h_bitrate = ''192k'',
     h_tags = None\<rparr>"

definition comment_frame :: id3_frame where
  "comment_frame = (new_frame COMM)\<lparr>ftext := Some (PList [''hi'']),
     flang := Some (PStr ''deu''), fdesc := Some (PStr ''note'')\<rparr>"

definition user_frame :: id3_frame where
  "user_frame = (new_frame TXXX)\<lparr>ftext := Some (PList [''v1'', ''v2'']),
     fdesc := Some (PStr ''mood'')\<rparr>"

definition title_frame :: id3_frame where
  "title_frame = (new_frame TIT2)\<lparr>ftext := Some (PList [''Song'', ''Two''])\<rparr>"

text \<open>
  A second comment in another language, and a container with a title, two comments that
  differ in description and language, a user-defined text frame and a frame of a class
  the cloning does not know.
\<close>

definition other_comment :: id3_frame where
  "other_comment = (new_frame COMM)\<lparr>ftext := Some (PList [''salut'', ''bonjour'']),
     flang := Some (PStr ''fra''), fdesc := Some (PStr ''mot'')\<rparr>"

definition mixed_tags :: tagset where
  "mixed_tags =
     [(''TIT2'', title_frame), (''COMM:note:deu'', comment_frame),
      (''PRIV'', new_frame (OtherCls ''PRIV'')), (''COMM:mot:fra'', other_comment),
      (''TXXX:mood'', user_frame)]"

section \<open>Auxiliary notions for the properties\<close>

text \<open>
  What a tag copy can do to the file system: nothing, or a new tag container in the MP3
  file.
\<close>

definition tags_rewritten :: "filesys \<Rightarrow> path \<Rightarrow> filesys \<Rightarrow> bool" where
  "tags_rewritten f p f' =
     (f' = f \<or> (\<exists>a br t t'. node_at f p = Some (File (Mp3 a br t))
                   \<and> f' = AList.update p (File (Mp3 a br (Some t'))) f))"

text \<open>A file system grows: what exists stays, and a directory stays a directory.\<close>

definition fs_grows :: "filesys \<Rightarrow> filesys \<Rightarrow> bool" where
  "fs_grows f f' =
     (\<forall>p. (node_at f p = Some Dir \<longrightarrow> node_at f' p = Some Dir)
        \<and> (node_at f p \<noteq> None \<longrightarrow> node_at f' p \<noteq> None))"

text \<open>
  The worlds another thread or process can observe while \<^verbatim>\<open>convert_one\<close> runs, in
  order: before the call, after the directories are made, after the audio library has
  opened the destination, after the encoder has returned, after \<^verbatim>\<open>copy_tags\<close> has
  returned, after the log line. The branches are those of \<open>convert_one\<close>.
\<close>

definition convert_one_trace :: "lib \<Rightarrow> path \<Rightarrow> path \<Rightarrow> path \<Rightarrow> string \<Rightarrow> bool \<Rightarrow> world \<Rightarrow> world list" where
  "convert_one_trace L wav_file src_root dst_root br dry_run w =
    (case mp3_path wav_file src_root dst_root of
       Inl e \<Rightarrow> [w]
     | Inr mp3_file \<Rightarrow>
        (case mkdir (parent mp3_file) w of
           (Inl e, w1) \<Rightarrow> [w, w1]
         | (Inr u, w1) \<Rightarrow>
            if node_at (fs w1) mp3_file \<noteq> None then
              [w, w1, snd (logging (AlreadyPresent mp3_file) w1)]
            else if dry_run then [w, w1]
            else
              (case from_wav wav_file w1 of
                 (Inl e, w1') \<Rightarrow> [w, w1, snd (logging (ConversionError wav_file e) w1')]
               | (Inr a, w1') \<Rightarrow>
                  (case open_wb mp3_file w1' of
                     (Inl e, wo) \<Rightarrow> [w, w1, snd (logging (ConversionError wav_file e) wo)]
                   | (Inr u, wo) \<Rightarrow>
                      (case encode L a mp3_file br (export_tags L) wo of
                         (Inl e, w2) \<Rightarrow>
                           [w, w1, wo, snd (logging (ConversionError wav_file e) w2)]
                       | (Inr u, w2) \<Rightarrow>
                          (case copy_tags L wav_file mp3_file w2 of
                             (Inl e, w3) \<Rightarrow>
                               [w, w1, wo, w2, w3,
                                snd (logging (ConversionError wav_file e) w3)]
                           | (Inr n, w3) \<Rightarrow>
                               [w, w1, wo, w2, w3,
                                snd (logging (ConvertedMsg wav_file mp3_file n) w3)]))))))"

text \<open>
  A source tree \<open>s\<close> with one tagged file \<open>a/1.wav\<close> and one file \<open>A.WAV\<close>; a source
  tree with only \<open>A.WAV\<close>; a source tree with a file \<open>broken.wav\<close> that is no audio.
\<close>

definition music_world :: world where
  "music_world = \<lparr>fs =
     [([''s''], Dir), ([''s'', ''a''], Dir),
      ([''s'', ''a'', ''1.wav''],
         File (Wav (Some [1, 2]) (Some (Some (RichTags [(''TIT2'', title_frame)]))))),
      ([''s'', ''A.WAV''], File (Wav (Some [3]) (Some None)))],
     log = [], console = []\<rparr>"

definition upper_world :: world where
  "upper_world = \<lparr>fs =
     [([''s''], Dir), ([''s'', ''A.WAV''], File (Wav (Some [3]) (Some None)))],
     log = [], console = []\<rparr>"

definition broken_world :: world where
  "broken_world = \<lparr>fs = [([''s''], Dir), ([''s'', ''broken.wav''], File Other)],
     log = [], console = []\<rparr>"

text \<open>
  A source file whose audio decodes but whose tag container cannot be parsed, a frame of
  a class the cloning does not know, without a \<open>text\<close> attribute, and a source tree
  with one file that carries the mixed container.
\<close>

definition mixed_world :: world where
  "mixed_world = \<lparr>fs =
     [([''s''], Dir),
      ([''s'', ''m.wav''], File (Wav (Some [4]) (Some (Some (RichTags mixed_tags)))))],
     log = [], console = []\<rparr>"

text \<open>The same tree once the encoder has written the destination of that file.\<close>

definition encoded_world :: world where
  "encoded_world = \<lparr>fs =
     [([''s''], Dir),
      ([''s'', ''m.wav''], File (Wav (Some [4]) (Some (Some (RichTags mixed_tags))))),
      ([''d''], Dir),
      ([''d'', ''m.mp3''], File (Mp3 [4] ''192k'' None))],
     log = [], console = []\<rparr>"

definition mangled_world :: world where
  "mangled_world = \<lparr>fs = [([''s''], Dir), ([''s'', ''x.wav''], File (Wav (Some [7]) None))],
     log = [], console = []\<rparr>"

definition odd_frame :: id3_frame where
  "odd_frame = new_frame (OtherCls ''PRIV'')"

text \<open>
  A source tree with two files and a destination tree in which the MP3 of one of them
  exists already.
\<close>

definition half_world :: world where
  "half_world = \<lparr>fs =
     [([''s''], Dir), ([''s'', ''a''], Dir),
      ([''s'', ''a'', ''1.wav''],
         File (Wav (Some [1, 2]) (Some (Some (RichTags [(''TIT2'', title_frame)]))))),
      ([''s'', ''b.wav''], File (Wav (Some [5]) (Some None))),
      ([''d''], Dir),
      ([''d'', ''b.mp3''], File (Mp3 [5] ''128k'' None))],
     log = [], console = []\<rparr>"

text \<open>
  The exceptions that come from paths and directories, as opposed to those of the codec
  and of the tag library.
\<close>

definition path_error :: "exn \<Rightarrow> bool" where
  "path_error e =
     (e = ValueError \<or> e = FileExistsError \<or> e = NotADirectoryError \<or> e = IsADirectoryError)"

text \<open>Command lines: a source directory that does not exist, and the source tree \<open>s\<close>.\<close>

definition missing_args :: args where
  "missing_args = \<lparr>src = [''nosuch''], dst = [''d''], bitrate_arg = ''192k'', workers_arg = 2,
     dry_run_arg = False, preview_arg = 0\<rparr>"

definition broken_args :: args where
  "broken_args = \<lparr>src = [''s''], dst = [''d''], bitrate_arg = ''192k'', workers_arg = 2,
     dry_run_arg = False, preview_arg = 0\<rparr>"

section \<open>Facts about the effect combinators\<close>

lemma bindM_ret [simp]: "bindM (ret x) f w = f x w"
  by (simp add: bindM_def ret_def)

lemma bindM_logging [simp]: "bindM (logging ev) f w = f () (w\<lparr>log := log w @ [ev]\<rparr>)"
  by (simp add: bindM_def logging_def)

lemma bindM_print [simp]: "bindM (print ev) f w = f () (w\<lparr>console := console w @ [ev]\<rparr>)"
  by (simp add: bindM_def print_def)

lemma bindM_lift [simp]:
  "bindM (lift (Inr x)) f w = f x w"
  "bindM (lift (Inl e)) f w = (Inl e, w)"
  by (simp_all add: bindM_def lift_def)

lemma bindE_simps [simp]:
  "bindE (Inr x) f = f x"
  "bindE (Inl e) f = Inl e"
  by (simp_all add: bindE_def)

lemma getattr_simps [simp]:
  "getattr (Some x) n = Inr x"
  "getattr None n = Inl (AttributeError n)"
  by (simp_all add: getattr_def)

section \<open>Rich path: cloning frames\<close>

lemma clone_branches_clone:
  assumes "clone_of L f = Some g"
  shows "clone_branches L t f = Inr (Some (store L t g))"
proof (cases "ftext f")
  case (Some v)
  with assms show ?thesis
    by (simp add: clone_of_def clone_branches_def add_frame_def accepted_def store_def
      text_frame_def bindE_def getattr_def split: if_splits)
next
  case None
  with assms have a: "fcls f = APIC" by (simp add: clone_of_def split: if_splits)
  from assms None a obtain mime ty de da where
    "fmime f = Some mime" "ftype f = Some ty" "fdesc f = Some de" "fdata f = Some da"
    by (auto simp: clone_of_def split: option.splits)
  with assms None a show ?thesis
    by (simp add: clone_of_def clone_branches_def add_frame_def accepted_def store_def
      bindE_def getattr_def split: if_splits)
qed

lemma clone_branches_no_clone:
  assumes "clone_of L f = None"
  shows "(\<exists>e. clone_branches L t f = Inl e) \<or> clone_branches L t f = Inr None"
proof (cases "clone_branches L t f")
  case (Inl e)
  then show ?thesis by blast
next
  case (Inr r)
  have "r = None"
  proof (cases r)
    case None then show ?thesis .
  next
    case (Some t')
    show ?thesis
    proof (cases "ftext f")
      case (Some v)
      with assms Inr \<open>r = Some t'\<close> show ?thesis
        by (simp add: clone_of_def clone_branches_def add_frame_def accepted_def
            text_frame_def bindE_def getattr_def split: if_splits)
    next
      case None
      with Inr \<open>r = Some t'\<close> have a: "fcls f = APIC"
        by (simp add: clone_branches_def bindE_def getattr_def split: if_splits option.splits)
      with assms Inr \<open>r = Some t'\<close> None show ?thesis
        by (simp add: clone_of_def clone_branches_def add_frame_def accepted_def
            bindE_def getattr_def split: if_splits option.splits)
    qed
  qed
  with Inr show ?thesis by simp
qed
lemma clone_id3_frame_to_clone:
  assumes "clone_of L f = Some g"
  shows "clone_id3_frame_to L t key f w = (Inr (True, store L t g), w)"
  using clone_branches_clone[OF assms] by (simp add: clone_id3_frame_to_def ret_def)

lemma clone_id3_frame_to_no_clone:
  assumes "clone_of L f = None"
  shows "\<exists>ev. clone_id3_frame_to L t key f w = (Inr (False, t), w\<lparr>log := log w @ [ev]\<rparr>)"
  using clone_branches_no_clone[OF assms, of t]
  by (auto simp: clone_id3_frame_to_def ret_def)

lemma translate_rich_Cons:
  "translate_rich L ((k, f) # items) t =
     translate_rich L items (case clone_of L f of None \<Rightarrow> t | Some g \<Rightarrow> store L t g)"
  by (simp add: translate_rich_def)

lemma translate_rich_snoc:
  "translate_rich L (items @ [(k, f)]) t =
     (case clone_of L f of None \<Rightarrow> translate_rich L items t
      | Some g \<Rightarrow> store L (translate_rich L items t) g)"
  by (simp add: translate_rich_def split: option.splits)

lemma copied_count_Cons:
  "copied_count L ((k, f) # items) =
     (if clone_of L f = None then copied_count L items else Suc (copied_count L items))"
  by (simp add: copied_count_def)

lemma clone_loop_result:
  "\<exists>evs. clone_loop L items t c w =
     (Inr (c + copied_count L items, translate_rich L items t), w\<lparr>log := log w @ evs\<rparr>)"
proof (induction items arbitrary: t c w)
  case Nil
  have "clone_loop L [] t c w =
     (Inr (c + copied_count L [], translate_rich L [] t), w\<lparr>log := log w @ []\<rparr>)"
    by (simp add: ret_def copied_count_def translate_rich_def)
  then show ?case by blast
next
  case (Cons it items)
  obtain k f where it: "it = (k, f)" by (cases it)
  show ?case
  proof (cases "clone_of L f")
    case None
    from clone_id3_frame_to_no_clone[OF None, of t k w] obtain ev where
      s1: "clone_id3_frame_to L t k f w = (Inr (False, t), w\<lparr>log := log w @ [ev]\<rparr>)" by blast
    from Cons.IH[of t c "w\<lparr>log := log w @ [ev]\<rparr>"] obtain evs where
      s2: "clone_loop L items t c (w\<lparr>log := log w @ [ev]\<rparr>) =
        (Inr (c + copied_count L items, translate_rich L items t), w\<lparr>log := log w @ (ev # evs)\<rparr>)"
      by auto
    have "clone_loop L (it # items) t c w =
        (Inr (c + copied_count L (it # items), translate_rich L (it # items) t),
         w\<lparr>log := log w @ (ev # evs)\<rparr>)"
      using it None s1 s2 by (simp add: bindM_def copied_count_Cons translate_rich_Cons)
    then show ?thesis by blast
  next
    case (Some g)
    have s1: "clone_id3_frame_to L t k f w = (Inr (True, store L t g), w)"
      using clone_id3_frame_to_clone[OF Some] .
    from Cons.IH[of "store L t g" "c + 1" w] obtain evs where
      s2: "clone_loop L items (store L t g) (c + 1) w =
        (Inr (c + 1 + copied_count L items, translate_rich L items (store L t g)),
         w\<lparr>log := log w @ evs\<rparr>)"
      by blast
    have "clone_loop L (it # items) t c w =
        (Inr (c + copied_count L (it # items), translate_rich L (it # items) t),
         w\<lparr>log := log w @ evs\<rparr>)"
      using it Some s1 s2 by (simp add: bindM_def copied_count_Cons translate_rich_Cons)
    then show ?thesis by blast
  qed
qed

lemma translate_rich_lookup:
  assumes "(k, f) \<in> set items" and "clone_of L f = Some g"
    and "\<forall>(k', f') \<in> set items. \<forall>g'. clone_of L f' = Some g' \<and> hash_key L g' = hash_key L g \<longrightarrow> g' = g"
  shows "map_of (translate_rich L items t) (hash_key L g) = Some g"
  using assms
proof (induction items rule: rev_induct)
  case Nil
  then show ?case by simp
next
  case (snoc it items)
  obtain k' f' where it: "it = (k', f')" by (cases it)
  from snoc.prems(3) have rest: "\<forall>(k', f') \<in> set items. \<forall>g'. clone_of L f' = Some g' \<and> hash_key L g' = hash_key L g \<longrightarrow> g' = g"
    by auto
  show ?case
  proof (cases "clone_of L f'")
    case None
    with snoc.prems(1,2) it have "(k, f) \<in> set items" by auto
    from snoc.IH[OF this snoc.prems(2) rest] None it show ?thesis
      by (simp add: translate_rich_snoc)
  next
    case (Some g')
    show ?thesis
    proof (cases "hash_key L g' = hash_key L g")
      case True
      with snoc.prems(3) Some it have "g' = g" by auto
      with Some it show ?thesis
        by (simp add: translate_rich_snoc store_def update_conv')
    next
      case False
      with snoc.prems(1,2) Some it have "(k, f) \<in> set items" by auto
      from snoc.IH[OF this snoc.prems(2) rest] Some it False show ?thesis
        by (simp add: translate_rich_snoc store_def update_conv')
    qed
  qed
qed


text \<open>
  The branches for comment frames and user-defined text frames never add a frame: such a
  frame either has a \<open>text\<close> attribute, and then the first branch clones it without
  language and description, or it has none, and then reading \<open>frame.text\<close> in its own
  branch raises.
\<close>

lemma comment_branches_unreachable:
  assumes "fcls f = COMM \<or> fcls f = TXXX"
    and "clone_branches L t f = Inr (Some t')"
  shows "\<exists>g. t' = AList.update (hash_key L g) g t \<and> flang g = None \<and> fdesc g = None"
proof (cases "ftext f")
  case None
  with assms show ?thesis
    by (auto simp: clone_branches_def bindE_def getattr_def split: if_splits option.splits)
next
  case (Some v)
  with assms(2) have "t' = AList.update (hash_key L (text_frame (fcls f) v)) (text_frame (fcls f) v) t"
    by (simp add: clone_branches_def add_frame_def text_frame_def split: if_splits)
  moreover have "flang (text_frame (fcls f) v) = None" "fdesc (text_frame (fcls f) v) = None"
    by (simp_all add: text_frame_def new_frame_def)
  ultimately show ?thesis by blast
qed

text \<open>
  C1. A comment frame with language \<open>deu\<close> and description \<open>note\<close>, and a user-defined
  text frame with description \<open>mood\<close>, both carry a \<open>text\<close> attribute, so the first
  branch clones them: the clone is built from the encoding and the text only. Neither
  the language nor the description is passed on, so the clones are stored under the keys
  of a comment without description in the language \<open>XXX\<close> and of a user-defined text
  frame without description.
\<close>

theorem clone_comment_drops_lang_desc:
  "clone_id3_frame_to accepting_lib [] ''COMM:note:deu'' comment_frame empty_world =
     (Inr (True, [(''COMM::XXX'',
                   \<lparr>fcls = COMM, fencoding = Some (PInt 3), ftext = Some (PList [''hi'']),
                    flang = None, fdesc = None, fmime = None, ftype = None, fdata = None\<rparr>)]),
      empty_world)
   \<and> clone_id3_frame_to accepting_lib [] ''TXXX:mood'' user_frame empty_world =
     (Inr (True, [(''TXXX:'',
                   \<lparr>fcls = TXXX, fencoding = Some (PInt 3),
                    ftext = Some (PList [''v1'', ''v2'']),
                    flang = None, fdesc = None, fmime = None, ftype = None, fdata = None\<rparr>)]),
      empty_world)"
  by (simp add: clone_id3_frame_to_def clone_branches_def add_frame_def accepting_lib_def
      ret_def new_frame_def comment_frame_def user_frame_def hash_key_def)

text \<open>
  Two comments of one container that differ in language and description are therefore
  stored under one key, and the second takes the place of the first.
\<close>

lemma comments_collapse:
  "fst (clone_loop accepting_lib mixed_tags [] 0 empty_world) =
     Inr (4, [(''TIT2'', text_frame TIT2 (PList [''Song'', ''Two''])),
              (''COMM::XXX'', text_frame COMM (PList [''salut'', ''bonjour''])),
              (''TXXX:'', text_frame TXXX (PList [''v1'', ''v2'']))])"
  by code_simp

section \<open>Flat path: the translation table\<close>

lemma riff_loop_table:
  assumes "\<forall>f \<in> set (concat (map (\<lambda>(k, c). case map_of tgs k of None \<Rightarrow> [] | Some v \<Rightarrow> [text_frame c v]) tbl)). \<not> frame_raises L f"
  shows "riff_loop L tgs tbl t n =
     Inr (n + length (concat (map (\<lambda>(k, c). case map_of tgs k of None \<Rightarrow> [] | Some v \<Rightarrow> [text_frame c v]) tbl)),
          foldl (store L) t (concat (map (\<lambda>(k, c). case map_of tgs k of None \<Rightarrow> [] | Some v \<Rightarrow> [text_frame c v]) tbl)))"
  using assms
proof (induction tbl arbitrary: t n)
  case Nil
  then show ?case by simp
next
  case (Cons row tbl)
  obtain k c where row: "row = (k, c)" by (cases row)
  show ?case
  proof (cases "map_of tgs k")
    case None
    with Cons row show ?thesis by simp
  next
    case (Some v)
    with Cons.prems row have ok: "\<not> frame_raises L (text_frame c v)" by simp
    from Cons.prems row Some have rest: "\<forall>f \<in> set (concat (map (\<lambda>(k, c). case map_of tgs k of None \<Rightarrow> [] | Some v \<Rightarrow> [text_frame c v]) tbl)). \<not> frame_raises L f"
      by simp
    show ?thesis
      using Cons.IH[OF rest] row Some ok
      by (simp add: add_frame_def text_frame_def store_def)
  qed
qed

lemma riff_frames_table:
  assumes "\<forall>f \<in> set (translate_flat tgs). \<not> frame_raises L f"
  shows "riff_frames L tgs [] =
     Inr (length (translate_flat tgs), foldl (store L) [] (translate_flat tgs))"
proof -
  let ?six = "concat (map (\<lambda>(k, c). case map_of tgs k of None \<Rightarrow> [] | Some v \<Rightarrow> [text_frame c v]) mapping)"
  let ?cm = "case map_of tgs ''ICMT'' of None \<Rightarrow> [] | Some v \<Rightarrow> [(text_frame COMM v)\<lparr>flang := Some (PStr ''eng''), fdesc := Some (PStr [])\<rparr>]"
  let ?sw = "case map_of tgs ''ISFT'' of None \<Rightarrow> [] | Some v \<Rightarrow> [text_frame TSSE v]"
  have split: "translate_flat tgs = ?six @ ?cm @ ?sw"
    by (simp add: translate_flat_def flat_table_def mapping_def)
  have six: "\<forall>f \<in> set ?six. \<not> frame_raises L f"
    using assms unfolding split by auto
  have cm: "\<forall>f \<in> set ?cm. \<not> frame_raises L f"
    using assms unfolding split by auto
  have sw: "\<forall>f \<in> set ?sw. \<not> frame_raises L f"
    using assms unfolding split by auto
  have l: "riff_loop L tgs mapping [] 0 = Inr (length ?six, foldl (store L) [] ?six)"
    using riff_loop_table[OF six, of "[]" 0] by simp
  have c: "riff_comment L tgs (foldl (store L) [] ?six) (length ?six) =
      Inr (length (?six @ ?cm), foldl (store L) [] (?six @ ?cm))"
    using cm by (simp add: riff_comment_def add_frame_def text_frame_def new_frame_def store_def split: option.splits)
  have s: "riff_software L tgs (foldl (store L) [] (?six @ ?cm)) (length (?six @ ?cm)) =
      Inr (length (?six @ ?cm @ ?sw), foldl (store L) [] (?six @ ?cm @ ?sw))"
    using sw by (simp add: riff_software_def add_frame_def text_frame_def new_frame_def store_def split: option.splits)
  have "bindE (riff_loop L tgs mapping [] 0) (\<lambda>(c1, t1).
     bindE (riff_comment L tgs t1 c1) (\<lambda>(c2, t2). riff_software L tgs t2 c2)) =
     Inr (length (?six @ ?cm @ ?sw), foldl (store L) [] (?six @ ?cm @ ?sw))"
    unfolding l using c s by simp
  then show ?thesis
    unfolding riff_frames_def split .
qed

lemma update_absent: "k \<notin> fst ` set t \<Longrightarrow> AList.update k v t = t @ [(k, v)]"
  by (induction t) auto

lemma store_distinct:
  assumes "distinct (map (hash_key L) gs)"
    and "\<forall>g \<in> set gs. hash_key L g \<notin> fst ` set t"
  shows "foldl (store L) t gs = t @ keyed L gs"
  using assms
proof (induction gs arbitrary: t)
  case Nil
  then show ?case by (simp add: keyed_def)
next
  case (Cons g gs)
  from Cons.prems have s: "store L t g = t @ [(hash_key L g, g)]"
    by (simp add: store_def update_absent)
  have d: "distinct (map (hash_key L) gs)" using Cons.prems(1) by simp
  have n: "\<forall>g' \<in> set gs. hash_key L g' \<notin> fst ` set (store L t g)"
  proof
    fix g' assume m: "g' \<in> set gs"
    from Cons.prems(1) have "hash_key L g \<notin> hash_key L ` set gs" by simp
    with m have "hash_key L g' \<noteq> hash_key L g" by (metis imageI)
    moreover from m Cons.prems(2) have "hash_key L g' \<notin> fst ` set t" by simp
    ultimately show "hash_key L g' \<notin> fst ` set (store L t g)"
      unfolding s by auto
  qed
  have "foldl (store L) (store L t g) gs = store L t g @ keyed L gs"
    by (rule Cons.IH[OF d n])
  then show ?case by (simp add: s keyed_def)
qed

lemma flat_keys_distinct: "distinct (map (hash_key L) (translate_flat tgs))"
proof -
  have e: "[''TIT2'', ''TPE1'', ''TALB'', ''TYER'', ''TCON'', ''TRCK'', ''COMM::eng'', ''TSSE''] =
      [''TIT2''] @ [''TPE1''] @ [''TALB''] @ [''TYER''] @ [''TCON''] @ [''TRCK''] @ [''COMM::eng''] @ [''TSSE''] @ []"
    by simp
  have "subseq (map (hash_key L) (translate_flat tgs))
      [''TIT2'', ''TPE1'', ''TALB'', ''TYER'', ''TCON'', ''TRCK'', ''COMM::eng'', ''TSSE'']"
    unfolding e
    apply (simp only: translate_flat_def flat_table_def list.map concat.simps prod.case map_append)
    apply (intro list_emb_append_mono)
    apply (simp_all add: hash_key_def text_frame_def new_frame_def split: option.splits)
    done
  then have "map (hash_key L) (translate_flat tgs) \<in>
      set (subseqs [''TIT2'', ''TPE1'', ''TALB'', ''TYER'', ''TCON'', ''TRCK'', ''COMM::eng'', ''TSSE''])"
    by (simp only: in_set_subseqs)
  moreover have "distinct [''TIT2'', ''TPE1'', ''TALB'', ''TYER'', ''TCON'', ''TRCK'', ''COMM::eng'', ''TSSE'']"
    by simp
  ultimately show ?thesis by (rule subseqs_distinctD)
qed

lemma flat_saved: "foldl (store L) [] (translate_flat tgs) = keyed L (translate_flat tgs)"
  using store_distinct[OF flat_keys_distinct, where t = "[]"] by simp

lemma translate_flat_unmapped:
  assumes "k \<notin> fst ` set flat_table"
  shows "translate_flat ((k, v) # tgs) = translate_flat tgs"
proof -
  have "map (\<lambda>(k', mk). case map_of ((k, v) # tgs) k' of None \<Rightarrow> [] | Some v \<Rightarrow> [mk v]) flat_table
      = map (\<lambda>(k', mk). case map_of tgs k' of None \<Rightarrow> [] | Some v \<Rightarrow> [mk v]) flat_table"
    using assms by (intro map_cong refl) force
  then show ?thesis
    unfolding translate_flat_def by (rule arg_cong)
qed

lemma copy_riff_saved:
  assumes "\<forall>f \<in> set (translate_flat tgs). \<not> frame_raises L f"
    and "\<not> save_raises L (filename h)"
  shows "copy_from_riff_info L tgs h w =
           (Inr (length (translate_flat tgs)),
            w\<lparr>fs := AList.update (filename h)
                     (File (Mp3 (h_audio h) (h_bitrate h) (Some (keyed L (translate_flat tgs)))))
                     (fs w)\<rparr>)"
proof -
  have "fresh_tags h = []"
    by (simp add: fresh_tags_def split: option.splits)
  then show ?thesis
    using assms(2) riff_frames_table[OF assms(1)] flat_saved[of L tgs]
    by (simp add: copy_from_riff_info_def save_def bindM_def ret_def lift_def)
qed

text \<open>
  C3, as the code has it. The flat path applies the table keyed by the RIFF INFO names
  \<open>INAM\<close>, \<open>IART\<close>, \<open>IPRD\<close>, \<open>ICRD\<close>, \<open>IGNR\<close>, \<open>ITRK\<close>, \<open>ICMT\<close>, \<open>ISFT\<close>: when the tag
  library accepts the frames and the save succeeds, the saved tag set is exactly the
  table's translation of the keys present, with each value taken as it is and each frame
  under its own key, the count returned is its length, and nothing is logged. A key
  outside the table changes nothing.
\<close>

theorem flat_translation_table:
  assumes "\<forall>f \<in> set (translate_flat tgs). \<not> frame_raises L f"
    and "\<not> save_raises L (filename h)"
  shows "copy_from_riff_info L tgs h w =
           (Inr (length (translate_flat tgs)),
            w\<lparr>fs := AList.update (filename h)
                     (File (Mp3 (h_audio h) (h_bitrate h) (Some (keyed L (translate_flat tgs)))))
                     (fs w)\<rparr>)
         \<and> (\<forall>k v. k \<notin> fst ` set flat_table \<longrightarrow>
               translate_flat ((k, v) # tgs) = translate_flat tgs)"
  using copy_riff_saved[OF assms] translate_flat_unmapped by blast

theorem flat_translation_table_witness:
  "list_all (\<lambda>f. \<not> frame_raises accepting_lib f)
       (translate_flat [(''XFOO'', PStr ''x''), (''INAM'', PStr ''Song'')])
   \<and> \<not> save_raises accepting_lib (filename song_handle)
   \<and> ''XFOO'' \<notin> fst ` set flat_table
   \<and> translate_flat [(''XFOO'', PStr ''x''), (''INAM'', PStr ''Song'')] =
       [text_frame TIT2 (PStr ''Song'')]
   \<and> copy_from_riff_info accepting_lib [(''XFOO'', PStr ''x''), (''INAM'', PStr ''Song'')]
       song_handle empty_world =
       (Inr 1, empty_world\<lparr>fs := [([''d'', ''1.mp3''],
           File (Mp3 [1, 2] ''192k'' (Some [(''TIT2'', text_frame TIT2 (PStr ''Song''))])))]\<rparr>)"
proof -
  have a: "\<forall>f \<in> set (translate_flat [(''XFOO'', PStr ''x''), (''INAM'', PStr ''Song'')]).
       \<not> frame_raises accepting_lib f"
    by (simp add: accepting_lib_def)
  have b: "\<not> save_raises accepting_lib (filename song_handle)"
    by (simp add: accepting_lib_def)
  have c: "''XFOO'' \<notin> fst ` set flat_table"
    by (simp add: flat_table_def)
  have d: "translate_flat [(''XFOO'', PStr ''x''), (''INAM'', PStr ''Song'')] =
       [text_frame TIT2 (PStr ''Song'')]"
    by (simp add: translate_flat_def flat_table_def)
  have k: "keyed accepting_lib [text_frame TIT2 (PStr ''Song'')] =
       [(''TIT2'', text_frame TIT2 (PStr ''Song''))]"
    by (simp add: keyed_def hash_key_def text_frame_def new_frame_def)
  from flat_translation_table [OF a b, of empty_world] c d a b k
  show ?thesis
    by (simp add: song_handle_def empty_world_def list_all_iff)
qed

text \<open>
  C3, as the claim states it. A flat container holding only the key \<open>TIT2\<close> is saved as
  an empty tag set: \<open>TIT2\<close> is a target frame name, not a key of the table.
\<close>

theorem flat_tit2_key_dropped:
  "copy_from_riff_info accepting_lib [(''TIT2'', PStr ''Song'')] song_handle empty_world =
     (Inr 0, empty_world\<lparr>fs := [([''d'', ''1.mp3''], File (Mp3 [1, 2] ''192k'' (Some [])))]\<rparr>)"
  by (simp add: copy_from_riff_info_def riff_frames_def mapping_def riff_comment_def
      riff_software_def fresh_tags_def song_handle_def save_def accepting_lib_def
      empty_world_def bindM_def ret_def lift_def)

section \<open>File system facts\<close>

lemma node_at_update:
  "node_at (AList.update p n f) q = (if q = p \<and> q \<noteq> [] then Some n else node_at f q)"
  by (simp add: node_at_def update_conv')

lemma node_at_root [simp]: "node_at f [] = Some Dir"
  by (simp add: node_at_def)

lemma mkdir_parents_noop: "node_at f p = Some Dir \<Longrightarrow> mkdir_parents f p = Inr f"
  by (subst mkdir_parents.simps) simp

lemma mkdir_parents_dir: "mkdir_parents f p = Inr f' \<Longrightarrow> node_at f' p = Some Dir"
  by (subst (asm) mkdir_parents.simps)
     (auto simp: node_at_update split: option.splits node.splits if_splits sum.splits)

lemma mkdir_parents_errors:
  "mkdir_parents f p = Inl e \<Longrightarrow> e = FileExistsError \<or> e = NotADirectoryError"
proof (induction f p rule: mkdir_parents.induct)
  case (1 f p)
  from "1.prems" show ?case
    apply (subst (asm) mkdir_parents.simps)
    apply (auto split: option.splits node.splits if_splits sum.splits dest: "1.IH")
    done
qed

lemma mkdir_parents_node:
  "mkdir_parents f p = Inr f' \<Longrightarrow>
     node_at f' q = node_at f q \<or> (node_at f q = None \<and> prefix q p \<and> node_at f' q = Some Dir)"
proof (induction f p arbitrary: f' rule: mkdir_parents.induct)
  case (1 f p)
  show ?case
  proof (cases "node_at f p")
    case (Some n)
    with "1.prems" show ?thesis
      by (subst (asm) mkdir_parents.simps) (auto split: node.splits)
  next
    case None
    then have pne: "p \<noteq> []" by (auto simp: node_at_def split: if_splits)
    show ?thesis
    proof (cases "node_at f (parent p)")
      case (Some n)
      with None "1.prems" have "f' = AList.update p Dir f"
        by (subst (asm) mkdir_parents.simps) (auto split: node.splits)
      with None show ?thesis by (auto simp: node_at_update)
    next
      case pn: None
      with None pne "1.prems" obtain f1 where f1: "mkdir_parents f (parent p) = Inr f1"
        and f': "f' = AList.update p Dir f1"
        by (subst (asm) mkdir_parents.simps) (auto split: sum.splits)
      from "1.IH"[OF None pn pne f1]
      have ih: "node_at f1 q = node_at f q \<or> (node_at f q = None \<and> prefix q (parent p) \<and> node_at f1 q = Some Dir)" .
      have pp: "prefix (parent p) p"
        using pne by (simp add: parent_def prefixeq_butlast)
      show ?thesis
      proof (cases "q = p")
        case True
        with None f' pne show ?thesis by (simp add: node_at_update)
      next
        case False
        with f' have "node_at f' q = node_at f1 q" by (simp add: node_at_update)
        with ih pp show ?thesis by (auto intro: prefix_order.trans)
      qed
    qed
  qed
qed

section \<open>What copying tags does to the world\<close>

lemma ret_apply [simp]: "ret x w = (Inr x, w)"
  by (simp add: ret_def)

lemma lift_apply [simp]: "lift r w = (r, w)"
  by (simp add: lift_def)

lemma clone_id3_frame_to_total:
  "\<exists>ok t' evs. clone_id3_frame_to L t key f w = (Inr (ok, t'), w\<lparr>log := log w @ evs\<rparr>)"
proof (cases "clone_branches L t f")
  case (Inl e)
  then have "clone_id3_frame_to L t key f w = (Inr (False, t), w\<lparr>log := log w @ [FrameNotCloned key e]\<rparr>)"
    by (simp add: clone_id3_frame_to_def ret_def)
  then show ?thesis by blast
next
  case (Inr r)
  show ?thesis
  proof (cases r)
    case None
    with Inr have "clone_id3_frame_to L t key f w = (Inr (False, t), w\<lparr>log := log w @ [FrameSkipped key]\<rparr>)"
      by (simp add: clone_id3_frame_to_def ret_def)
    then show ?thesis by blast
  next
    case (Some t')
    with Inr have "clone_id3_frame_to L t key f w = (Inr (True, t'), w\<lparr>log := log w @ []\<rparr>)"
      by (simp add: clone_id3_frame_to_def ret_def)
    then show ?thesis by blast
  qed
qed

lemma clone_loop_total:
  "\<exists>n t' evs. clone_loop L items t c w = (Inr (n, t'), w\<lparr>log := log w @ evs\<rparr>)"
proof (induction items arbitrary: t c w)
  case Nil
  have "clone_loop L [] t c w = (Inr (c, t), w\<lparr>log := log w @ []\<rparr>)"
    by (simp add: ret_def)
  then show ?case by blast
next
  case (Cons it items)
  obtain key f where it: "it = (key, f)" by (cases it)
  obtain ok t1 evs1 where s1: "clone_id3_frame_to L t key f w = (Inr (ok, t1), w\<lparr>log := log w @ evs1\<rparr>)"
    using clone_id3_frame_to_total by blast
  obtain n t' evs2 where s2: "clone_loop L items t1 (if ok then c + 1 else c) (w\<lparr>log := log w @ evs1\<rparr>)
        = (Inr (n, t'), (w\<lparr>log := log w @ evs1\<rparr>)\<lparr>log := log (w\<lparr>log := log w @ evs1\<rparr>) @ evs2\<rparr>)"
    using Cons.IH by blast
  have "clone_loop L (it # items) t c w = (Inr (n, t'), w\<lparr>log := log w @ (evs1 @ evs2)\<rparr>)"
    using it s1 s2 by (simp add: bindM_def)
  then show ?case by blast
qed

lemma mp3_of_Inr:
  "mp3_of p nd = Inr h \<Longrightarrow>
     \<exists>a br t. nd = Some (File (Mp3 a br t)) \<and> h = \<lparr>filename = p, h_audio = a, h_bitrate = br, h_tags = t\<rparr>"
  by (cases "(p, nd)" rule: mp3_of.cases) auto

lemma copy_id3_effect:
  assumes "mp3_of p (node_at (fs w) p) = Inr h"
  shows "\<exists>r f' evs. copy_id3_from_wav_id3 L items h w = (r, w\<lparr>fs := f', log := log w @ evs\<rparr>)
           \<and> tags_rewritten (fs w) p f' \<and> (save_raises L p \<longrightarrow> f' = fs w)"
proof -
  from mp3_of_Inr[OF assms] obtain a br t where nd: "node_at (fs w) p = Some (File (Mp3 a br t))"
    and h: "h = \<lparr>filename = p, h_audio = a, h_bitrate = br, h_tags = t\<rparr>" by blast
  obtain n t' evs where l: "clone_loop L items (fresh_tags h) 0 w = (Inr (n, t'), w\<lparr>log := log w @ evs\<rparr>)"
    using clone_loop_total by blast
  show ?thesis
  proof (cases "save_raises L p")
    case True
    with l h have "copy_id3_from_wav_id3 L items h w = (Inl MutagenError, w\<lparr>fs := fs w, log := log w @ evs\<rparr>)"
      by (simp add: copy_id3_from_wav_id3_def bindM_def save_def)
    then show ?thesis unfolding tags_rewritten_def by blast
  next
    case False
    with l h have "copy_id3_from_wav_id3 L items h w =
        (Inr n, w\<lparr>fs := AList.update p (File (Mp3 a br (Some t'))) (fs w), log := log w @ evs\<rparr>)"
      by (simp add: copy_id3_from_wav_id3_def bindM_def save_def ret_def)
    with nd False show ?thesis unfolding tags_rewritten_def by blast
  qed
qed

lemma copy_riff_effect:
  assumes "mp3_of p (node_at (fs w) p) = Inr h"
  shows "\<exists>r f' evs. copy_from_riff_info L tgs h w = (r, w\<lparr>fs := f', log := log w @ evs\<rparr>)
           \<and> tags_rewritten (fs w) p f' \<and> (save_raises L p \<longrightarrow> f' = fs w)"
proof -
  from mp3_of_Inr[OF assms] obtain a br t where nd: "node_at (fs w) p = Some (File (Mp3 a br t))"
    and h: "h = \<lparr>filename = p, h_audio = a, h_bitrate = br, h_tags = t\<rparr>" by blast
  show ?thesis
  proof (cases "riff_frames L tgs (fresh_tags h)")
    case (Inl e)
    then have "copy_from_riff_info L tgs h w = (Inl e, w\<lparr>fs := fs w, log := log w @ []\<rparr>)"
      by (simp add: copy_from_riff_info_def)
    then show ?thesis unfolding tags_rewritten_def by blast
  next
    case (Inr r)
    obtain n t' where r: "r = (n, t')" by (cases r)
    show ?thesis
    proof (cases "save_raises L p")
      case True
      with Inr r h have "copy_from_riff_info L tgs h w = (Inl MutagenError, w\<lparr>fs := fs w, log := log w @ []\<rparr>)"
        by (simp add: copy_from_riff_info_def bindM_def save_def)
      then show ?thesis unfolding tags_rewritten_def by blast
    next
      case False
      with Inr r h have "copy_from_riff_info L tgs h w =
         (Inr n, w\<lparr>fs := AList.update p (File (Mp3 a br (Some t'))) (fs w), log := log w @ []\<rparr>)"
        by (simp add: copy_from_riff_info_def bindM_def save_def ret_def)
      with nd False show ?thesis unfolding tags_rewritten_def by blast
    qed
  qed
qed

lemma copy_tags_body_effect:
  "\<exists>r f' evs. copy_tags_body L wav p w = (r, w\<lparr>fs := f', log := log w @ evs\<rparr>)
      \<and> tags_rewritten (fs w) p f' \<and> (save_raises L p \<longrightarrow> f' = fs w)"
proof -
  have triv: "\<exists>r' f' evs. (r, w) = (r', w\<lparr>fs := f', log := log w @ evs\<rparr>) \<and> tags_rewritten (fs w) p f'
      \<and> (save_raises L p \<longrightarrow> f' = fs w)"
    for r :: "exn + nat"
    by (rule exI[of _ r], rule exI[of _ "fs w"], rule exI[of _ "[]"]) (simp add: tags_rewritten_def)
  show ?thesis
  proof (cases "wave_of (node_at (fs w) wav)")
    case (Inl e)
    then have "copy_tags_body L wav p w = (Inl e, w)"
      by (simp add: copy_tags_body_def bindM_def WAVE_def)
    with triv show ?thesis by simp
  next
    case (Inr m)
    then have unf: "copy_tags_body L wav p w =
       (case m of None \<Rightarrow> ret 0
        | Some (RichTags wav_id3) \<Rightarrow>
           if wav_id3 = [] then ret 0
           else bindM (MP3 p) (\<lambda>mp3_audio. copy_id3_from_wav_id3 L wav_id3 mp3_audio)
        | Some (FlatTags tgs) \<Rightarrow>
           if tgs = [] then ret 0
           else bindM (MP3 p) (\<lambda>mp3_audio. copy_from_riff_info L tgs mp3_audio)) w"
      by (simp add: copy_tags_body_def bindM_def WAVE_def)
    show ?thesis
    proof (cases "mp3_of p (node_at (fs w) p)")
      case e: (Inl e)
      then have "bindM (MP3 p) k w = (Inl e, w)" for k :: "mp3_handle \<Rightarrow> nat io"
        by (simp add: bindM_def MP3_def)
      with unf have "snd (copy_tags_body L wav p w) = w"
        by (simp add: if_distribR split: option.splits wav_tags.splits)
      then have "copy_tags_body L wav p w = (fst (copy_tags_body L wav p w), w)"
        by (metis prod.collapse)
      with triv[of "fst (copy_tags_body L wav p w)"] show ?thesis by simp
    next
      case h: (Inr h)
      then have b: "bindM (MP3 p) k w = k h w" for k :: "mp3_handle \<Rightarrow> nat io"
        by (simp add: bindM_def MP3_def)
      show ?thesis
      proof (cases m)
        case None
        with unf have "copy_tags_body L wav p w = (Inr 0, w)" by (simp add: ret_def)
        with triv show ?thesis by simp
      next
        case (Some tg)
        show ?thesis
        proof (cases tg)
          case (RichTags items)
          show ?thesis
          proof (cases "items = []")
            case True
            with unf Some RichTags have "copy_tags_body L wav p w = (Inr 0, w)" by (simp add: ret_def)
            with triv show ?thesis by simp
          next
            case False
            with unf Some RichTags b have "copy_tags_body L wav p w = copy_id3_from_wav_id3 L items h w"
              by simp
            with copy_id3_effect[OF h] show ?thesis by simp
          qed
        next
          case (FlatTags tgs)
          show ?thesis
          proof (cases "tgs = []")
            case True
            with unf Some FlatTags have "copy_tags_body L wav p w = (Inr 0, w)" by (simp add: ret_def)
            with triv show ?thesis by simp
          next
            case False
            with unf Some FlatTags b have "copy_tags_body L wav p w = copy_from_riff_info L tgs h w"
              by simp
            with copy_riff_effect[OF h] show ?thesis by simp
          qed
        qed
      qed
    qed
  qed
qed

lemma copy_tags_effect:
  "\<exists>n f' evs. copy_tags L wav p w = (Inr n, w\<lparr>fs := f', log := log w @ evs\<rparr>)
      \<and> tags_rewritten (fs w) p f' \<and> (save_raises L p \<longrightarrow> f' = fs w)"
proof -
  obtain r f' evs where b: "copy_tags_body L wav p w = (r, w\<lparr>fs := f', log := log w @ evs\<rparr>)"
    and tr: "tags_rewritten (fs w) p f' \<and> (save_raises L p \<longrightarrow> f' = fs w)"
    using copy_tags_body_effect by blast
  show ?thesis
  proof (cases r)
    case (Inl e)
    with b have "copy_tags L wav p w = (Inr 0, w\<lparr>fs := f', log := log w @ (evs @ [TagsNotCopied wav e])\<rparr>)"
      by (simp add: copy_tags_def try_except_def)
    with tr show ?thesis by blast
  next
    case (Inr n)
    with b have "copy_tags L wav p w = (Inr n, w\<lparr>fs := f', log := log w @ evs\<rparr>)"
      by (simp add: copy_tags_def try_except_def)
    with tr show ?thesis by blast
  qed
qed

section \<open>Rich path: the saved tag set\<close>

text \<open>
  With a non-empty rich container in the source, an MP3 file at the destination and a
  save that succeeds, \<^verbatim>\<open>copy_tags\<close> returns the number of frames that have a clone and
  leaves the translation of the container as the tag set of the destination.
\<close>

lemma copy_id3_rich:
  assumes "\<not> save_raises L (filename h)"
  shows "\<exists>evs. copy_id3_from_wav_id3 L items h w =
     (Inr (copied_count L items),
      w\<lparr>fs := AList.update (filename h)
               (File (Mp3 (h_audio h) (h_bitrate h) (Some (translate_rich L items [])))) (fs w),
        log := log w @ evs\<rparr>)"
proof -
  have f: "fresh_tags h = []" by (simp add: fresh_tags_def split: option.splits)
  from clone_loop_result[of L items "[]" 0 w] obtain evs where
    l: "clone_loop L items [] 0 w =
      (Inr (copied_count L items, translate_rich L items []), w\<lparr>log := log w @ evs\<rparr>)"
    by auto
  have "copy_id3_from_wav_id3 L items h w =
     (Inr (copied_count L items),
      w\<lparr>fs := AList.update (filename h)
               (File (Mp3 (h_audio h) (h_bitrate h) (Some (translate_rich L items [])))) (fs w),
        log := log w @ evs\<rparr>)"
    using assms l f by (simp add: copy_id3_from_wav_id3_def bindM_def save_def)
  then show ?thesis by blast
qed

lemma copy_tags_rich:
  assumes "wave_of (node_at (fs w) wav) = Inr (Some (RichTags items))"
    and "items \<noteq> []"
    and "node_at (fs w) mp3 = Some (File (Mp3 a br t0))"
    and "\<not> save_raises L mp3"
  shows "\<exists>evs. copy_tags L wav mp3 w =
     (Inr (copied_count L items),
      w\<lparr>fs := AList.update mp3 (File (Mp3 a br (Some (translate_rich L items [])))) (fs w),
        log := log w @ evs\<rparr>)"
proof -
  let ?h = "\<lparr>filename = mp3, h_audio = a, h_bitrate = br, h_tags = t0\<rparr>"
  have b: "copy_tags_body L wav mp3 w = copy_id3_from_wav_id3 L items ?h w"
    using assms(1,2,3) by (simp add: copy_tags_body_def bindM_def WAVE_def MP3_def)
  from copy_id3_rich[of L ?h items w] assms(4) obtain evs where
    "copy_id3_from_wav_id3 L items ?h w =
     (Inr (copied_count L items),
      w\<lparr>fs := AList.update mp3 (File (Mp3 a br (Some (translate_rich L items [])))) (fs w),
        log := log w @ evs\<rparr>)"
    by auto
  with b have "copy_tags L wav mp3 w =
     (Inr (copied_count L items),
      w\<lparr>fs := AList.update mp3 (File (Mp3 a br (Some (translate_rich L items [])))) (fs w),
        log := log w @ evs\<rparr>)"
    by (simp add: copy_tags_def try_except_def)
  then show ?thesis by blast
qed

lemma clone_of_text:
  assumes "ftext frame = Some v" and "\<not> frame_raises L (text_frame (fcls frame) v)"
  shows "clone_of L frame = Some (text_frame (fcls frame) v)"
  using assms by (simp add: clone_of_def accepted_def)

text \<open>
  C2. A frame with a \<open>text\<close> attribute is cloned as a frame of the same class with
  encoding 3 (UTF-8) and the same value unchanged, whatever the number of values in it,
  whenever the tag library accepts the clone. The call returns True and stores the clone
  in the target tag set under the clone's own key, in the place of a frame that was
  there under that key; the target then holds the clone under that key. In a copy of a
  whole container the clone is in the saved tag set of the destination unless another
  frame of the container has a different clone with the same key (\<open>clone_of\<close> is what
  the cloning makes of a frame, see \<open>clone_branches_clone\<close> and
  \<open>clone_branches_no_clone\<close>).
\<close>

theorem clone_text_frame:
  assumes "ftext frame = Some v"
    and "\<not> frame_raises L (text_frame (fcls frame) v)"
  shows "clone_id3_frame_to L mp3_tags key frame w =
           (Inr (True, AList.update (hash_key L (text_frame (fcls frame) v))
                         (text_frame (fcls frame) v) mp3_tags), w)
         \<and> map_of (AList.update (hash_key L (text_frame (fcls frame) v))
                      (text_frame (fcls frame) v) mp3_tags)
              (hash_key L (text_frame (fcls frame) v)) = Some (text_frame (fcls frame) v)
         \<and> fcls (text_frame (fcls frame) v) = fcls frame
         \<and> fencoding (text_frame (fcls frame) v) = Some (PInt 3)
         \<and> ftext (text_frame (fcls frame) v) = Some v
         \<and> ((key, frame) \<in> set wav_id3
              \<and> (\<forall>(k', f') \<in> set wav_id3. \<forall>g'. clone_of L f' = Some g'
                     \<and> hash_key L g' = hash_key L (text_frame (fcls frame) v)
                     \<longrightarrow> g' = text_frame (fcls frame) v)
              \<and> wave_of (node_at (fs w) wav) = Inr (Some (RichTags wav_id3))
              \<and> node_at (fs w) mp3 = Some (File (Mp3 a br t0))
              \<and> \<not> save_raises L mp3
            \<longrightarrow> (\<exists>w' saved. copy_tags L wav mp3 w = (Inr (copied_count L wav_id3), w')
                   \<and> node_at (fs w') mp3 = Some (File (Mp3 a br (Some saved)))
                   \<and> map_of saved (hash_key L (text_frame (fcls frame) v)) =
                       Some (text_frame (fcls frame) v)))"
proof -
  let ?g = "text_frame (fcls frame) v"
  have c: "clone_of L frame = Some ?g" using assms by (rule clone_of_text)
  have one: "clone_id3_frame_to L mp3_tags key frame w =
           (Inr (True, AList.update (hash_key L ?g) ?g mp3_tags), w)"
    using clone_id3_frame_to_clone[OF c, of mp3_tags key w] by (simp add: store_def)
  have two: "map_of (AList.update (hash_key L ?g) ?g mp3_tags) (hash_key L ?g) = Some ?g"
    by (simp add: update_conv')
  have three: "fcls ?g = fcls frame" "fencoding ?g = Some (PInt 3)" "ftext ?g = Some v"
    by (simp_all add: text_frame_def new_frame_def)
  have four: "\<exists>w' saved. copy_tags L wav mp3 w = (Inr (copied_count L wav_id3), w')
                   \<and> node_at (fs w') mp3 = Some (File (Mp3 a br (Some saved)))
                   \<and> map_of saved (hash_key L ?g) = Some ?g"
    if m: "(key, frame) \<in> set wav_id3"
      and u: "\<forall>(k', f') \<in> set wav_id3. \<forall>g'. clone_of L f' = Some g'
                     \<and> hash_key L g' = hash_key L ?g \<longrightarrow> g' = ?g"
      and wv: "wave_of (node_at (fs w) wav) = Inr (Some (RichTags wav_id3))"
      and nd: "node_at (fs w) mp3 = Some (File (Mp3 a br t0))"
      and sv: "\<not> save_raises L mp3"
  proof -
    from m have ne: "wav_id3 \<noteq> []" by auto
    from nd have pne: "mp3 \<noteq> []" by (auto simp: node_at_def split: if_splits)
    from copy_tags_rich[OF wv ne nd sv] obtain evs where
      r: "copy_tags L wav mp3 w =
        (Inr (copied_count L wav_id3),
         w\<lparr>fs := AList.update mp3 (File (Mp3 a br (Some (translate_rich L wav_id3 [])))) (fs w),
           log := log w @ evs\<rparr>)" by blast
    have n: "node_at (fs (w\<lparr>fs := AList.update mp3 (File (Mp3 a br (Some (translate_rich L wav_id3 [])))) (fs w),
           log := log w @ evs\<rparr>)) mp3 = Some (File (Mp3 a br (Some (translate_rich L wav_id3 []))))"
      using pne by (simp add: node_at_update)
    have l: "map_of (translate_rich L wav_id3 []) (hash_key L ?g) = Some ?g"
      using translate_rich_lookup[OF m c u] .
    from r n l show ?thesis by blast
  qed
  from one two three four show ?thesis by blast
qed

theorem clone_text_frame_witness:
  "ftext title_frame = Some (PList [''Song'', ''Two''])
   \<and> \<not> frame_raises accepting_lib (text_frame (fcls title_frame) (PList [''Song'', ''Two'']))
   \<and> clone_id3_frame_to accepting_lib [(''TIT2'', text_frame TIT2 (PStr ''Old''))] ''TIT2''
        title_frame encoded_world =
       (Inr (True, [(''TIT2'', text_frame TIT2 (PList [''Song'', ''Two'']))]), encoded_world)
   \<and> (''TIT2'', title_frame) \<in> set mixed_tags
   \<and> map (\<lambda>(k, f). map_option (hash_key accepting_lib) (clone_of accepting_lib f)) mixed_tags =
       [Some ''TIT2'', Some ''COMM::XXX'', None, Some ''COMM::XXX'', Some ''TXXX:'']
   \<and> wave_of (node_at (fs encoded_world) [''s'', ''m.wav'']) = Inr (Some (RichTags mixed_tags))
   \<and> node_at (fs encoded_world) [''d'', ''m.mp3''] = Some (File (Mp3 [4] ''192k'' None))
   \<and> \<not> save_raises accepting_lib [''d'', ''m.mp3'']
   \<and> (\<exists>w' saved. copy_tags accepting_lib [''s'', ''m.wav''] [''d'', ''m.mp3''] encoded_world =
          (Inr 4, w')
        \<and> node_at (fs w') [''d'', ''m.mp3''] = Some (File (Mp3 [4] ''192k'' (Some saved)))
        \<and> map_of saved ''TIT2'' = Some (text_frame TIT2 (PList [''Song'', ''Two''])))"
proof -
  have h1: "ftext title_frame = Some (PList [''Song'', ''Two''])"
    by (simp add: title_frame_def)
  have h2: "\<not> frame_raises accepting_lib (text_frame (fcls title_frame) (PList [''Song'', ''Two'']))"
    by (simp add: accepting_lib_def)
  have cl: "fcls title_frame = TIT2"
    by (simp add: title_frame_def new_frame_def)
  have hk: "hash_key accepting_lib (text_frame TIT2 (PList [''Song'', ''Two''])) = ''TIT2''"
    by (simp add: hash_key_def text_frame_def new_frame_def)
  have m: "(''TIT2'', title_frame) \<in> set mixed_tags"
    by (simp add: mixed_tags_def)
  have keys: "map (\<lambda>(k, f). map_option (hash_key accepting_lib) (clone_of accepting_lib f)) mixed_tags =
       [Some ''TIT2'', Some ''COMM::XXX'', None, Some ''COMM::XXX'', Some ''TXXX:'']"
    by code_simp
  have u: "\<forall>(k', f') \<in> set mixed_tags. \<forall>g'. clone_of accepting_lib f' = Some g'
       \<and> hash_key accepting_lib g' = hash_key accepting_lib (text_frame (fcls title_frame) (PList [''Song'', ''Two'']))
       \<longrightarrow> g' = text_frame (fcls title_frame) (PList [''Song'', ''Two''])"
    unfolding cl hk
    by (auto simp: mixed_tags_def clone_of_def accepted_def accepting_lib_def title_frame_def
        comment_frame_def other_comment_def user_frame_def new_frame_def text_frame_def
        hash_key_def)
  have wv: "wave_of (node_at (fs encoded_world) [''s'', ''m.wav'']) = Inr (Some (RichTags mixed_tags))"
    by (simp add: encoded_world_def node_at_def)
  have nd: "node_at (fs encoded_world) [''d'', ''m.mp3''] = Some (File (Mp3 [4] ''192k'' None))"
    by (simp add: encoded_world_def node_at_def)
  have sv: "\<not> save_raises accepting_lib [''d'', ''m.mp3'']"
    by (simp add: accepting_lib_def)
  have cc: "copied_count accepting_lib mixed_tags = 4"
    by code_simp
  note inst = clone_text_frame [where frame = title_frame and v = "PList [''Song'', ''Two'']"
      and L = accepting_lib and mp3_tags = "[(''TIT2'', text_frame TIT2 (PStr ''Old''))]"
      and key = "''TIT2''" and w = encoded_world and ?wav_id3.0 = mixed_tags
      and wav = "[''s'', ''m.wav'']" and ?mp3.0 = "[''d'', ''m.mp3'']" and a = "[4]"
      and br = "''192k''" and ?t0.0 = None, OF h1 h2]
  from inst have c1: "clone_id3_frame_to accepting_lib [(''TIT2'', text_frame TIT2 (PStr ''Old''))] ''TIT2''
        title_frame encoded_world =
       (Inr (True, [(''TIT2'', text_frame TIT2 (PList [''Song'', ''Two'']))]), encoded_world)"
    unfolding cl hk by simp
  from inst m u wv nd sv have c4: "\<exists>w' saved. copy_tags accepting_lib [''s'', ''m.wav''] [''d'', ''m.mp3''] encoded_world =
          (Inr 4, w')
        \<and> node_at (fs w') [''d'', ''m.mp3''] = Some (File (Mp3 [4] ''192k'' (Some saved)))
        \<and> map_of saved ''TIT2'' = Some (text_frame TIT2 (PList [''Song'', ''Two'']))"
    unfolding cl hk cc by blast
  from h1 h2 c1 m keys wv nd sv c4 show ?thesis by (intro conjI)
qed

section \<open>The worker, case by case\<close>

lemma open_wb_fresh:
  assumes "node_at (fs w) p = None" and "node_at (fs w) (parent p) = Some Dir"
  shows "open_wb p w = (Inr (), w\<lparr>fs := AList.update p (File Empty) (fs w)\<rparr>)"
  using assms by (simp add: open_wb_def)

lemma export_fresh:
  assumes "node_at (fs w) p = None" and "node_at (fs w) (parent p) = Some Dir"
  shows "export L a p br w =
     (if export_raises L a br
      then (Inl CouldntEncodeError, w\<lparr>fs := AList.update p (File Empty) (fs w)\<rparr>)
      else (Inr (), w\<lparr>fs := AList.update p (File (Mp3 a br (export_tags L))) (fs w)\<rparr>))"
  using open_wb_fresh[OF assms] by (simp add: export_def bindM_def encode_def)

text \<open>
  The destination's parent is a directory once \<open>mkdir\<close> has returned, so opening the
  destination cannot fail in a task that has got that far: the task either leaves the
  empty file of a failed encode or goes on with the encoded file.
\<close>

lemma convert_one_unfold:
 "convert_one L wav s d br dry w =
   (case mp3_path wav s d of
      Inl e \<Rightarrow> (Inl e, w)
    | Inr mp3 \<Rightarrow>
       (case mkdir_parents (fs w) (parent mp3) of
          Inl e \<Rightarrow> (Inl e, w)
        | Inr f1 \<Rightarrow>
           if node_at f1 mp3 \<noteq> None then
             (Inr ''skipped'', w\<lparr>fs := f1, log := log w @ [AlreadyPresent mp3]\<rparr>)
           else if dry then (Inr ''would_convert'', w\<lparr>fs := f1\<rparr>)
           else
             (case from_wav_of (node_at f1 wav) of
                Inl e \<Rightarrow> (Inr ''failed'', w\<lparr>fs := f1, log := log w @ [ConversionError wav e]\<rparr>)
              | Inr a \<Rightarrow>
                 if export_raises L a br then
                   (Inr ''failed'', w\<lparr>fs := AList.update mp3 (File Empty) f1,
                       log := log w @ [ConversionError wav CouldntEncodeError]\<rparr>)
                 else
                   (case copy_tags L wav mp3
                           (w\<lparr>fs := AList.update mp3 (File (Mp3 a br (export_tags L))) f1\<rparr>) of
                      (Inl e, w3) \<Rightarrow> (Inr ''failed'', w3\<lparr>log := log w3 @ [ConversionError wav e]\<rparr>)
                    | (Inr n, w3) \<Rightarrow> (Inr ''converted'', w3\<lparr>log := log w3 @ [ConvertedMsg wav mp3 n]\<rparr>)))))"
proof (cases "mp3_path wav s d")
  case (Inl e)
  then show ?thesis by (simp add: convert_one_def bindM_def)
next
  case mp: (Inr mp3)
  show ?thesis
  proof (cases "mkdir_parents (fs w) (parent mp3)")
    case (Inl e)
    with mp show ?thesis by (simp add: convert_one_def bindM_def mkdir_def)
  next
    case mk: (Inr f1)
    have dir1: "node_at f1 (parent mp3) = Some Dir"
      using mkdir_parents_dir[OF mk] .
    show ?thesis
    proof (cases "node_at f1 mp3 \<noteq> None \<or> dry")
      case True
      with mp mk show ?thesis
        by (auto simp: convert_one_def bindM_def mkdir_def path_exists_def logging_def ret_def)
    next
      case False
      then have absent: "node_at f1 mp3 = None" and nd: "\<not> dry" by auto
      have ex: "export L a mp3 br (w\<lparr>fs := f1\<rparr>) =
         (if export_raises L a br
          then (Inl CouldntEncodeError, w\<lparr>fs := AList.update mp3 (File Empty) f1\<rparr>)
          else (Inr (), w\<lparr>fs := AList.update mp3 (File (Mp3 a br (export_tags L))) f1\<rparr>))" for a
        using export_fresh[of "w\<lparr>fs := f1\<rparr>" mp3 L a br] absent dir1 by simp
      from mp mk absent nd show ?thesis
        by (simp add: convert_one_def bindM_def try_except_def mkdir_def path_exists_def
            from_wav_def ex logging_def split: sum.splits prod.splits)
    qed
  qed
qed

section \<open>Destination paths\<close>

lemma rfind_wav: "rfind (stem @ ''.wav'') CHR ''.'' = Some (length stem)"
  by (simp add: rfind_def)

lemma path_suffix_wav: "stem \<noteq> [] \<Longrightarrow> path_suffix (stem @ ''.wav'') = ''.wav''"
  by (simp add: path_suffix_def rfind_wav)

lemma path_suffix_dotwav: "path_suffix ''.wav'' = []"
  using rfind_wav[of "[]"] by (simp add: path_suffix_def)

lemma with_suffix_wav:
  assumes "rel \<noteq> []" and "last rel = stem @ ''.wav''"
  shows "with_suffix rel ''.mp3'' =
           Inr (butlast rel @ [(if stem = [] then ''.wav'' else stem) @ ''.mp3''])"
proof (cases "stem = []")
  case True
  with assms path_suffix_dotwav show ?thesis
    by (simp add: with_suffix_def)
next
  case False
  with assms path_suffix_wav[OF False] show ?thesis
    by (simp add: with_suffix_def Let_def)
qed

lemma glob_wav_iff: "glob_wav name \<longleftrightarrow> (\<exists>stem. name = stem @ ''.wav'')"
  by (auto simp: glob_wav_def suffix_def)

lemma rglob_member:
  assumes "rglob s w = (Inr found, w')" and "p \<in> set found"
  shows "strict_prefix s p \<and> glob_wav (last p) \<and> p \<in> fst ` set (fs w) \<and> w' = w"
  using assms by (auto simp: rglob_def)

lemma strict_prefix_rel:
  assumes "strict_prefix s p"
  shows "p = s @ drop (length s) p \<and> drop (length s) p \<noteq> [] \<and> last (drop (length s) p) = last p
         \<and> relative_to p s = Inr (drop (length s) p)"
proof -
  from assms obtain rel where p: "p = s @ rel" and ne: "rel \<noteq> []"
    by (auto simp: strict_prefix_def prefix_def)
  then show ?thesis by (simp add: relative_to_def)
qed

lemma rglob_destination:
  assumes "rglob s w = (Inr found, w')" and "p \<in> set found"
  shows "\<exists>rel stem. p = s @ rel \<and> rel \<noteq> [] \<and> last rel = stem @ ''.wav''
           \<and> mp3_path p s d =
               Inr (d @ butlast rel @ [(if stem = [] then ''.wav'' else stem) @ ''.mp3''])"
proof -
  from rglob_member[OF assms] have sp: "strict_prefix s p" and g: "glob_wav (last p)" by simp_all
  let ?rel = "drop (length s) p"
  from strict_prefix_rel[OF sp] have p: "p = s @ ?rel" and ne: "?rel \<noteq> []"
    and l: "last ?rel = last p" and r: "relative_to p s = Inr ?rel" by simp_all
  from g obtain stem where st: "last p = stem @ ''.wav''" by (auto simp: glob_wav_iff)
  with l have l': "last ?rel = stem @ ''.wav''" by simp
  have "mp3_path p s d = Inr (d @ butlast ?rel @ [(if stem = [] then ''.wav'' else stem) @ ''.mp3''])"
    using r with_suffix_wav[OF ne l'] by (simp add: mp3_path_def)
  with p ne l' show ?thesis by blast
qed

text \<open>
  C5, as the code has it. Every file the walk discovers lies below the source root and
  has a name ending in lowercase \<open>.wav\<close>; its destination is the path relative to the
  source root, re-rooted under the destination root, with that extension replaced by
  \<open>.mp3\<close> (for the bare name \<open>.wav\<close>, which pathlib takes to have no suffix, \<open>.mp3\<close> is
  appended).
\<close>

theorem discovered_destination:
  assumes "rglob s w = (Inr found, w')" and "p \<in> set found"
  shows "\<exists>rel stem. p = s @ rel \<and> rel \<noteq> [] \<and> last rel = stem @ ''.wav''
           \<and> mp3_path p s d =
               Inr (d @ butlast rel @ [(if stem = [] then ''.wav'' else stem) @ ''.mp3''])"
  using assms by (rule rglob_destination)

lemma with_suffix_mp3_name:
  assumes "with_suffix rel ''.mp3'' = Inr r"
  shows "r \<noteq> [] \<and> (\<exists>n. last r = n @ ''.mp3'') \<and> butlast r = butlast rel"
  using assms by (auto simp: with_suffix_def Let_def split: if_splits)

lemma mp3_path_shape:
  assumes "mp3_path p s d = Inr m"
  shows "\<exists>r n. m = d @ r \<and> r \<noteq> [] \<and> last r = n @ ''.mp3''"
proof -
  from assms obtain rel r where "with_suffix rel ''.mp3'' = Inr r" and m: "m = d @ r"
    by (auto simp: mp3_path_def bindE_def split: sum.splits)
  with with_suffix_mp3_name show ?thesis by blast
qed

theorem discovered_destination_witness:
  "rglob [''s''] music_world = (Inr [[''s'', ''a'', ''1.wav'']], music_world)
   \<and> [''s'', ''a'', ''1.wav''] \<in> set [[''s'', ''a'', ''1.wav'']]
   \<and> mp3_path [''s'', ''a'', ''1.wav''] [''s''] [''d''] = Inr [''d'', ''a'', ''1.mp3'']"
proof -
  have a: "rglob [''s''] music_world = (Inr [[''s'', ''a'', ''1.wav'']], music_world)"
    by code_simp
  have b: "[''s'', ''a'', ''1.wav''] \<in> set [[''s'', ''a'', ''1.wav'']]" by simp
  from discovered_destination [OF a b, of "[''d'']"]
  obtain rel stem where "[''s'', ''a'', ''1.wav''] = [''s''] @ rel" and "last rel = stem @ ''.wav''"
    and m: "mp3_path [''s'', ''a'', ''1.wav''] [''s''] [''d''] =
               Inr ([''d''] @ butlast rel @ [(if stem = [] then ''.wav'' else stem) @ ''.mp3''])"
    by blast
  then have "rel = [''a'', ''1.wav'']" and "stem = ''1''" by auto
  with m a b show ?thesis by simp
qed

text \<open>
  C5, as the claim states it. A source tree whose only audio file is named \<open>A.WAV\<close>: the
  walk discovers nothing, and the run reports that there are no WAV files and converts
  nothing.
\<close>

theorem uppercase_not_discovered:
  "rglob [''s''] upper_world = (Inr [], upper_world)
   \<and> run_conversion accepting_lib [''s''] [''d''] ''192k'' 2 False 0 upper_world =
       (Inr (), \<lparr>fs = [([''s''], Dir), ([''s'', ''A.WAV''], File (Wav (Some [3]) (Some None))),
                      ([''d''], Dir), ([''d'', ''conversion.log''], File Other)],
                log = [StartMsg, SourceMsg [''s''], DestMsg [''d''], BitrateMsg ''192k'',
                       WorkersMsg 2, DryRunMsg False],
                console = [NoWavFiles]\<rparr>)"
  by code_simp

section \<open>The parent directory after a task\<close>

lemma tags_rewritten_other:
  assumes "tags_rewritten f p f'" and "q \<noteq> p"
  shows "node_at f' q = node_at f q"
  using assms by (auto simp: tags_rewritten_def node_at_update)

lemma tags_rewritten_file:
  assumes "tags_rewritten f p f'" and "node_at f p = Some (File (Mp3 a br t))"
  shows "\<exists>t'. node_at f' p = Some (File (Mp3 a br t'))"
  using assms by (auto simp: tags_rewritten_def node_at_def update_conv' split: if_splits)

lemma parent_neq: "p \<noteq> [] \<Longrightarrow> parent p \<noteq> p"
  by (metis parent_def length_butlast diff_less length_greater_0_conv less_irrefl zero_less_one)

lemma convert_one_parent_dir:
  assumes "convert_one L wav s d br dry w = (Inr st, w')"
  shows "\<exists>mp3. mp3_path wav s d = Inr mp3
           \<and> node_at (fs w') (parent mp3) = Some Dir
           \<and> (st = ''skipped'' \<or> st = ''would_convert'' \<longrightarrow>
                mkdir_parents (fs w) (parent mp3) = Inr (fs w'))"
proof -
  from assms obtain mp3 where mp: "mp3_path wav s d = Inr mp3"
    by (auto simp: convert_one_unfold split: sum.splits)
  with assms obtain f1 where mk: "mkdir_parents (fs w) (parent mp3) = Inr f1"
    by (auto simp: convert_one_unfold split: sum.splits)
  have dir1: "node_at f1 (parent mp3) = Some Dir"
    using mkdir_parents_dir[OF mk] .
  show ?thesis
  proof (cases "node_at f1 mp3 \<noteq> None \<or> dry")
    case True
    with assms mp mk have "fs w' = f1"
      by (auto simp: convert_one_unfold split: if_splits)
    with dir1 mp mk show ?thesis by auto
  next
    case False
    then have absent: "node_at f1 mp3 = None" and nd: "\<not> dry" by auto
    then have ne: "mp3 \<noteq> []" by (auto simp: node_at_def split: if_splits)
    show ?thesis
    proof (cases "from_wav_of (node_at f1 wav)")
      case (Inl e)
      with assms mp mk absent nd have "fs w' = f1" "st = ''failed''"
        by (auto simp: convert_one_unfold)
      with dir1 mp show ?thesis by auto
    next
      case (Inr a)
      show ?thesis
      proof (cases "export_raises L a br")
        case True
        with Inr assms mp mk absent nd
        have "fs w' = AList.update mp3 (File Empty) f1" "st = ''failed''"
          by (auto simp: convert_one_unfold)
        with dir1 mp parent_neq[OF ne] show ?thesis by (auto simp: node_at_update)
      next
        case False
        let ?w2 = "w\<lparr>fs := AList.update mp3 (File (Mp3 a br (export_tags L))) f1\<rparr>"
        obtain n f3 evs where ct: "copy_tags L wav mp3 ?w2 = (Inr n, ?w2\<lparr>fs := f3, log := log ?w2 @ evs\<rparr>)"
          and tr: "tags_rewritten (fs ?w2) mp3 f3"
          using copy_tags_effect by blast
        from False Inr assms mp mk absent nd ct have "fs w' = f3" and st: "st = ''converted''"
          by (auto simp: convert_one_unfold)
        moreover have "node_at f3 (parent mp3) = Some Dir"
          using tags_rewritten_other[OF tr parent_neq[OF ne]] dir1 parent_neq[OF ne]
          by (simp add: node_at_update)
        ultimately show ?thesis using mp st by auto
      qed
    qed
  qed
qed

section \<open>Skipping and running twice\<close>

lemma fs_grows_refl: "fs_grows f f"
  by (simp add: fs_grows_def)

lemma fs_grows_trans: "fs_grows f g \<Longrightarrow> fs_grows g h \<Longrightarrow> fs_grows f h"
  by (simp add: fs_grows_def)

lemma mkdir_parents_grows: "mkdir_parents f p = Inr f' \<Longrightarrow> fs_grows f f'"
  unfolding fs_grows_def using mkdir_parents_node[of f p f'] by (metis option.distinct(1))

lemma update_absent_grows: "node_at f p = None \<Longrightarrow> fs_grows f (AList.update p n f)"
  by (auto simp: fs_grows_def node_at_update)

lemma tags_rewritten_grows: "tags_rewritten f p f' \<Longrightarrow> fs_grows f f'"
  by (auto simp: fs_grows_def tags_rewritten_def node_at_update)

text \<open>What one task leaves behind, whatever its outcome.\<close>

lemma convert_one_grows:
  assumes "convert_one L wav s d br dry w = (r, w')"
  shows "fs_grows (fs w) (fs w')"
proof (cases "mp3_path wav s d")
  case (Inl e)
  with assms show ?thesis by (auto simp: convert_one_unfold fs_grows_refl)
next
  case mp: (Inr mp3)
  show ?thesis
  proof (cases "mkdir_parents (fs w) (parent mp3)")
    case (Inl e)
    with assms mp show ?thesis by (auto simp: convert_one_unfold fs_grows_refl)
  next
    case mk: (Inr f1)
    have g1: "fs_grows (fs w) f1" using mkdir_parents_grows[OF mk] .
    show ?thesis
    proof (cases "node_at f1 mp3 \<noteq> None \<or> dry")
      case True
      with assms mp mk have "fs w' = f1"
        by (auto simp: convert_one_unfold split: if_splits)
      with g1 show ?thesis by simp
    next
      case False
      then have absent: "node_at f1 mp3 = None" and nd: "\<not> dry" by auto
      show ?thesis
      proof (cases "from_wav_of (node_at f1 wav)")
        case (Inl e)
        with assms mp mk absent nd have "fs w' = f1" by (auto simp: convert_one_unfold)
        with g1 show ?thesis by simp
      next
        case (Inr a)
        show ?thesis
        proof (cases "export_raises L a br")
          case True
          with Inr assms mp mk absent nd have "fs w' = AList.update mp3 (File Empty) f1"
            by (auto simp: convert_one_unfold)
          moreover have "fs_grows f1 (AList.update mp3 (File Empty) f1)"
            using update_absent_grows[OF absent] .
          ultimately show ?thesis using g1 by (auto intro: fs_grows_trans)
        next
          case False
          let ?f2 = "AList.update mp3 (File (Mp3 a br (export_tags L))) f1"
          let ?w2 = "w\<lparr>fs := ?f2\<rparr>"
          obtain n f3 evs where ct: "copy_tags L wav mp3 ?w2 = (Inr n, ?w2\<lparr>fs := f3, log := log ?w2 @ evs\<rparr>)"
            and tr: "tags_rewritten (fs ?w2) mp3 f3"
            using copy_tags_effect by blast
          from False Inr assms mp mk absent nd ct have "fs w' = f3"
            by (auto simp: convert_one_unfold)
          moreover have "fs_grows f1 ?f2" using update_absent_grows[OF absent] .
          moreover have "fs_grows ?f2 f3" using tags_rewritten_grows tr by simp
          ultimately show ?thesis using g1 by (blast intro: fs_grows_trans)
        qed
      qed
    qed
  qed
qed

lemma convert_one_done:
  assumes "convert_one L wav s d br False w = (Inr st, w')"
    and "st = ''converted'' \<or> st = ''skipped''"
  shows "\<exists>mp3. mp3_path wav s d = Inr mp3 \<and> node_at (fs w') mp3 \<noteq> None
            \<and> node_at (fs w') (parent mp3) = Some Dir"
proof -
  from convert_one_parent_dir[OF assms(1)] obtain mp3 where mp: "mp3_path wav s d = Inr mp3"
    and pd: "node_at (fs w') (parent mp3) = Some Dir" by blast
  from assms mp obtain f1 where mk: "mkdir_parents (fs w) (parent mp3) = Inr f1"
    by (auto simp: convert_one_unfold split: sum.splits)
  have "node_at (fs w') mp3 \<noteq> None"
  proof (cases "node_at f1 mp3 \<noteq> None")
    case True
    with assms mp mk have "fs w' = f1" by (auto simp: convert_one_unfold)
    with True show ?thesis by simp
  next
    case False
    then have absent: "node_at f1 mp3 = None" by simp
    then have ne: "mp3 \<noteq> []" by (auto simp: node_at_def split: if_splits)
    from assms mp mk absent obtain a where a: "from_wav_of (node_at f1 wav) = Inr a"
      and ex: "\<not> export_raises L a br"
      by (auto simp: convert_one_unfold split: sum.splits if_splits)
    let ?f2 = "AList.update mp3 (File (Mp3 a br (export_tags L))) f1"
    let ?w2 = "w\<lparr>fs := ?f2\<rparr>"
    obtain n f3 evs where ct: "copy_tags L wav mp3 ?w2 = (Inr n, ?w2\<lparr>fs := f3, log := log ?w2 @ evs\<rparr>)"
      and tr: "tags_rewritten (fs ?w2) mp3 f3"
      using copy_tags_effect by blast
    from assms mp mk absent a ex ct have "fs w' = f3" by (auto simp: convert_one_unfold)
    moreover have "node_at ?f2 mp3 \<noteq> None" using ne by (simp add: node_at_update)
    moreover have "fs_grows ?f2 f3" using tags_rewritten_grows tr by simp
    ultimately show ?thesis by (simp add: fs_grows_def)
  qed
  with mp pd show ?thesis by blast
qed

lemma convert_one_skips:
  assumes "mp3_path wav s d = Inr mp3"
    and "node_at (fs w) mp3 \<noteq> None"
    and "node_at (fs w) (parent mp3) = Some Dir"
  shows "convert_one L wav s d br dry w =
           (Inr ''skipped'', w\<lparr>log := log w @ [AlreadyPresent mp3]\<rparr>)"
  using assms mkdir_parents_noop[OF assms(3)] by (simp add: convert_one_unfold)

lemma submit_all_grows:
  "submit_all L files s d br w = (rs, w') \<Longrightarrow> fs_grows (fs w) (fs w')"
proof (induction files arbitrary: w rs w')
  case Nil
  then show ?case by (simp add: fs_grows_refl)
next
  case (Cons wav files)
  obtain r w1 where c: "convert_one L wav s d br False w = (r, w1)" by (cases "convert_one L wav s d br False w")
  obtain rs' w2 where s: "submit_all L files s d br w1 = (rs', w2)" by (cases "submit_all L files s d br w1")
  from Cons.prems c s have "w' = w2" by simp
  with convert_one_grows[OF c] Cons.IH[OF s] show ?case by (blast intro: fs_grows_trans)
qed

lemma submit_all_done:
  assumes "submit_all L files s d br w = (rs, w')"
    and "list_all (\<lambda>r. r = Inr ''converted'' \<or> r = Inr ''skipped'') rs"
  shows "list_all (\<lambda>wav. \<exists>mp3. mp3_path wav s d = Inr mp3 \<and> node_at (fs w') mp3 \<noteq> None
            \<and> node_at (fs w') (parent mp3) = Some Dir) files"
  using assms
proof (induction files arbitrary: w rs w')
  case Nil
  then show ?case by simp
next
  case (Cons wav files)
  obtain r w1 where c: "convert_one L wav s d br False w = (r, w1)" by (cases "convert_one L wav s d br False w")
  obtain rs' w2 where s: "submit_all L files s d br w1 = (rs', w2)" by (cases "submit_all L files s d br w1")
  from Cons.prems(1) c s have w': "w' = w2" and rs: "rs = r # rs'" by auto
  from Cons.prems(2) rs obtain st where r: "r = Inr st" and st: "st = ''converted'' \<or> st = ''skipped''"
    and rest: "list_all (\<lambda>r. r = Inr ''converted'' \<or> r = Inr ''skipped'') rs'" by auto
  from convert_one_done[OF c[unfolded r] st] obtain mp3 where mp: "mp3_path wav s d = Inr mp3"
    and e1: "node_at (fs w1) mp3 \<noteq> None" and d1: "node_at (fs w1) (parent mp3) = Some Dir" by blast
  from submit_all_grows[OF s] e1 d1 have "node_at (fs w2) mp3 \<noteq> None" "node_at (fs w2) (parent mp3) = Some Dir"
    by (auto simp: fs_grows_def)
  with mp Cons.IH[OF s rest] w' show ?case by auto
qed

lemma submit_all_skips:
  assumes "list_all (\<lambda>wav. \<exists>mp3. mp3_path wav s d = Inr mp3 \<and> node_at (fs w) mp3 \<noteq> None
            \<and> node_at (fs w) (parent mp3) = Some Dir) files"
  shows "\<exists>evs. submit_all L files s d br w =
           (map (\<lambda>wav. Inr ''skipped'') files, w\<lparr>log := log w @ evs\<rparr>)"
  using assms
proof (induction files arbitrary: w)
  case Nil
  have "submit_all L [] s d br w = (map (\<lambda>wav. Inr ''skipped'') [], w\<lparr>log := log w @ []\<rparr>)" by simp
  then show ?case by blast
next
  case (Cons wav files)
  from Cons.prems obtain mp3 where mp: "mp3_path wav s d = Inr mp3"
    and e: "node_at (fs w) mp3 \<noteq> None" and dd: "node_at (fs w) (parent mp3) = Some Dir"
    and rest: "list_all (\<lambda>wav. \<exists>mp3. mp3_path wav s d = Inr mp3 \<and> node_at (fs w) mp3 \<noteq> None
            \<and> node_at (fs w) (parent mp3) = Some Dir) files" by auto
  let ?w1 = "w\<lparr>log := log w @ [AlreadyPresent mp3]\<rparr>"
  have c: "convert_one L wav s d br False w = (Inr ''skipped'', ?w1)"
    using convert_one_skips[OF mp e dd] .
  from rest have rest1: "list_all (\<lambda>wav. \<exists>mp3. mp3_path wav s d = Inr mp3 \<and> node_at (fs ?w1) mp3 \<noteq> None
            \<and> node_at (fs ?w1) (parent mp3) = Some Dir) files" by simp
  from Cons.IH[OF rest1] obtain evs where
    s: "submit_all L files s d br ?w1 = (map (\<lambda>wav. Inr ''skipped'') files, ?w1\<lparr>log := log ?w1 @ evs\<rparr>)"
    by blast
  have "submit_all L (wav # files) s d br w =
          (map (\<lambda>wav. Inr ''skipped'') (wav # files), w\<lparr>log := log w @ (AlreadyPresent mp3 # evs)\<rparr>)"
    using c s by simp
  then show ?case by blast
qed

text \<open>
  C4, as the code has it. A task whose destination exists (in a directory) when the task
  starts is skipped, and the world it leaves differs from the one it found by one log
  line only, so no file is overwritten. A second pass over the same source files, after
  a pass in which every task was converted or skipped, skips every task and again only
  adds log lines.
\<close>

theorem no_clobber_and_second_pass:
  "(mp3_path wav s d = Inr mp3 \<and> node_at (fs w) mp3 \<noteq> None
      \<and> node_at (fs w) (parent mp3) = Some Dir \<longrightarrow>
      convert_one L wav s d br dry w =
        (Inr ''skipped'', w\<lparr>log := log w @ [AlreadyPresent mp3]\<rparr>))
   \<and> (submit_all L files s d br w = (rs, w1)
      \<and> list_all (\<lambda>r. r = Inr ''converted'' \<or> r = Inr ''skipped'') rs \<longrightarrow>
      (\<exists>evs. submit_all L files s d br w1 =
         (map (\<lambda>wav. Inr ''skipped'') files, w1\<lparr>log := log w1 @ evs\<rparr>)))"
proof (intro conjI impI)
  assume "mp3_path wav s d = Inr mp3 \<and> node_at (fs w) mp3 \<noteq> None
      \<and> node_at (fs w) (parent mp3) = Some Dir"
  then show "convert_one L wav s d br dry w =
        (Inr ''skipped'', w\<lparr>log := log w @ [AlreadyPresent mp3]\<rparr>)"
    using convert_one_skips by blast
next
  assume a: "submit_all L files s d br w = (rs, w1)
      \<and> list_all (\<lambda>r. r = Inr ''converted'' \<or> r = Inr ''skipped'') rs"
  then have "list_all (\<lambda>wav. \<exists>mp3. mp3_path wav s d = Inr mp3 \<and> node_at (fs w1) mp3 \<noteq> None
            \<and> node_at (fs w1) (parent mp3) = Some Dir) files"
    using submit_all_done by blast
  then show "\<exists>evs. submit_all L files s d br w1 =
         (map (\<lambda>wav. Inr ''skipped'') files, w1\<lparr>log := log w1 @ evs\<rparr>)"
    by (rule submit_all_skips)
qed

text \<open>
  C4, as the claim states it. A source tree with one file that cannot be decoded: the
  first run reports one failure and creates no destination, and the second run
  attempts the file again and reports one failure and nothing skipped.
\<close>

theorem failed_task_retried:
  "console (snd (run_conversion accepting_lib [''s''] [''d''] ''192k'' 2 False 0
      (snd (run_conversion accepting_lib [''s''] [''d''] ''192k'' 2 False 0 broken_world)))) =
     [FoundMsg 1, ConBitrate ''192k'', ConWorkers 2, SummaryTable 0 0 1,
      FoundMsg 1, ConBitrate ''192k'', ConWorkers 2, SummaryTable 0 0 1]
   \<and> fst (submit_all accepting_lib [[''s'', ''broken.wav'']] [''s''] [''d''] ''192k''
        (snd (submit_all accepting_lib [[''s'', ''broken.wav'']] [''s''] [''d''] ''192k''
           broken_world))) = [Inr ''failed'']"
  by code_simp

theorem no_clobber_and_second_pass_witness:
  "submit_all accepting_lib [[''s'', ''a'', ''1.wav'']] [''s''] [''d''] ''192k'' music_world =
     ([Inr ''converted''],
      snd (submit_all accepting_lib [[''s'', ''a'', ''1.wav'']] [''s''] [''d''] ''192k'' music_world))
   \<and> list_all (\<lambda>r. r = Inr ''converted'' \<or> r = Inr ''skipped'') [Inr ''converted'']
   \<and> mp3_path [''s'', ''a'', ''1.wav''] [''s''] [''d''] = Inr [''d'', ''a'', ''1.mp3'']
   \<and> node_at (fs (snd (submit_all accepting_lib [[''s'', ''a'', ''1.wav'']] [''s''] [''d'']
          ''192k'' music_world))) [''d'', ''a'', ''1.mp3''] =
        Some (File (Mp3 [1, 2] ''192k'' (Some [(''TIT2'', text_frame TIT2 (PList [''Song'', ''Two'']))])))
   \<and> fst (submit_all accepting_lib [[''s'', ''a'', ''1.wav'']] [''s''] [''d''] ''192k''
        (snd (submit_all accepting_lib [[''s'', ''a'', ''1.wav'']] [''s''] [''d''] ''192k''
           music_world))) = [Inr ''skipped'']
   \<and> fst (convert_one accepting_lib [''s'', ''a'', ''1.wav''] [''s''] [''d''] ''192k'' False
        (snd (submit_all accepting_lib [[''s'', ''a'', ''1.wav'']] [''s''] [''d''] ''192k''
           music_world))) = Inr ''skipped''
   \<and> fs (snd (convert_one accepting_lib [''s'', ''a'', ''1.wav''] [''s''] [''d''] ''192k'' False
        (snd (submit_all accepting_lib [[''s'', ''a'', ''1.wav'']] [''s''] [''d''] ''192k''
           music_world)))) =
       fs (snd (submit_all accepting_lib [[''s'', ''a'', ''1.wav'']] [''s''] [''d''] ''192k''
           music_world))"
proof -
  let ?files = "[[''s'', ''a'', ''1.wav'']]"
  let ?w1 = "snd (submit_all accepting_lib ?files [''s''] [''d''] ''192k'' music_world)"
  have a: "submit_all accepting_lib ?files [''s''] [''d''] ''192k'' music_world = ([Inr ''converted''], ?w1)"
    by code_simp
  have b: "list_all (\<lambda>r. r = Inr ''converted'' \<or> r = Inr ''skipped'') [Inr ''converted'']"
    by simp
  have c: "mp3_path [''s'', ''a'', ''1.wav''] [''s''] [''d''] = Inr [''d'', ''a'', ''1.mp3'']"
    by code_simp
  have d: "node_at (fs ?w1) [''d'', ''a'', ''1.mp3''] =
        Some (File (Mp3 [1, 2] ''192k'' (Some [(''TIT2'', text_frame TIT2 (PList [''Song'', ''Two'']))])))"
    by code_simp
  have e: "node_at (fs ?w1) (parent [''d'', ''a'', ''1.mp3'']) = Some Dir"
    by code_simp
  note inst = no_clobber_and_second_pass [where wav = "[''s'', ''a'', ''1.wav'']"
      and s = "[''s'']" and d = "[''d'']" and ?mp3.0 = "[''d'', ''a'', ''1.mp3'']"
      and L = accepting_lib and files = ?files and rs = "[Inr ''converted'']" and ?w1.0 = ?w1]
  from inst [of ?w1 "''192k''" False] c d e have one: "convert_one accepting_lib [''s'', ''a'', ''1.wav''] [''s''] [''d''] ''192k'' False ?w1 =
        (Inr ''skipped'', ?w1\<lparr>log := log ?w1 @ [AlreadyPresent [''d'', ''a'', ''1.mp3'']]\<rparr>)"
    by simp
  from inst [of music_world "''192k''" False] a b obtain evs where two: "submit_all accepting_lib ?files [''s''] [''d''] ''192k'' ?w1 =
         (map (\<lambda>wav. Inr ''skipped'') ?files, ?w1\<lparr>log := log ?w1 @ evs\<rparr>)"
    by blast
  show ?thesis
    using a b c d one two by simp
qed

section \<open>Tag errors stay local\<close>

lemma clone_branches_fails_no_clone:
  assumes "clone_branches L t f = Inl e \<or> clone_branches L t f = Inr None"
  shows "clone_of L f = None"
proof (cases "clone_of L f")
  case None
  then show ?thesis .
next
  case (Some g)
  from clone_branches_clone[OF Some, of t] assms show ?thesis by auto
qed

lemma clone_loop_fst:
  "fst (clone_loop L items t c w) = Inr (c + copied_count L items, translate_rich L items t)"
  using clone_loop_result[of L items t c w] by auto

lemma clone_loop_skip:
  assumes "clone_branches L [] f = Inl e \<or> clone_branches L [] f = Inr None"
  shows "fst (clone_loop L (pre @ (key, f) # post) t c w) = fst (clone_loop L (pre @ post) t c w)"
proof -
  have n: "clone_of L f = None" using assms by (rule clone_branches_fails_no_clone)
  have "translate_rich L (pre @ (key, f) # post) t = translate_rich L (pre @ post) t"
    using n by (simp add: translate_rich_def)
  moreover have "copied_count L (pre @ (key, f) # post) = copied_count L (pre @ post)"
    using n by (simp add: copied_count_def)
  ultimately show ?thesis by (simp add: clone_loop_fst)
qed

lemma copy_tags_unparseable:
  assumes "wave_of (node_at (fs w) wav) = Inl e"
  shows "copy_tags L wav mp3 w = (Inr 0, w\<lparr>log := log w @ [TagsNotCopied wav e]\<rparr>)"
  using assms by (simp add: copy_tags_def copy_tags_body_def try_except_def bindM_def WAVE_def logging_def)

lemma convert_one_converted:
  assumes "mp3_path wav s d = Inr mp3"
    and "mkdir_parents (fs w) (parent mp3) = Inr f1"
    and "node_at f1 mp3 = None"
    and "from_wav_of (node_at f1 wav) = Inr a"
    and "\<not> export_raises L a br"
  shows "fst (convert_one L wav s d br False w) = Inr ''converted''"
proof -
  let ?w2 = "w\<lparr>fs := AList.update mp3 (File (Mp3 a br (export_tags L))) f1\<rparr>"
  obtain n f3 evs where "copy_tags L wav mp3 ?w2 = (Inr n, ?w2\<lparr>fs := f3, log := log ?w2 @ evs\<rparr>)"
    using copy_tags_effect by blast
  with assms show ?thesis by (simp add: convert_one_unfold)
qed

text \<open>
  C6. \<^verbatim>\<open>copy_tags\<close> always returns a count and never an exception. When the source's
  tag container cannot be parsed it returns 0 and logs one warning. A frame that cannot
  be cloned (an exception in the cloning, or no matching branch) is skipped: the target
  tag set and the count are those of the same frames without it. What the loop returns
  is exactly the number of frames that have a clone and the tag set in which every clone
  has been stored under its key, in the order of the source. With a non-empty rich
  container in the source, an MP3 file at the destination and a save that succeeds, this
  tag set is what \<^verbatim>\<open>copy_tags\<close> saves in the destination, so that every frame with a clone
  whose key no different clone shares is found there, whatever frames were skipped. And
  a task whose audio decodes and encodes is Converted whatever happens to its tags.
\<close>

theorem tag_errors_never_fail:
  "(\<exists>n w'. copy_tags L wav mp3 w = (Inr n, w'))
   \<and> (wave_of (node_at (fs w) wav) = Inl e \<longrightarrow>
        copy_tags L wav mp3 w = (Inr 0, w\<lparr>log := log w @ [TagsNotCopied wav e]\<rparr>)
        \<and> level_of (TagsNotCopied wav e) = WARNING)
   \<and> (clone_branches L [] f = Inl e' \<or> clone_branches L [] f = Inr None \<longrightarrow>
        fst (clone_loop L (pre @ (key, f) # post) t c w) = fst (clone_loop L (pre @ post) t c w))
   \<and> fst (clone_loop L items t c w) = Inr (c + copied_count L items, translate_rich L items t)
   \<and> (wave_of (node_at (fs w) wav) = Inr (Some (RichTags items)) \<and> items \<noteq> []
        \<and> node_at (fs w) mp3 = Some (File (Mp3 a' br' t0)) \<and> \<not> save_raises L mp3 \<longrightarrow>
        (\<exists>evs. copy_tags L wav mp3 w =
           (Inr (copied_count L items),
            w\<lparr>fs := AList.update mp3 (File (Mp3 a' br' (Some (translate_rich L items [])))) (fs w),
              log := log w @ evs\<rparr>))
        \<and> (\<forall>k g cg. (k, g) \<in> set items \<and> clone_of L g = Some cg
              \<and> (\<forall>(k', g') \<in> set items. \<forall>c'. clone_of L g' = Some c'
                     \<and> hash_key L c' = hash_key L cg \<longrightarrow> c' = cg)
              \<longrightarrow> map_of (translate_rich L items []) (hash_key L cg) = Some cg))
   \<and> (mp3_path wav s d = Inr mp3 \<and> mkdir_parents (fs w) (parent mp3) = Inr f1
        \<and> node_at f1 mp3 = None \<and> from_wav_of (node_at f1 wav) = Inr a
        \<and> \<not> export_raises L a br \<longrightarrow>
        fst (convert_one L wav s d br False w) = Inr ''converted'')"
proof (intro conjI impI allI)
  show "\<exists>n w'. copy_tags L wav mp3 w = (Inr n, w')"
    using copy_tags_effect by blast
next
  assume "wave_of (node_at (fs w) wav) = Inl e"
  then show "copy_tags L wav mp3 w = (Inr 0, w\<lparr>log := log w @ [TagsNotCopied wav e]\<rparr>)"
    by (rule copy_tags_unparseable)
next
  show "level_of (TagsNotCopied wav e) = WARNING" by simp
next
  assume "clone_branches L [] f = Inl e' \<or> clone_branches L [] f = Inr None"
  then show "fst (clone_loop L (pre @ (key, f) # post) t c w) = fst (clone_loop L (pre @ post) t c w)"
    by (rule clone_loop_skip)
next
  show "fst (clone_loop L items t c w) = Inr (c + copied_count L items, translate_rich L items t)"
    by (rule clone_loop_fst)
next
  assume "wave_of (node_at (fs w) wav) = Inr (Some (RichTags items)) \<and> items \<noteq> []
        \<and> node_at (fs w) mp3 = Some (File (Mp3 a' br' t0)) \<and> \<not> save_raises L mp3"
  then show "\<exists>evs. copy_tags L wav mp3 w =
           (Inr (copied_count L items),
            w\<lparr>fs := AList.update mp3 (File (Mp3 a' br' (Some (translate_rich L items [])))) (fs w),
              log := log w @ evs\<rparr>)"
    using copy_tags_rich by blast
next
  fix k g cg
  assume "(k, g) \<in> set items \<and> clone_of L g = Some cg
              \<and> (\<forall>(k', g') \<in> set items. \<forall>c'. clone_of L g' = Some c'
                     \<and> hash_key L c' = hash_key L cg \<longrightarrow> c' = cg)"
  then show "map_of (translate_rich L items []) (hash_key L cg) = Some cg"
    using translate_rich_lookup by blast
next
  assume "mp3_path wav s d = Inr mp3 \<and> mkdir_parents (fs w) (parent mp3) = Inr f1
        \<and> node_at f1 mp3 = None \<and> from_wav_of (node_at f1 wav) = Inr a
        \<and> \<not> export_raises L a br"
  then show "fst (convert_one L wav s d br False w) = Inr ''converted''"
    using convert_one_converted by blast
qed

theorem tag_errors_never_fail_witness:
  "wave_of (node_at (fs mangled_world) [''s'', ''x.wav'']) = Inl MutagenError
   \<and> copy_tags accepting_lib [''s'', ''x.wav''] [''d'', ''x.mp3''] mangled_world =
       (Inr 0, mangled_world\<lparr>log := log mangled_world @
                 [TagsNotCopied [''s'', ''x.wav''] MutagenError]\<rparr>)
   \<and> clone_branches accepting_lib [] odd_frame = Inr None
   \<and> fst (clone_loop accepting_lib
          ([(''TIT2'', title_frame)] @ (''PRIV'', odd_frame) # [(''TXXX:mood'', user_frame)])
          [] 0 empty_world) =
       Inr (2, [(''TIT2'', text_frame TIT2 (PList [''Song'', ''Two''])),
                (''TXXX:'', text_frame TXXX (PList [''v1'', ''v2'']))])
   \<and> wave_of (node_at (fs encoded_world) [''s'', ''m.wav'']) = Inr (Some (RichTags mixed_tags))
   \<and> mixed_tags \<noteq> []
   \<and> node_at (fs encoded_world) [''d'', ''m.mp3''] = Some (File (Mp3 [4] ''192k'' None))
   \<and> \<not> save_raises accepting_lib [''d'', ''m.mp3'']
   \<and> clone_of accepting_lib (new_frame (OtherCls ''PRIV'')) = None
   \<and> fst (copy_tags accepting_lib [''s'', ''m.wav''] [''d'', ''m.mp3''] encoded_world) = Inr 4
   \<and> node_at (fs (snd (copy_tags accepting_lib [''s'', ''m.wav''] [''d'', ''m.mp3'']
         encoded_world))) [''d'', ''m.mp3''] =
       Some (File (Mp3 [4] ''192k''
         (Some [(''TIT2'', text_frame TIT2 (PList [''Song'', ''Two''])),
                (''COMM::XXX'', text_frame COMM (PList [''salut'', ''bonjour''])),
                (''TXXX:'', text_frame TXXX (PList [''v1'', ''v2'']))])))
   \<and> mp3_path [''s'', ''x.wav''] [''s''] [''d''] = Inr [''d'', ''x.mp3'']
   \<and> mkdir_parents (fs mangled_world) (parent [''d'', ''x.mp3'']) =
       Inr (fs mangled_world @ [([''d''], Dir)])
   \<and> node_at (fs mangled_world @ [([''d''], Dir)]) [''d'', ''x.mp3''] = None
   \<and> from_wav_of (node_at (fs mangled_world @ [([''d''], Dir)]) [''s'', ''x.wav'']) = Inr [7]
   \<and> \<not> export_raises accepting_lib [7] ''192k''
   \<and> fst (convert_one accepting_lib [''s'', ''x.wav''] [''s''] [''d''] ''192k'' False
         mangled_world) = Inr ''converted''"
proof -
  have h1: "wave_of (node_at (fs mangled_world) [''s'', ''x.wav'']) = Inl MutagenError"
    by code_simp
  have h2: "clone_branches accepting_lib [] odd_frame = Inr None"
    by code_simp
  have h3: "mp3_path [''s'', ''x.wav''] [''s''] [''d''] = Inr [''d'', ''x.mp3'']"
    by code_simp
  have h4: "mkdir_parents (fs mangled_world) (parent [''d'', ''x.mp3'']) =
       Inr (fs mangled_world @ [([''d''], Dir)])"
    by code_simp
  have h5: "node_at (fs mangled_world @ [([''d''], Dir)]) [''d'', ''x.mp3''] = None"
    by code_simp
  have h6: "from_wav_of (node_at (fs mangled_world @ [([''d''], Dir)]) [''s'', ''x.wav'']) = Inr [7]"
    by code_simp
  have h7: "\<not> export_raises accepting_lib [7] ''192k''"
    by (simp add: accepting_lib_def)
  have wv: "wave_of (node_at (fs encoded_world) [''s'', ''m.wav'']) = Inr (Some (RichTags mixed_tags))"
    by (simp add: encoded_world_def node_at_def)
  have ne: "mixed_tags \<noteq> []"
    by (simp add: mixed_tags_def)
  have nd: "node_at (fs encoded_world) [''d'', ''m.mp3''] = Some (File (Mp3 [4] ''192k'' None))"
    by (simp add: encoded_world_def node_at_def)
  have sv: "\<not> save_raises accepting_lib [''d'', ''m.mp3'']"
    by (simp add: accepting_lib_def)
  have nc: "clone_of accepting_lib (new_frame (OtherCls ''PRIV'')) = None"
    by code_simp
  have cc: "copied_count accepting_lib mixed_tags = 4"
    by code_simp
  have tr: "translate_rich accepting_lib mixed_tags [] =
       [(''TIT2'', text_frame TIT2 (PList [''Song'', ''Two''])),
        (''COMM::XXX'', text_frame COMM (PList [''salut'', ''bonjour''])),
        (''TXXX:'', text_frame TXXX (PList [''v1'', ''v2'']))]"
    by code_simp
  have short: "fst (clone_loop accepting_lib ([(''TIT2'', title_frame)] @ [(''TXXX:mood'', user_frame)])
          [] 0 empty_world) =
       Inr (2, [(''TIT2'', text_frame TIT2 (PList [''Song'', ''Two''])),
                (''TXXX:'', text_frame TXXX (PList [''v1'', ''v2'']))])"
    by code_simp
  note inst = tag_errors_never_fail [where L = accepting_lib and e = MutagenError
      and f = odd_frame and pre = "[(''TIT2'', title_frame)]" and key = "''PRIV''"
      and post = "[(''TXXX:mood'', user_frame)]" and t = "[]" and c = 0
      and s = "[''s'']" and d = "[''d'']" and ?f1.0 = "fs mangled_world @ [([''d''], Dir)]"
      and a = "[7]" and br = "''192k''" and items = mixed_tags and a' = "[4]"
      and br' = "''192k''" and ?t0.0 = None]
  from inst [where wav = "[''s'', ''x.wav'']" and ?mp3.0 = "[''d'', ''x.mp3'']" and w = mangled_world] h1
  have c1: "copy_tags accepting_lib [''s'', ''x.wav''] [''d'', ''x.mp3''] mangled_world =
       (Inr 0, mangled_world\<lparr>log := log mangled_world @
                 [TagsNotCopied [''s'', ''x.wav''] MutagenError]\<rparr>)"
    by blast
  from inst [where wav = "[''s'', ''x.wav'']" and ?mp3.0 = "[''d'', ''x.mp3'']" and w = empty_world] h2
  have "fst (clone_loop accepting_lib
          ([(''TIT2'', title_frame)] @ (''PRIV'', odd_frame) # [(''TXXX:mood'', user_frame)])
          [] 0 empty_world) =
      fst (clone_loop accepting_lib ([(''TIT2'', title_frame)] @ [(''TXXX:mood'', user_frame)])
          [] 0 empty_world)"
    by blast
  with short
  have c2: "fst (clone_loop accepting_lib
          ([(''TIT2'', title_frame)] @ (''PRIV'', odd_frame) # [(''TXXX:mood'', user_frame)])
          [] 0 empty_world) =
       Inr (2, [(''TIT2'', text_frame TIT2 (PList [''Song'', ''Two''])),
                (''TXXX:'', text_frame TXXX (PList [''v1'', ''v2'']))])"
    by (rule trans[rotated])
  from inst [where wav = "[''s'', ''m.wav'']" and ?mp3.0 = "[''d'', ''m.mp3'']" and w = encoded_world]
    wv ne nd sv
  obtain evs where r: "copy_tags accepting_lib [''s'', ''m.wav''] [''d'', ''m.mp3''] encoded_world =
           (Inr (copied_count accepting_lib mixed_tags),
            encoded_world\<lparr>fs := AList.update [''d'', ''m.mp3'']
                 (File (Mp3 [4] ''192k'' (Some (translate_rich accepting_lib mixed_tags []))))
                 (fs encoded_world),
              log := log encoded_world @ evs\<rparr>)"
    by blast
  have c4: "fst (copy_tags accepting_lib [''s'', ''m.wav''] [''d'', ''m.mp3''] encoded_world) = Inr 4"
    unfolding r cc by simp
  have c5: "node_at (fs (snd (copy_tags accepting_lib [''s'', ''m.wav''] [''d'', ''m.mp3'']
         encoded_world))) [''d'', ''m.mp3''] =
       Some (File (Mp3 [4] ''192k''
         (Some [(''TIT2'', text_frame TIT2 (PList [''Song'', ''Two''])),
                (''COMM::XXX'', text_frame COMM (PList [''salut'', ''bonjour''])),
                (''TXXX:'', text_frame TXXX (PList [''v1'', ''v2'']))])))"
    unfolding r tr by (simp add: node_at_update)
  from inst [where wav = "[''s'', ''x.wav'']" and ?mp3.0 = "[''d'', ''x.mp3'']" and w = mangled_world]
    h3 h4 h5 h6 h7
  have c3: "fst (convert_one accepting_lib [''s'', ''x.wav''] [''s''] [''d''] ''192k'' False
         mangled_world) = Inr ''converted''"
    by blast
  from h1 c1 h2 c2 wv ne nd sv nc c4 c5 h3 h4 h5 h6 h7 c3 show ?thesis
    by (intro conjI)
qed

section \<open>Visibility of the destination during a conversion\<close>

lemma mkdir_parents_absent:
  assumes "mkdir_parents f p = Inr f'" and "node_at f' q = None"
  shows "node_at f q = None"
  using mkdir_parents_node[OF assms(1), of q] assms(2) by auto

lemma copy_tags_flat:
  assumes "wave_of (node_at (fs w) wav) = Inr (Some (FlatTags tgs))"
    and "tgs \<noteq> []"
    and "node_at (fs w) mp3 = Some (File (Mp3 a br t0))"
    and "\<forall>f \<in> set (translate_flat tgs). \<not> frame_raises L f"
    and "\<not> save_raises L mp3"
  shows "copy_tags L wav mp3 w =
     (Inr (length (translate_flat tgs)),
      w\<lparr>fs := AList.update mp3 (File (Mp3 a br (Some (keyed L (translate_flat tgs))))) (fs w)\<rparr>)"
proof -
  let ?h = "\<lparr>filename = mp3, h_audio = a, h_bitrate = br, h_tags = t0\<rparr>"
  have b: "copy_tags_body L wav mp3 w = copy_from_riff_info L tgs ?h w"
    using assms(1,2,3) by (simp add: copy_tags_body_def bindM_def WAVE_def MP3_def)
  have "copy_from_riff_info L tgs ?h w =
     (Inr (length (translate_flat tgs)),
      w\<lparr>fs := AList.update mp3 (File (Mp3 a br (Some (keyed L (translate_flat tgs))))) (fs w)\<rparr>)"
    using copy_riff_saved[OF assms(4), of ?h w] assms(5) by simp
  with b show ?thesis by (simp add: copy_tags_def try_except_def)
qed

lemma copy_tags_no_tags:
  assumes "wave_of (node_at (fs w) wav) = Inr None
      \<or> wave_of (node_at (fs w) wav) = Inr (Some (RichTags []))
      \<or> wave_of (node_at (fs w) wav) = Inr (Some (FlatTags []))"
  shows "copy_tags L wav mp3 w = (Inr 0, w)"
  using assms
  by (auto simp: copy_tags_def copy_tags_body_def try_except_def bindM_def WAVE_def)

lemma convert_one_trace_last:
  "last (convert_one_trace L wav s d br dry w) = snd (convert_one L wav s d br dry w)"
proof (cases "mp3_path wav s d")
  case (Inl e)
  then show ?thesis by (simp add: convert_one_trace_def convert_one_unfold)
next
  case mp: (Inr mp3)
  show ?thesis
  proof (cases "mkdir_parents (fs w) (parent mp3)")
    case (Inl e)
    with mp show ?thesis by (simp add: convert_one_trace_def convert_one_unfold mkdir_def)
  next
    case mk: (Inr f1)
    have dir1: "node_at f1 (parent mp3) = Some Dir"
      using mkdir_parents_dir[OF mk] .
    show ?thesis
    proof (cases "node_at f1 mp3 \<noteq> None \<or> dry")
      case True
      with mp mk show ?thesis
        by (auto simp: convert_one_trace_def convert_one_unfold mkdir_def logging_def)
    next
      case False
      then have absent: "node_at f1 mp3 = None" and nd: "\<not> dry" by auto
      have op: "open_wb mp3 (w\<lparr>fs := f1\<rparr>) =
          (Inr (), w\<lparr>fs := AList.update mp3 (File Empty) f1\<rparr>)"
        using open_wb_fresh[of "w\<lparr>fs := f1\<rparr>" mp3] absent dir1 by simp
      from mp mk absent nd show ?thesis
        by (simp add: convert_one_trace_def convert_one_unfold mkdir_def from_wav_def op
            encode_def logging_def split: sum.splits prod.splits)
    qed
  qed
qed


text \<open>
  C8, as the code has it. Take a task that starts converting and whose source decodes.
  The destination path is empty before the call and after the directories are made. The
  encoder call first creates it as an empty file. If the encoder fails, the task is
  Failed and the empty file stays under the destination path. Otherwise the destination
  next carries the encoded audio and the encoder's own tag container, and only then
  does \<^verbatim>\<open>copy_tags\<close> run: it leaves the file system as it is or replaces the tag container
  of the destination, never its audio, and the task is Converted. The file system is
  left as it is when the save raises, when the source's container cannot be parsed, and
  when the source has no tags. With a non-empty rich container and a save that succeeds
  the destination ends with exactly the translation of the source's frames; with a
  non-empty flat container, frames that the tag library accepts and a save that
  succeeds, with the table's translation. The last step only adds a log line.
\<close>

theorem destination_visible_before_tags:
  assumes "mp3_path wav s d = Inr mp3"
    and "mkdir_parents (fs w) (parent mp3) = Inr f1"
    and "node_at f1 mp3 = None"
    and "from_wav_of (node_at f1 wav) = Inr a"
  shows "node_at (fs w) mp3 = None
     \<and> node_at (AList.update mp3 (File Empty) f1) mp3 = Some (File Empty)
     \<and> (export_raises L a br \<longrightarrow>
          convert_one_trace L wav s d br False w =
            [w, w\<lparr>fs := f1\<rparr>, w\<lparr>fs := AList.update mp3 (File Empty) f1\<rparr>,
             w\<lparr>fs := AList.update mp3 (File Empty) f1,
               log := log w @ [ConversionError wav CouldntEncodeError]\<rparr>]
          \<and> convert_one L wav s d br False w =
            (Inr ''failed'', w\<lparr>fs := AList.update mp3 (File Empty) f1,
               log := log w @ [ConversionError wav CouldntEncodeError]\<rparr>))
     \<and> (\<not> export_raises L a br \<longrightarrow>
          (\<exists>n w3.
             copy_tags L wav mp3
               (w\<lparr>fs := AList.update mp3 (File (Mp3 a br (export_tags L))) f1\<rparr>) = (Inr n, w3)
           \<and> convert_one_trace L wav s d br False w =
               [w, w\<lparr>fs := f1\<rparr>, w\<lparr>fs := AList.update mp3 (File Empty) f1\<rparr>,
                w\<lparr>fs := AList.update mp3 (File (Mp3 a br (export_tags L))) f1\<rparr>,
                w3, w3\<lparr>log := log w3 @ [ConvertedMsg wav mp3 n]\<rparr>]
           \<and> convert_one L wav s d br False w =
               (Inr ''converted'', w3\<lparr>log := log w3 @ [ConvertedMsg wav mp3 n]\<rparr>)
           \<and> node_at (AList.update mp3 (File (Mp3 a br (export_tags L))) f1) mp3 =
               Some (File (Mp3 a br (export_tags L)))
           \<and> tags_rewritten (AList.update mp3 (File (Mp3 a br (export_tags L))) f1) mp3 (fs w3)
           \<and> (\<exists>t'. node_at (fs w3) mp3 = Some (File (Mp3 a br t')))
           \<and> (save_raises L mp3 \<or> (\<exists>e. wave_of (node_at f1 wav) = Inl e)
                \<or> wave_of (node_at f1 wav) = Inr None
                \<or> wave_of (node_at f1 wav) = Inr (Some (RichTags []))
                \<or> wave_of (node_at f1 wav) = Inr (Some (FlatTags []))
              \<longrightarrow> fs w3 = AList.update mp3 (File (Mp3 a br (export_tags L))) f1)
           \<and> (\<forall>items. wave_of (node_at f1 wav) = Inr (Some (RichTags items)) \<and> items \<noteq> []
                  \<and> \<not> save_raises L mp3
                \<longrightarrow> node_at (fs w3) mp3 =
                      Some (File (Mp3 a br (Some (translate_rich L items [])))))
           \<and> (\<forall>tgs. wave_of (node_at f1 wav) = Inr (Some (FlatTags tgs)) \<and> tgs \<noteq> []
                  \<and> (\<forall>f \<in> set (translate_flat tgs). \<not> frame_raises L f)
                  \<and> \<not> save_raises L mp3
                \<longrightarrow> node_at (fs w3) mp3 =
                      Some (File (Mp3 a br (Some (keyed L (translate_flat tgs))))))))"
proof -
  let ?fo = "AList.update mp3 (File Empty) f1"
  let ?f2 = "AList.update mp3 (File (Mp3 a br (export_tags L))) f1"
  let ?w2 = "w\<lparr>fs := ?f2\<rparr>"
  note mp = assms(1) and mk = assms(2) and absent = assms(3) and dec = assms(4)
  have ne: "mp3 \<noteq> []" using absent by (auto simp: node_at_def split: if_splits)
  have dir1: "node_at f1 (parent mp3) = Some Dir"
    using mkdir_parents_dir[OF mk] .
  have wm: "wav \<noteq> mp3" using absent dec by auto
  have op: "open_wb mp3 (w\<lparr>fs := f1\<rparr>) = (Inr (), w\<lparr>fs := ?fo\<rparr>)"
    using open_wb_fresh[of "w\<lparr>fs := f1\<rparr>" mp3] absent dir1 by simp
  have one: "node_at (fs w) mp3 = None"
    using mkdir_parents_absent[OF mk absent] .
  have two: "node_at ?fo mp3 = Some (File Empty)"
    using ne by (simp add: node_at_update)
  have n2: "node_at ?f2 mp3 = Some (File (Mp3 a br (export_tags L)))"
    using ne by (simp add: node_at_update)
  have wv: "node_at (fs ?w2) wav = node_at f1 wav"
    using wm by (simp add: node_at_update)
  have fail: "convert_one_trace L wav s d br False w =
            [w, w\<lparr>fs := f1\<rparr>, w\<lparr>fs := ?fo\<rparr>,
             w\<lparr>fs := ?fo, log := log w @ [ConversionError wav CouldntEncodeError]\<rparr>]
          \<and> convert_one L wav s d br False w =
            (Inr ''failed'', w\<lparr>fs := ?fo,
               log := log w @ [ConversionError wav CouldntEncodeError]\<rparr>)"
    if "export_raises L a br"
    using that mp mk absent dec op
    by (simp add: convert_one_trace_def convert_one_unfold mkdir_def from_wav_def
        encode_def logging_def)
  have ok: "\<exists>n w3.
             copy_tags L wav mp3 ?w2 = (Inr n, w3)
           \<and> convert_one_trace L wav s d br False w =
               [w, w\<lparr>fs := f1\<rparr>, w\<lparr>fs := ?fo\<rparr>, ?w2,
                w3, w3\<lparr>log := log w3 @ [ConvertedMsg wav mp3 n]\<rparr>]
           \<and> convert_one L wav s d br False w =
               (Inr ''converted'', w3\<lparr>log := log w3 @ [ConvertedMsg wav mp3 n]\<rparr>)
           \<and> node_at ?f2 mp3 = Some (File (Mp3 a br (export_tags L)))
           \<and> tags_rewritten ?f2 mp3 (fs w3)
           \<and> (\<exists>t'. node_at (fs w3) mp3 = Some (File (Mp3 a br t')))
           \<and> (save_raises L mp3 \<or> (\<exists>e. wave_of (node_at f1 wav) = Inl e)
                \<or> wave_of (node_at f1 wav) = Inr None
                \<or> wave_of (node_at f1 wav) = Inr (Some (RichTags []))
                \<or> wave_of (node_at f1 wav) = Inr (Some (FlatTags []))
              \<longrightarrow> fs w3 = ?f2)
           \<and> (\<forall>items. wave_of (node_at f1 wav) = Inr (Some (RichTags items)) \<and> items \<noteq> []
                  \<and> \<not> save_raises L mp3
                \<longrightarrow> node_at (fs w3) mp3 =
                      Some (File (Mp3 a br (Some (translate_rich L items [])))))
           \<and> (\<forall>tgs. wave_of (node_at f1 wav) = Inr (Some (FlatTags tgs)) \<and> tgs \<noteq> []
                  \<and> (\<forall>f \<in> set (translate_flat tgs). \<not> frame_raises L f)
                  \<and> \<not> save_raises L mp3
                \<longrightarrow> node_at (fs w3) mp3 =
                      Some (File (Mp3 a br (Some (keyed L (translate_flat tgs))))))"
    if enc: "\<not> export_raises L a br"
  proof -
    obtain n f3 evs where ct: "copy_tags L wav mp3 ?w2 = (Inr n, ?w2\<lparr>fs := f3, log := log ?w2 @ evs\<rparr>)"
      and tr: "tags_rewritten (fs ?w2) mp3 f3"
      and sr: "save_raises L mp3 \<longrightarrow> f3 = fs ?w2"
      using copy_tags_effect by blast
    let ?w3 = "?w2\<lparr>fs := f3, log := log ?w2 @ evs\<rparr>"
    have a1: "copy_tags L wav mp3 ?w2 = (Inr n, ?w3)" using ct .
    have a2: "convert_one_trace L wav s d br False w =
               [w, w\<lparr>fs := f1\<rparr>, w\<lparr>fs := ?fo\<rparr>, ?w2,
                ?w3, ?w3\<lparr>log := log ?w3 @ [ConvertedMsg wav mp3 n]\<rparr>]"
      using enc mp mk absent dec op ct
      by (simp add: convert_one_trace_def mkdir_def from_wav_def encode_def logging_def)
    have a3: "convert_one L wav s d br False w =
               (Inr ''converted'', ?w3\<lparr>log := log ?w3 @ [ConvertedMsg wav mp3 n]\<rparr>)"
      using enc mp mk absent dec ct by (simp add: convert_one_unfold)
    have a5: "tags_rewritten ?f2 mp3 (fs ?w3)" using tr by simp
    have a6: "\<exists>t'. node_at (fs ?w3) mp3 = Some (File (Mp3 a br t'))"
      using tags_rewritten_file[OF a5 n2] .
    have a7: "fs ?w3 = ?f2"
      if "save_raises L mp3 \<or> (\<exists>e. wave_of (node_at f1 wav) = Inl e)
                \<or> wave_of (node_at f1 wav) = Inr None
                \<or> wave_of (node_at f1 wav) = Inr (Some (RichTags []))
                \<or> wave_of (node_at f1 wav) = Inr (Some (FlatTags []))"
    proof -
      from that consider (s) "save_raises L mp3"
        | (e) e where "wave_of (node_at f1 wav) = Inl e"
        | (n) "wave_of (node_at (fs ?w2) wav) = Inr None
            \<or> wave_of (node_at (fs ?w2) wav) = Inr (Some (RichTags []))
            \<or> wave_of (node_at (fs ?w2) wav) = Inr (Some (FlatTags []))"
        unfolding wv by blast
      then show ?thesis
      proof cases
        case s
        with sr show ?thesis by simp
      next
        case e
        then have "wave_of (node_at (fs ?w2) wav) = Inl e" unfolding wv .
        from copy_tags_unparseable[OF this, of L mp3] ct
        have "?w3 = ?w2\<lparr>log := log ?w2 @ [TagsNotCopied wav e]\<rparr>" by simp
        then have "fs ?w3 = fs (?w2\<lparr>log := log ?w2 @ [TagsNotCopied wav e]\<rparr>)" by (rule arg_cong)
        then show ?thesis by simp
      next
        case n
        from copy_tags_no_tags[OF n, of L mp3] ct have "?w3 = ?w2" by simp
        then have "fs ?w3 = fs ?w2" by (rule arg_cong)
        then show ?thesis by simp
      qed
    qed
    have a8: "node_at (fs ?w3) mp3 = Some (File (Mp3 a br (Some (translate_rich L items []))))"
      if "wave_of (node_at f1 wav) = Inr (Some (RichTags items)) \<and> items \<noteq> []
                  \<and> \<not> save_raises L mp3" for items
    proof -
      from that have r: "wave_of (node_at (fs ?w2) wav) = Inr (Some (RichTags items))"
        and i: "items \<noteq> []" and sv: "\<not> save_raises L mp3"
        unfolding wv by auto
      have nd: "node_at (fs ?w2) mp3 = Some (File (Mp3 a br (export_tags L)))"
        using n2 by simp
      from copy_tags_rich[OF r i nd sv] ct obtain evs' where
        "?w3 = ?w2\<lparr>fs := AList.update mp3 (File (Mp3 a br (Some (translate_rich L items [])))) (fs ?w2),
            log := log ?w2 @ evs'\<rparr>" by auto
      then have "fs ?w3 = fs (?w2\<lparr>fs := AList.update mp3 (File (Mp3 a br (Some (translate_rich L items [])))) (fs ?w2),
            log := log ?w2 @ evs'\<rparr>)" by (rule arg_cong)
      then have "fs ?w3 = AList.update mp3 (File (Mp3 a br (Some (translate_rich L items [])))) ?f2"
        by simp
      then show ?thesis using ne by (simp add: node_at_update)
    qed
    have a9: "node_at (fs ?w3) mp3 = Some (File (Mp3 a br (Some (keyed L (translate_flat tgs)))))"
      if "wave_of (node_at f1 wav) = Inr (Some (FlatTags tgs)) \<and> tgs \<noteq> []
                  \<and> (\<forall>f \<in> set (translate_flat tgs). \<not> frame_raises L f)
                  \<and> \<not> save_raises L mp3" for tgs
    proof -
      from that have r: "wave_of (node_at (fs ?w2) wav) = Inr (Some (FlatTags tgs))"
        and i: "tgs \<noteq> []" and fr: "\<forall>f \<in> set (translate_flat tgs). \<not> frame_raises L f"
        and sv: "\<not> save_raises L mp3"
        unfolding wv by auto
      have nd: "node_at (fs ?w2) mp3 = Some (File (Mp3 a br (export_tags L)))"
        using n2 by simp
      from copy_tags_flat[OF r i nd fr sv] ct have
        "?w3 = ?w2\<lparr>fs := AList.update mp3 (File (Mp3 a br (Some (keyed L (translate_flat tgs))))) (fs ?w2)\<rparr>"
        by simp
      then have "fs ?w3 = fs (?w2\<lparr>fs := AList.update mp3 (File (Mp3 a br (Some (keyed L (translate_flat tgs))))) (fs ?w2)\<rparr>)"
        by (rule arg_cong)
      then have "fs ?w3 = AList.update mp3 (File (Mp3 a br (Some (keyed L (translate_flat tgs))))) ?f2"
        by simp
      then show ?thesis using ne by (simp add: node_at_update)
    qed
    from a1 a2 a3 n2 a5 a6 a7 a8 a9 show ?thesis by blast
  qed
  from one two fail ok show ?thesis by blast
qed

theorem destination_visible_before_tags_witness:
  "mp3_path [''s'', ''a'', ''1.wav''] [''s''] [''d''] = Inr [''d'', ''a'', ''1.mp3'']
   \<and> mkdir_parents (fs music_world) (parent [''d'', ''a'', ''1.mp3'']) =
       Inr (fs music_world @ [([''d''], Dir), ([''d'', ''a''], Dir)])
   \<and> node_at (fs music_world @ [([''d''], Dir), ([''d'', ''a''], Dir)])
         [''d'', ''a'', ''1.mp3''] = None
   \<and> from_wav_of (node_at (fs music_world @ [([''d''], Dir), ([''d'', ''a''], Dir)])
         [''s'', ''a'', ''1.wav'']) = Inr [1, 2]
   \<and> export_raises no_encode_lib [1, 2] ''192k''
   \<and> convert_one no_encode_lib [''s'', ''a'', ''1.wav''] [''s''] [''d''] ''192k'' False
         music_world =
       (Inr ''failed'',
        music_world\<lparr>fs := AList.update [''d'', ''a'', ''1.mp3''] (File Empty)
                 (fs music_world @ [([''d''], Dir), ([''d'', ''a''], Dir)]),
           log := log music_world @
                 [ConversionError [''s'', ''a'', ''1.wav''] CouldntEncodeError]\<rparr>)
   \<and> \<not> export_raises accepting_lib [1, 2] ''192k''
   \<and> wave_of (node_at (fs music_world @ [([''d''], Dir), ([''d'', ''a''], Dir)])
         [''s'', ''a'', ''1.wav'']) = Inr (Some (RichTags [(''TIT2'', title_frame)]))
   \<and> \<not> save_raises accepting_lib [''d'', ''a'', ''1.mp3'']
   \<and> fst (convert_one accepting_lib [''s'', ''a'', ''1.wav''] [''s''] [''d''] ''192k'' False
         music_world) = Inr ''converted''
   \<and> node_at (fs (snd (convert_one accepting_lib [''s'', ''a'', ''1.wav''] [''s''] [''d'']
         ''192k'' False music_world))) [''d'', ''a'', ''1.mp3''] =
       Some (File (Mp3 [1, 2] ''192k''
         (Some [(''TIT2'', text_frame TIT2 (PList [''Song'', ''Two'']))])))
   \<and> length (convert_one_trace accepting_lib [''s'', ''a'', ''1.wav''] [''s''] [''d''] ''192k''
         False music_world) = 6"
proof -
  let ?f1 = "fs music_world @ [([''d''], Dir), ([''d'', ''a''], Dir)]"
  have h1: "mp3_path [''s'', ''a'', ''1.wav''] [''s''] [''d''] = Inr [''d'', ''a'', ''1.mp3'']"
    by code_simp
  have h2: "mkdir_parents (fs music_world) (parent [''d'', ''a'', ''1.mp3'']) = Inr ?f1"
    by code_simp
  have h3: "node_at ?f1 [''d'', ''a'', ''1.mp3''] = None"
    by code_simp
  have h4: "from_wav_of (node_at ?f1 [''s'', ''a'', ''1.wav'']) = Inr [1, 2]"
    by code_simp
  have e1: "export_raises no_encode_lib [1, 2] ''192k''"
    by (simp add: no_encode_lib_def accepting_lib_def)
  have e2: "\<not> export_raises accepting_lib [1, 2] ''192k''"
    by (simp add: accepting_lib_def)
  have wv: "wave_of (node_at ?f1 [''s'', ''a'', ''1.wav'']) =
      Inr (Some (RichTags [(''TIT2'', title_frame)]))"
    by code_simp
  have sv: "\<not> save_raises accepting_lib [''d'', ''a'', ''1.mp3'']"
    by (simp add: accepting_lib_def)
  have tr: "translate_rich accepting_lib [(''TIT2'', title_frame)] [] =
      [(''TIT2'', text_frame TIT2 (PList [''Song'', ''Two'']))]"
    by code_simp
  note inst = destination_visible_before_tags [OF h1 h2 h3 h4]
  from inst [of no_encode_lib "''192k''"] e1
  have c1: "convert_one no_encode_lib [''s'', ''a'', ''1.wav''] [''s''] [''d''] ''192k'' False
         music_world =
       (Inr ''failed'',
        music_world\<lparr>fs := AList.update [''d'', ''a'', ''1.mp3''] (File Empty) ?f1,
           log := log music_world @
                 [ConversionError [''s'', ''a'', ''1.wav''] CouldntEncodeError]\<rparr>)"
    by blast
  from inst [of accepting_lib "''192k''"] e2
  obtain n w3 where
    t: "convert_one_trace accepting_lib [''s'', ''a'', ''1.wav''] [''s''] [''d''] ''192k'' False
          music_world =
        [music_world, music_world\<lparr>fs := ?f1\<rparr>,
         music_world\<lparr>fs := AList.update [''d'', ''a'', ''1.mp3''] (File Empty) ?f1\<rparr>,
         music_world\<lparr>fs := AList.update [''d'', ''a'', ''1.mp3'']
            (File (Mp3 [1, 2] ''192k'' (export_tags accepting_lib))) ?f1\<rparr>,
         w3, w3\<lparr>log := log w3 @ [ConvertedMsg [''s'', ''a'', ''1.wav''] [''d'', ''a'', ''1.mp3''] n]\<rparr>]"
    and c: "convert_one accepting_lib [''s'', ''a'', ''1.wav''] [''s''] [''d''] ''192k'' False
          music_world =
        (Inr ''converted'',
         w3\<lparr>log := log w3 @ [ConvertedMsg [''s'', ''a'', ''1.wav''] [''d'', ''a'', ''1.mp3''] n]\<rparr>)"
    and r: "\<forall>items. wave_of (node_at ?f1 [''s'', ''a'', ''1.wav'']) = Inr (Some (RichTags items))
              \<and> items \<noteq> [] \<and> \<not> save_raises accepting_lib [''d'', ''a'', ''1.mp3'']
            \<longrightarrow> node_at (fs w3) [''d'', ''a'', ''1.mp3''] =
                  Some (File (Mp3 [1, 2] ''192k'' (Some (translate_rich accepting_lib items []))))"
    by blast
  have c2: "fst (convert_one accepting_lib [''s'', ''a'', ''1.wav''] [''s''] [''d''] ''192k'' False
         music_world) = Inr ''converted''"
    unfolding c by simp
  from r wv sv have "node_at (fs w3) [''d'', ''a'', ''1.mp3''] =
      Some (File (Mp3 [1, 2] ''192k'' (Some (translate_rich accepting_lib [(''TIT2'', title_frame)] []))))"
    by blast
  then have c3: "node_at (fs (snd (convert_one accepting_lib [''s'', ''a'', ''1.wav''] [''s''] [''d'']
         ''192k'' False music_world))) [''d'', ''a'', ''1.mp3''] =
       Some (File (Mp3 [1, 2] ''192k''
         (Some [(''TIT2'', text_frame TIT2 (PList [''Song'', ''Two'']))])))"
    unfolding c tr by simp
  have c4: "length (convert_one_trace accepting_lib [''s'', ''a'', ''1.wav''] [''s''] [''d''] ''192k''
         False music_world) = 6"
    unfolding t by simp
  from h1 h2 h3 h4 e1 c1 e2 wv sv c2 c3 c4 show ?thesis
    by (intro conjI)
qed

text \<open>
  C8, as the claim states it. For the tagged source file \<open>s/a/1.wav\<close> the destination
  \<open>d/a/1.mp3\<close> is present as an empty file in the third observable world, and with its
  audio and no tag container in the fourth, although the source carries a title frame,
  which only the next world shows.
\<close>

theorem untagged_destination_observable:
  "map (\<lambda>v. node_at (fs v) [''d'', ''a'', ''1.mp3''])
     (convert_one_trace accepting_lib [''s'', ''a'', ''1.wav''] [''s''] [''d''] ''192k'' False
        music_world) =
   [None, None,
    Some (File Empty),
    Some (File (Mp3 [1, 2] ''192k'' None)),
    Some (File (Mp3 [1, 2] ''192k'' (Some [(''TIT2'', text_frame TIT2 (PList [''Song'', ''Two'']))]))),
    Some (File (Mp3 [1, 2] ''192k'' (Some [(''TIT2'', text_frame TIT2 (PList [''Song'', ''Two'']))])))]"
  by code_simp

text \<open>
  When the save raises, the same task is Converted and its destination never gets the
  source's title: it keeps what the encoder wrote.
\<close>

lemma converted_without_tags:
  "fst (convert_one no_save_lib [''s'', ''a'', ''1.wav''] [''s''] [''d''] ''192k'' False
      music_world) = Inr ''converted''
   \<and> map (\<lambda>v. node_at (fs v) [''d'', ''a'', ''1.mp3''])
     (convert_one_trace no_save_lib [''s'', ''a'', ''1.wav''] [''s''] [''d''] ''192k'' False
        music_world) =
   [None, None,
    Some (File Empty),
    Some (File (Mp3 [1, 2] ''192k'' None)),
    Some (File (Mp3 [1, 2] ''192k'' None)),
    Some (File (Mp3 [1, 2] ''192k'' None))]"
  by code_simp

text \<open>
  When the encoder fails, the empty file it leaves is what the next run finds under the
  destination path: the task is then Skipped, not attempted again.
\<close>

lemma failed_encode_skipped_next:
  "fst (convert_one no_encode_lib [''s'', ''a'', ''1.wav''] [''s''] [''d''] ''192k'' False
      music_world) = Inr ''failed''
   \<and> node_at (fs (snd (convert_one no_encode_lib [''s'', ''a'', ''1.wav''] [''s''] [''d'']
         ''192k'' False music_world))) [''d'', ''a'', ''1.mp3''] = Some (File Empty)
   \<and> fst (convert_one no_encode_lib [''s'', ''a'', ''1.wav''] [''s''] [''d''] ''192k'' False
      (snd (convert_one no_encode_lib [''s'', ''a'', ''1.wav''] [''s''] [''d''] ''192k'' False
         music_world))) = Inr ''skipped''"
  by code_simp

section \<open>The run, step by step\<close>

lemma thenM_print [simp]: "thenM (print ev) k w = k (w\<lparr>console := console w @ [ev]\<rparr>)"
  by (simp add: thenM_def)

lemma thenM_logging [simp]: "thenM (logging ev) k w = k (w\<lparr>log := log w @ [ev]\<rparr>)"
  by (simp add: thenM_def)

lemma thenM_ret [simp]: "thenM (ret ()) k w = k w"
  by (simp add: thenM_def)

lemma bindM_path_exists [simp]: "bindM (path_exists p) f w = f (node_at (fs w) p \<noteq> None) w"
  by (simp add: bindM_def path_exists_def)

lemma preview_loop_effect:
  "\<exists>n evs. preview_loop files shown w = (Inr n, w\<lparr>console := console w @ evs\<rparr>)"
proof (induction files arbitrary: shown w)
  case Nil
  have "preview_loop [] shown w = (Inr shown, w\<lparr>console := console w @ []\<rparr>)" by simp
  then show ?case by blast
next
  case (Cons wav files)
  have "\<exists>sh ev. try_except
              (bindM (WAVE wav) (\<lambda>m. bindM (print (PreviewPanel wav m)) (\<lambda>_. ret (shown + 1))))
              (\<lambda>e. bindM (print (PreviewError wav e)) (\<lambda>_. ret shown)) w
          = (Inr sh, w\<lparr>console := console w @ [ev]\<rparr>)"
    by (cases "wave_of (node_at (fs w) wav)")
       (auto simp: try_except_def bindM_def WAVE_def print_def intro: exI)
  then obtain sh ev where st: "try_except
              (bindM (WAVE wav) (\<lambda>m. bindM (print (PreviewPanel wav m)) (\<lambda>_. ret (shown + 1))))
              (\<lambda>e. bindM (print (PreviewError wav e)) (\<lambda>_. ret shown)) w
          = (Inr sh, w\<lparr>console := console w @ [ev]\<rparr>)" by blast
  from Cons.IH[of sh "w\<lparr>console := console w @ [ev]\<rparr>"] obtain n evs where
    "preview_loop files sh (w\<lparr>console := console w @ [ev]\<rparr>) = (Inr n, w\<lparr>console := console w @ (ev # evs)\<rparr>)"
    by auto
  with st have "preview_loop (wav # files) shown w = (Inr n, w\<lparr>console := console w @ (ev # evs)\<rparr>)"
    by (simp add: bindM_def)
  then show ?case by blast
qed

lemma preview_tags_effect:
  "\<exists>evs. preview_tags files limit w = (Inr (), w\<lparr>console := console w @ evs\<rparr>)"
proof -
  obtain n evs where l: "preview_loop (take (nat limit) files) 0 w = (Inr n, w\<lparr>console := console w @ evs\<rparr>)"
    using preview_loop_effect by blast
  show ?thesis
  proof (cases "n = 0")
    case True
    with l have "preview_tags files limit w = (Inr (), w\<lparr>console := console w @ (evs @ [NoPreview])\<rparr>)"
      by (simp add: preview_tags_def bindM_def print_def)
    then show ?thesis by blast
  next
    case False
    with l have "preview_tags files limit w = (Inr (), w\<lparr>console := console w @ evs\<rparr>)"
      by (simp add: preview_tags_def bindM_def)
    then show ?thesis by blast
  qed
qed

lemma dry_run_loop_counts:
  assumes "list_all (\<lambda>p. \<exists>m. mp3_path p s d = Inr m) files"
  shows "\<exists>a b. dry_run_loop files s d wc ws w = (Inr (a, b), w) \<and> a + b = wc + ws + length files"
  using assms
proof (induction files arbitrary: wc ws)
  case Nil
  then show ?case by simp
next
  case (Cons p files)
  from Cons.prems obtain m where m: "mp3_path p s d = Inr m"
    and rest: "list_all (\<lambda>p. \<exists>m. mp3_path p s d = Inr m) files" by auto
  show ?case
  proof (cases "node_at (fs w) m \<noteq> None")
    case True
    from Cons.IH[OF rest, of wc "ws + 1"] obtain a b where
      "dry_run_loop files s d wc (ws + 1) w = (Inr (a, b), w)" "a + b = wc + (ws + 1) + length files"
      by blast
    with True m show ?thesis by simp
  next
    case False
    from Cons.IH[OF rest, of "wc + 1" ws] obtain a b where
      "dry_run_loop files s d (wc + 1) ws w = (Inr (a, b), w)" "a + b = (wc + 1) + ws + length files"
      by blast
    with False m show ?thesis by simp
  qed
qed

lemma found_have_destinations:
  "list_all (\<lambda>p. \<exists>m. mp3_path p s d = Inr m)
     (sort (filter (\<lambda>p. strict_prefix s p \<and> glob_wav (last p)) ks))"
proof -
  have "\<exists>m. mp3_path p s d = Inr m" if "strict_prefix s p" for p
  proof -
    from strict_prefix_rel[OF that] have ne: "drop (length s) p \<noteq> []"
      and r: "relative_to p s = Inr (drop (length s) p)" by simp_all
    from ne have "\<exists>r. with_suffix (drop (length s) p) ''.mp3'' = Inr r"
      by (simp add: with_suffix_def Let_def)
    with r show ?thesis by (auto simp: mp3_path_def)
  qed
  then show ?thesis by (auto simp: list_all_iff)
qed

lemma process_found_dry:
  assumes "list_all (\<lambda>p. \<exists>m. mp3_path p s d = Inr m) files"
  shows "\<exists>pre a b. process_found L files s d br k True pc w =
            (Inr (), w\<lparr>console := console w @ FoundMsg (length files) # pre @ [DryRunTable a b]\<rparr>)
          \<and> a + b = length files"
proof -
  let ?w1 = "w\<lparr>console := console w @ [FoundMsg (length files), ConBitrate br, ConWorkers k, DryRunActive]\<rparr>"
  have "\<exists>evs. (if pc > 0 then preview_tags files pc else ret ()) ?w1 = (Inr (), ?w1\<lparr>console := console ?w1 @ evs\<rparr>)"
  proof (cases "pc > 0")
    case True
    then show ?thesis using preview_tags_effect[of files pc ?w1] by simp
  next
    case False
    have "ret () ?w1 = (Inr (), ?w1\<lparr>console := console ?w1 @ []\<rparr>)" by simp
    with False show ?thesis by (simp del: ret_apply) blast
  qed
  then obtain evs where pv: "(if pc > 0 then preview_tags files pc else ret ()) ?w1 = (Inr (), ?w1\<lparr>console := console ?w1 @ evs\<rparr>)"
    by blast
  let ?w2 = "?w1\<lparr>console := console ?w1 @ evs\<rparr>"
  from dry_run_loop_counts[OF assms, of 0 0 ?w2] obtain a b where
    dl: "dry_run_loop files s d 0 0 ?w2 = (Inr (a, b), ?w2)" and sum: "a + b = length files" by auto
  have "process_found L files s d br k True pc w =
          (Inr (), w\<lparr>console := console w @ FoundMsg (length files) # ([ConBitrate br, ConWorkers k, DryRunActive] @ evs) @ [DryRunTable a b]\<rparr>)"
    using pv dl by (simp add: process_found_def dry_run_report_def thenM_def[of "if _ then _ else _"] bindM_def print_def)
  with sum show ?thesis by blast
qed

lemma thenM_mkdir:
  "thenM (mkdir p) k w =
     (case mkdir_parents (fs w) p of Inl e \<Rightarrow> (Inl e, w) | Inr f' \<Rightarrow> k (w\<lparr>fs := f'\<rparr>))"
  by (simp add: thenM_def bindM_def mkdir_def split: sum.splits)

lemma thenM_setup_logging:
  "thenM (setup_logging p) k w =
     (case node_at (fs w) p of
        Some Dir \<Rightarrow> (Inl IsADirectoryError, w)
      | Some (File c) \<Rightarrow> k w
      | None \<Rightarrow> k (w\<lparr>fs := AList.update p (File Other) (fs w)\<rparr>))"
  by (simp add: thenM_def bindM_def setup_logging_def split: option.splits node.splits)

lemma thenM_log_header:
  "thenM (log_header s d br k dry) m w =
     m (w\<lparr>log := log w @ [StartMsg, SourceMsg s, DestMsg d, BitrateMsg br, WorkersMsg k,
                           DryRunMsg dry]\<rparr>)"
  by (simp add: log_header_def thenM_def[of "thenM _ _"] thenM_def[of "logging (DryRunMsg _)"]
      bindM_def logging_def)

lemma bindM_rglob:
  "bindM (rglob root) f w =
     f (filter (\<lambda>p. strict_prefix root p \<and> glob_wav (last p)) (remdups (map fst (fs w)))) w"
  by (simp add: bindM_def rglob_def)

lemma run_conversion_unfold:
  "run_conversion L s d br k dry pc w =
    (if node_at (fs w) s = None then (Inr (), w\<lparr>console := console w @ [SrcMissing s]\<rparr>)
     else
       (case mkdir_parents (fs w) d of
          Inl e \<Rightarrow> (Inl e, w)
        | Inr f1 \<Rightarrow>
           (case node_at f1 (d @ [''conversion.log'']) of
              Some Dir \<Rightarrow> (Inl IsADirectoryError, w\<lparr>fs := f1\<rparr>)
            | other \<Rightarrow>
               (let f2 = (if other = None then AList.update (d @ [''conversion.log'']) (File Other) f1
                          else f1);
                    w2 = w\<lparr>fs := f2, log := log w @ [StartMsg, SourceMsg s, DestMsg d,
                            BitrateMsg br, WorkersMsg k, DryRunMsg dry]\<rparr>;
                    found = sort (filter (\<lambda>p. strict_prefix s p \<and> glob_wav (last p))
                              (remdups (map fst f2)))
                in if found = [] then (Inr (), w2\<lparr>console := console w @ [NoWavFiles]\<rparr>)
                   else process_found L found s d br k dry pc w2))))"
  by (simp add: run_conversion_def thenM_mkdir thenM_setup_logging thenM_log_header bindM_rglob
      Let_def print_def split: sum.splits option.splits node.splits)

section \<open>Dry run\<close>

lemma dry_run_loop_world: "snd (dry_run_loop files s d wc ws w) = w"
proof (induction files arbitrary: wc ws)
  case Nil
  then show ?case by simp
next
  case (Cons p files)
  then show ?case by (cases "mp3_path p s d") simp_all
qed

lemma mkdir_parents_files:
  assumes "mkdir_parents f p = Inr f'"
  shows "(node_at f' q = Some (File c)) = (node_at f q = Some (File c))"
  using mkdir_parents_node[OF assms, of q] by auto

text \<open>
  C9. A dry run leaves every file as it was and creates none, the log file
  \<open>conversion.log\<close> apart: at every other path a file with given contents is there
  afterwards exactly when it was there before. When the run returns, it has printed that
  the source is missing, or that there are no WAV files, or the number of discovered
  files and, last, the dry-run table, whose two counts add up to that number. The
  counting loop itself leaves the world as it is: it only asks whether destinations
  exist.
\<close>

theorem dry_run_effects:
  assumes "run_conversion L s d br k True pc w = (r, w')"
  shows "(\<forall>p c. p \<noteq> d @ [''conversion.log''] \<longrightarrow>
            (node_at (fs w') p = Some (File c)) = (node_at (fs w) p = Some (File c)))
       \<and> (r = Inr () \<longrightarrow>
            console w' = console w @ [SrcMissing s]
          \<or> console w' = console w @ [NoWavFiles]
          \<or> (\<exists>found pre a b. rglob s w' = (Inr found, w')
                \<and> console w' = console w @ FoundMsg (length found) # pre @ [DryRunTable a b]
                \<and> a + b = length found))
       \<and> (\<forall>files wc ws v. snd (dry_run_loop files s d wc ws v) = v)"
proof -
  let ?logp = "d @ [''conversion.log'']"
  let ?keeps = "\<lambda>f'. \<forall>p c. p \<noteq> ?logp \<longrightarrow> (node_at f' p = Some (File c)) = (node_at (fs w) p = Some (File c))"
  let ?B = "\<lambda>r w'. r = Inr () \<longrightarrow>
            console w' = console w @ [SrcMissing s]
          \<or> console w' = console w @ [NoWavFiles]
          \<or> (\<exists>found pre a b. rglob s w' = (Inr found, w')
                \<and> console w' = console w @ FoundMsg (length found) # pre @ [DryRunTable a b]
                \<and> a + b = length found)"
  note u = assms[unfolded run_conversion_unfold]
  have main: "?keeps (fs w') \<and> ?B r w'"
  proof (cases "node_at (fs w) s = None")
    case True
    with u show ?thesis by auto
  next
    case False
    show ?thesis
    proof (cases "mkdir_parents (fs w) d")
      case (Inl e)
      with u False show ?thesis by auto
    next
      case (Inr f1)
      have k1: "?keeps f1" using mkdir_parents_files[OF Inr] by simp
      show ?thesis
      proof (cases "node_at f1 ?logp = Some Dir")
        case True
        with u False Inr have "r = Inl IsADirectoryError" "fs w' = f1" by auto
        with k1 show ?thesis by simp
      next
        case nd: False
        define f2 where "f2 = (if node_at f1 ?logp = None then AList.update ?logp (File Other) f1 else f1)"
        define w2 where "w2 = w\<lparr>fs := f2, log := log w @ [StartMsg, SourceMsg s, DestMsg d,
                            BitrateMsg br, WorkersMsg k, DryRunMsg True]\<rparr>"
        define found0 where "found0 = filter (\<lambda>p. strict_prefix s p \<and> glob_wav (last p)) (remdups (map fst f2))"
        have k2: "?keeps f2" using k1 by (auto simp: f2_def node_at_update)
        from u False Inr nd have res: "(r, w') =
            (if sort found0 = [] then (Inr (), w2\<lparr>console := console w @ [NoWavFiles]\<rparr>)
             else process_found L (sort found0) s d br k True pc w2)"
          by (auto simp: Let_def f2_def w2_def found0_def split: option.splits node.splits)
        show ?thesis
        proof (cases "sort found0 = []")
          case True
          with res have "r = Inr ()" "w' = w2\<lparr>console := console w @ [NoWavFiles]\<rparr>" by simp_all
          with k2 show ?thesis by (simp add: w2_def)
        next
          case ne: False
          have dest: "list_all (\<lambda>p. \<exists>m. mp3_path p s d = Inr m) (sort found0)"
            unfolding found0_def by (rule found_have_destinations)
          from process_found_dry[OF dest, of L br k pc w2] obtain pre a b where
            pf: "process_found L (sort found0) s d br k True pc w2 =
              (Inr (), w2\<lparr>console := console w2 @ FoundMsg (length (sort found0)) # pre @ [DryRunTable a b]\<rparr>)"
            and sum: "a + b = length (sort found0)" by blast
          from res ne pf have r: "r = Inr ()"
            and w': "w' = w2\<lparr>console := console w2 @ FoundMsg (length (sort found0)) # pre @ [DryRunTable a b]\<rparr>"
            by simp_all
          have fsw': "fs w' = f2" using w' by (simp add: w2_def)
          have rg: "rglob s w' = (Inr found0, w')"
            using fsw' by (simp add: rglob_def found0_def)
          have con: "console w' = console w @ FoundMsg (length found0) # pre @ [DryRunTable a b]"
            using w' by (simp add: w2_def)
          from sum have sum': "a + b = length found0" by simp
          from rg con sum' have "\<exists>found pre a b. rglob s w' = (Inr found, w')
                \<and> console w' = console w @ FoundMsg (length found) # pre @ [DryRunTable a b]
                \<and> a + b = length found" by blast
          with k2 fsw' show ?thesis by simp
        qed
      qed
    qed
  qed
  with dry_run_loop_world show ?thesis by blast
qed

theorem dry_run_effects_witness:
  "run_conversion accepting_lib [''s''] [''d''] ''192k'' 2 True 1 half_world =
     (Inr (), snd (run_conversion accepting_lib [''s''] [''d''] ''192k'' 2 True 1 half_world))
   \<and> console (snd (run_conversion accepting_lib [''s''] [''d''] ''192k'' 2 True 1 half_world)) =
       [FoundMsg 2, ConBitrate ''192k'', ConWorkers 2, DryRunActive,
        PreviewPanel [''s'', ''a'', ''1.wav''] (Some (RichTags [(''TIT2'', title_frame)])),
        DryRunTable 1 1]
   \<and> [''d'', ''b.mp3''] \<noteq> [''d''] @ [''conversion.log'']
   \<and> node_at (fs (snd (run_conversion accepting_lib [''s''] [''d''] ''192k'' 2 True 1 half_world)))
         [''d'', ''b.mp3''] = Some (File (Mp3 [5] ''128k'' None))
   \<and> node_at (fs (snd (run_conversion accepting_lib [''s''] [''d''] ''192k'' 2 True 1 half_world)))
         [''d'', ''a'', ''1.mp3''] = None"
proof -
  let ?w' = "snd (run_conversion accepting_lib [''s''] [''d''] ''192k'' 2 True 1 half_world)"
  have a: "run_conversion accepting_lib [''s''] [''d''] ''192k'' 2 True 1 half_world = (Inr (), ?w')"
    by code_simp
  have b: "console ?w' =
       [FoundMsg 2, ConBitrate ''192k'', ConWorkers 2, DryRunActive,
        PreviewPanel [''s'', ''a'', ''1.wav''] (Some (RichTags [(''TIT2'', title_frame)])),
        DryRunTable 1 1]"
    by code_simp
  have c: "[''d'', ''b.mp3''] \<noteq> [''d''] @ [''conversion.log'']" by simp
  have d: "node_at (fs half_world) [''d'', ''b.mp3''] = Some (File (Mp3 [5] ''128k'' None))"
    by code_simp
  from dry_run_effects [OF a] c d
  have e: "node_at (fs ?w') [''d'', ''b.mp3''] = Some (File (Mp3 [5] ''128k'' None))"
    by blast
  have f: "node_at (fs ?w') [''d'', ''a'', ''1.mp3''] = None"
    by code_simp
  from a b c e f show ?thesis by (intro conjI)
qed

section \<open>Exit status\<close>

lemma mp3_path_errors: "mp3_path p s d = Inl e \<Longrightarrow> e = ValueError"
  by (auto simp: mp3_path_def relative_to_def with_suffix_def Let_def bindE_def
      split: sum.splits if_splits)

lemma convert_one_errors:
  assumes "fst (convert_one L wav s d br dry w) = Inl e"
  shows "path_error e"
proof (cases "mp3_path wav s d")
  case (Inl e')
  with assms mp3_path_errors[OF Inl] show ?thesis
    by (simp add: convert_one_unfold path_error_def)
next
  case mp: (Inr mp3)
  show ?thesis
  proof (cases "mkdir_parents (fs w) (parent mp3)")
    case (Inl e')
    with assms mp mkdir_parents_errors[OF Inl] show ?thesis
      by (auto simp: convert_one_unfold path_error_def)
  next
    case mk: (Inr f1)
    with assms mp show ?thesis
      by (auto simp: convert_one_unfold split: if_splits sum.splits prod.splits)
  qed
qed

lemma submit_all_errors:
  assumes "submit_all L files s d br w = (rs, w')" and "Inl e \<in> set rs"
  shows "path_error e"
  using assms
proof (induction files arbitrary: w rs w')
  case Nil
  then show ?case by simp
next
  case (Cons wav files)
  obtain r w1 where c: "convert_one L wav s d br False w = (r, w1)" by (cases "convert_one L wav s d br False w")
  obtain rs' w2 where s: "submit_all L files s d br w1 = (rs', w2)" by (cases "submit_all L files s d br w1")
  from Cons.prems(1) c s have rs: "rs = r # rs'" by auto
  show ?case
  proof (cases "r = Inl e")
    case True
    with c convert_one_errors[of L wav s d br False w e] show ?thesis by simp
  next
    case False
    with Cons.prems(2) rs have "Inl e \<in> set rs'" by auto
    with Cons.IH[OF s] show ?thesis .
  qed
qed

lemma tally_errors: "tally rs c s f = Inl e \<Longrightarrow> Inl e \<in> set rs"
  by (induction rs c s f rule: tally.induct) (auto split: if_splits)

lemma convert_parallel_errors:
  assumes "fst (convert_parallel L files s d br k w) = Inl e"
  shows "path_error e"
proof (cases "k \<le> 0")
  case True
  with assms show ?thesis by (simp add: convert_parallel_def path_error_def)
next
  case False
  obtain rs w1 where sa: "submit_all L files s d br w = (rs, w1)" by (cases "submit_all L files s d br w")
  show ?thesis
  proof (cases "tally rs 0 0 0")
    case (Inl e')
    with assms False sa have "e' = e" by (simp add: convert_parallel_def)
    with Inl tally_errors submit_all_errors[OF sa] show ?thesis by blast
  next
    case (Inr t)
    with assms False sa show ?thesis
      by (cases t) (simp add: convert_parallel_def logging_def)
  qed
qed

lemma dry_run_loop_errors:
  "fst (dry_run_loop files s d wc ws w) = Inl e \<Longrightarrow> e = ValueError"
proof (induction files arbitrary: wc ws)
  case Nil
  then show ?case by simp
next
  case (Cons p files)
  then show ?case
    by (cases "mp3_path p s d") (auto dest: mp3_path_errors split: if_splits)
qed

lemma process_found_tail:
  "\<exists>w2. process_found L files s d br k dry pc w =
     (if dry then dry_run_report files s d else convert_parallel L files s d br k) w2"
proof -
  have pv: "\<exists>w2. thenM (if pc > 0 then preview_tags files pc else ret ()) m v = m w2"
    for m :: "unit io" and v
  proof (cases "pc > 0")
    case True
    obtain evs where "preview_tags files pc v = (Inr (), v\<lparr>console := console v @ evs\<rparr>)"
      using preview_tags_effect by blast
    with True have "thenM (if pc > 0 then preview_tags files pc else ret ()) m v =
        m (v\<lparr>console := console v @ evs\<rparr>)"
      by (simp add: thenM_def bindM_def)
    then show ?thesis by blast
  next
    case False
    then have "thenM (if pc > 0 then preview_tags files pc else ret ()) m v = m v" by simp
    then show ?thesis by blast
  qed
  show ?thesis
    using pv by (cases dry) (simp_all add: process_found_def)
qed

lemma process_found_errors:
  assumes "fst (process_found L files s d br k dry pc w) = Inl e"
  shows "path_error e"
proof -
  from process_found_tail obtain w2 where t: "process_found L files s d br k dry pc w =
     (if dry then dry_run_report files s d else convert_parallel L files s d br k) w2" by blast
  show ?thesis
  proof (cases dry)
    case True
    with t assms have "fst (dry_run_report files s d w2) = Inl e" by simp
    then have "fst (dry_run_loop files s d 0 0 w2) = Inl e"
      by (cases "dry_run_loop files s d 0 0 w2")
         (auto simp: dry_run_report_def bindM_def print_def split: sum.splits prod.splits)
    from dry_run_loop_errors[OF this] show ?thesis by (simp add: path_error_def)
  next
    case False
    with t assms have "fst (convert_parallel L files s d br k w2) = Inl e" by simp
    then show ?thesis by (rule convert_parallel_errors)
  qed
qed

lemma run_conversion_errors:
  assumes "fst (run_conversion L s d br k dry pc w) = Inl e"
  shows "path_error e"
proof -
  note u = assms[unfolded run_conversion_unfold]
  show ?thesis
  proof (cases "node_at (fs w) s = None")
    case True
    with u show ?thesis by simp
  next
    case False
    show ?thesis
    proof (cases "mkdir_parents (fs w) d")
      case (Inl e')
      with u False mkdir_parents_errors[OF Inl] show ?thesis by (auto simp: path_error_def)
    next
      case (Inr f1)
      show ?thesis
      proof (cases "node_at f1 (d @ [''conversion.log'']) = Some Dir")
        case True
        with u False Inr show ?thesis by (simp add: path_error_def)
      next
        case nd: False
        from u False Inr nd show ?thesis
          by (auto simp: Let_def dest: process_found_errors split: option.splits node.splits if_splits)
      qed
    qed
  qed
qed

lemma convert_one_failed:
  assumes "mp3_path wav s d = Inr mp3"
    and "mkdir_parents (fs w) (parent mp3) = Inr f1"
    and "node_at f1 mp3 = None"
    and "from_wav_of (node_at f1 wav) = Inl e"
  shows "convert_one L wav s d br False w =
           (Inr ''failed'', w\<lparr>fs := f1, log := log w @ [ConversionError wav e]\<rparr>)"
  using assms by (simp add: convert_one_unfold)

text \<open>
  C7, as the code has it. When the source directory does not exist, the run prints an
  error and \<^verbatim>\<open>main\<close> ends with exit status 0. The exit status is non-zero only when an
  exception leaves \<^verbatim>\<open>run_conversion\<close>, and such an exception is never one of the codec
  or of the tag library: it comes from a path or a directory (or from a worker count
  that is not positive). A source file that cannot be decoded makes its task return
  \<open>failed\<close> with one entry in the log at level ERROR naming the file.
\<close>

theorem exit_status:
  "(node_at (fs w) (src a) = None \<longrightarrow>
      main L a w = (0, w\<lparr>console := console w @ [SrcMissing (src a)]\<rparr>))
   \<and> (fst (main L a w) \<noteq> 0 \<longrightarrow>
        (\<exists>e. fst (run_conversion L (src a) (dst a) (bitrate_arg a) (workers_arg a)
                   (dry_run_arg a) (preview_arg a) w) = Inl e \<and> path_error e))
   \<and> (mp3_path wav s d = Inr mp3 \<and> mkdir_parents (fs w) (parent mp3) = Inr f1
        \<and> node_at f1 mp3 = None \<and> from_wav_of (node_at f1 wav) = Inl e' \<longrightarrow>
        convert_one L wav s d br False w =
          (Inr ''failed'', w\<lparr>fs := f1, log := log w @ [ConversionError wav e']\<rparr>)
        \<and> level_of (ConversionError wav e') = ERROR)"
proof (intro conjI impI)
  assume "node_at (fs w) (src a) = None"
  then show "main L a w = (0, w\<lparr>console := console w @ [SrcMissing (src a)]\<rparr>)"
    by (simp add: main_def run_conversion_unfold)
next
  assume nz: "fst (main L a w) \<noteq> 0"
  let ?run = "run_conversion L (src a) (dst a) (bitrate_arg a) (workers_arg a)
                   (dry_run_arg a) (preview_arg a) w"
  from nz obtain e where "fst ?run = Inl e"
    by (cases ?run) (auto simp: main_def split: sum.splits)
  with run_conversion_errors show "\<exists>e. fst ?run = Inl e \<and> path_error e" by blast
next
  assume "mp3_path wav s d = Inr mp3 \<and> mkdir_parents (fs w) (parent mp3) = Inr f1
        \<and> node_at f1 mp3 = None \<and> from_wav_of (node_at f1 wav) = Inl e'"
  then show "convert_one L wav s d br False w =
          (Inr ''failed'', w\<lparr>fs := f1, log := log w @ [ConversionError wav e']\<rparr>)"
    using convert_one_failed by blast
next
  show "level_of (ConversionError wav e') = ERROR" by simp
qed

theorem exit_status_witness:
  "node_at (fs broken_world) (src missing_args) = None
   \<and> main accepting_lib missing_args broken_world =
       (0, broken_world\<lparr>console := console broken_world @ [SrcMissing (src missing_args)]\<rparr>)
   \<and> mp3_path [''s'', ''broken.wav''] [''s''] [''d''] = Inr [''d'', ''broken.mp3'']
   \<and> mkdir_parents (fs broken_world) (parent [''d'', ''broken.mp3'']) =
       Inr (fs broken_world @ [([''d''], Dir)])
   \<and> node_at (fs broken_world @ [([''d''], Dir)]) [''d'', ''broken.mp3''] = None
   \<and> from_wav_of (node_at (fs broken_world @ [([''d''], Dir)]) [''s'', ''broken.wav'']) =
       Inl CouldntDecodeError
   \<and> convert_one accepting_lib [''s'', ''broken.wav''] [''s''] [''d''] ''192k'' False broken_world =
       (Inr ''failed'', broken_world\<lparr>fs := fs broken_world @ [([''d''], Dir)],
          log := log broken_world @ [ConversionError [''s'', ''broken.wav''] CouldntDecodeError]\<rparr>)
   \<and> fst (main accepting_lib broken_args broken_world) = 0
   \<and> console (snd (main accepting_lib broken_args broken_world)) =
       [FoundMsg 1, ConBitrate ''192k'', ConWorkers 2, SummaryTable 0 0 1]
   \<and> log (snd (main accepting_lib broken_args broken_world)) =
       [StartMsg, SourceMsg [''s''], DestMsg [''d''], BitrateMsg ''192k'', WorkersMsg 2,
        DryRunMsg False, ConversionError [''s'', ''broken.wav''] CouldntDecodeError,
        DoneMsg 0 0 1]"
proof -
  have h0: "node_at (fs broken_world) (src missing_args) = None" by code_simp
  have h1: "mp3_path [''s'', ''broken.wav''] [''s''] [''d''] = Inr [''d'', ''broken.mp3'']"
    by code_simp
  have h2: "mkdir_parents (fs broken_world) (parent [''d'', ''broken.mp3'']) =
       Inr (fs broken_world @ [([''d''], Dir)])" by code_simp
  have h3: "node_at (fs broken_world @ [([''d''], Dir)]) [''d'', ''broken.mp3''] = None"
    by code_simp
  have h4: "from_wav_of (node_at (fs broken_world @ [([''d''], Dir)]) [''s'', ''broken.wav'']) =
       Inl CouldntDecodeError" by code_simp
  note inst = exit_status [where w = broken_world and L = accepting_lib and a = missing_args
      and wav = "[''s'', ''broken.wav'']" and s = "[''s'']" and d = "[''d'']"
      and ?mp3.0 = "[''d'', ''broken.mp3'']" and ?f1.0 = "fs broken_world @ [([''d''], Dir)]"
      and e' = CouldntDecodeError and br = "''192k''"]
  from inst h0 have c1: "main accepting_lib missing_args broken_world =
       (0, broken_world\<lparr>console := console broken_world @ [SrcMissing (src missing_args)]\<rparr>)"
    by blast
  from inst h1 h2 h3 h4 have c2: "convert_one accepting_lib [''s'', ''broken.wav''] [''s''] [''d''] ''192k'' False broken_world =
       (Inr ''failed'', broken_world\<lparr>fs := fs broken_world @ [([''d''], Dir)],
          log := log broken_world @ [ConversionError [''s'', ''broken.wav''] CouldntDecodeError]\<rparr>)"
    by blast
  have c3: "fst (main accepting_lib broken_args broken_world) = 0" by code_simp
  have c4: "console (snd (main accepting_lib broken_args broken_world)) =
       [FoundMsg 1, ConBitrate ''192k'', ConWorkers 2, SummaryTable 0 0 1]" by code_simp
  have c5: "log (snd (main accepting_lib broken_args broken_world)) =
       [StartMsg, SourceMsg [''s''], DestMsg [''d''], BitrateMsg ''192k'', WorkersMsg 2,
        DryRunMsg False, ConversionError [''s'', ''broken.wav''] CouldntDecodeError,
        DoneMsg 0 0 1]" by code_simp
  from h0 c1 h1 h2 h3 h4 c2 c3 c4 c5 show ?thesis by (intro conjI)
qed

text \<open>
  C7, as the claim states it. The source directory \<open>nosuch\<close> does not exist, and the
  exit status is 0.
\<close>

theorem missing_source_exits_zero:
  "node_at (fs music_world) (src missing_args) = None
   \<and> main accepting_lib missing_args music_world =
       (0, music_world\<lparr>console := [SrcMissing [''nosuch'']]\<rparr>)"
  by code_simp

section \<open>Directories are made before the existence check, in both workers\<close>

lemma read_wav_tags_effect:
  "\<exists>tgs evs. read_wav_tags wav w = (Inr tgs, w\<lparr>log := log w @ evs\<rparr>)"
proof -
  have triv: "\<exists>tgs' evs. (Inr tgs, w) = (Inr tgs', w\<lparr>log := log w @ evs\<rparr>)" for tgs :: "(string \<times> string) list"
    by (rule exI[of _ tgs], rule exI[of _ "[]"]) simp
  have one: "\<exists>tgs' evs. (Inr tgs, w\<lparr>log := log w @ [ev]\<rparr>) = (Inr tgs', w\<lparr>log := log w @ evs\<rparr>)"
    for tgs :: "(string \<times> string) list" and ev
    by blast
  show ?thesis
  proof (cases "wave_of (node_at (fs w) wav)")
    case (Inl e)
    then have "read_wav_tags wav w = (Inr [], w\<lparr>log := log w @ [TagsNotRead (path_name wav) e]\<rparr>)"
      by (simp add: read_wav_tags_def try_except_def bindM_def WAVE_def)
    with one show ?thesis by simp
  next
    case (Inr m)
    show ?thesis
    proof (cases m)
      case None
      with Inr have "read_wav_tags wav w = (Inr [], w)"
        by (simp add: read_wav_tags_def try_except_def bindM_def WAVE_def)
      with triv show ?thesis by simp
    next
      case (Some t)
      show ?thesis
      proof (cases "tags_empty t")
        case True
        with Inr Some have "read_wav_tags wav w = (Inr [], w)"
          by (simp add: read_wav_tags_def try_except_def bindM_def WAVE_def)
        with triv show ?thesis by simp
      next
        case False
        show ?thesis
        proof (cases "pydub_loop t tag_map")
          case e: (Inl e)
          with Inr Some False
          have "read_wav_tags wav w = (Inr [], w\<lparr>log := log w @ [TagsNotRead (path_name wav) e]\<rparr>)"
            by (simp add: read_wav_tags_def try_except_def bindM_def WAVE_def)
          with one show ?thesis by simp
        next
          case r: (Inr tgs)
          show ?thesis
          proof (cases "tgs = []")
            case True
            with r Inr Some False have "read_wav_tags wav w = (Inr [], w)"
              by (simp add: read_wav_tags_def try_except_def bindM_def WAVE_def)
            with triv show ?thesis by simp
          next
            case ne: False
            with r Inr Some False
            have "read_wav_tags wav w = (Inr tgs, w\<lparr>log := log w @ [TagsRead (path_name wav) tgs]\<rparr>)"
              by (simp add: read_wav_tags_def try_except_def bindM_def WAVE_def)
            with one show ?thesis by simp
          qed
        qed
      qed
    qed
  qed
qed

lemma export_with_fresh:
  assumes "node_at (fs w) p = None" and "node_at (fs w) (parent p) = Some Dir"
  shows "export_with L a p br tgs w =
     (if export_raises L a br
      then (Inl CouldntEncodeError, w\<lparr>fs := AList.update p (File Empty) (fs w)\<rparr>)
      else (Inr (), w\<lparr>fs := AList.update p (File (Mp3 a br (export_meta L tgs))) (fs w)\<rparr>))"
  using open_wb_fresh[OF assms] by (simp add: export_with_def bindM_def encode_def)

lemma process_file_skipped_or_converted:
  assumes "process_file L wav s d br w = (Inr st, w')"
    and "st = ''skipped'' \<or> st = ''converted''"
  shows "\<exists>mp3. mp3_path wav s d = Inr mp3
           \<and> node_at (fs w') (parent mp3) = Some Dir
           \<and> (st = ''skipped'' \<longrightarrow> mkdir_parents (fs w) (parent mp3) = Inr (fs w'))"
proof (cases "mp3_path wav s d")
  case (Inl e)
  with assms show ?thesis
    by (auto simp: process_file_def try_except_def)
next
  case mp: (Inr mp3)
  show ?thesis
  proof (cases "mkdir_parents (fs w) (parent mp3)")
    case (Inl e)
    with assms mp show ?thesis
      by (auto simp: process_file_def try_except_def thenM_mkdir)
  next
    case mk: (Inr f1)
    have dir1: "node_at f1 (parent mp3) = Some Dir" using mkdir_parents_dir[OF mk] .
    show ?thesis
    proof (cases "node_at f1 mp3 \<noteq> None")
      case True
      with assms mp mk have "fs w' = f1"
        by (auto simp: process_file_def try_except_def thenM_mkdir)
      with dir1 mp mk show ?thesis by auto
    next
      case False
      then have absent: "node_at f1 mp3 = None" by simp
      then have ne: "mp3 \<noteq> []" by (auto simp: node_at_def split: if_splits)
      let ?w1 = "w\<lparr>fs := f1\<rparr>"
      obtain tgs evs where rt: "read_wav_tags wav ?w1 = (Inr tgs, ?w1\<lparr>log := log ?w1 @ evs\<rparr>)"
        using read_wav_tags_effect by blast
      let ?w2 = "?w1\<lparr>log := log ?w1 @ evs\<rparr>"
      have body: "process_file L wav s d br w =
          try_except
            (bindM (from_wav wav) (\<lambda>a.
               thenM (export_with L a mp3 br tgs)
              (thenM (logging (ConvertedNames (path_name wav) (path_name mp3))) (ret ''converted''))))
            (\<lambda>e. thenM (logging (ConversionErrorName (path_name wav) e)) (ret ''error'')) ?w2"
        using mp mk absent rt
        by (simp add: process_file_def try_except_def thenM_mkdir bindM_def[of "read_wav_tags _"])
      have ex: "export_with L a mp3 br tgs (w\<lparr>fs := f1, log := log w @ evs\<rparr>) =
         (if export_raises L a br
          then (Inl CouldntEncodeError,
                w\<lparr>fs := AList.update mp3 (File Empty) f1, log := log w @ evs\<rparr>)
          else (Inr (), w\<lparr>fs := AList.update mp3 (File (Mp3 a br (export_meta L tgs))) f1,
                   log := log w @ evs\<rparr>))" for a
        using export_with_fresh[of "w\<lparr>fs := f1, log := log w @ evs\<rparr>" mp3 L a br tgs] absent dir1
        by simp
      show ?thesis
      proof (cases "from_wav_of (node_at f1 wav)")
        case (Inl e)
        with body assms show ?thesis
          by (auto simp: try_except_def bindM_def from_wav_def logging_def)
      next
        case (Inr a)
        show ?thesis
        proof (cases "export_raises L a br")
          case True
          with Inr body assms ex[of a] show ?thesis
            by (auto simp: try_except_def bindM_def from_wav_def thenM_def logging_def)
        next
          case False
          with Inr body assms have "fs w' = AList.update mp3 (File (Mp3 a br (export_meta L tgs))) f1"
            and "st = ''converted''"
            by (auto simp: try_except_def bindM_def from_wav_def ex thenM_def logging_def)
          with dir1 mp parent_neq[OF ne] show ?thesis
            by (auto simp: node_at_update)
        qed
      qed
    qed
  qed
qed

text \<open>
  C10. Whenever \<^verbatim>\<open>convert_one\<close> returns an outcome, the parent directory of the
  destination file exists as a directory afterwards. For the outcomes \<open>skipped\<close> and
  \<open>would_convert\<close> the file system it leaves is exactly the one the recursive,
  existence-tolerant directory creation produced: the directories are made before the
  existence check, also in a dry run. The same holds for \<^verbatim>\<open>process_file\<close> of
  \<^verbatim>\<open>wav2mp3.py\<close> whenever it returns \<open>skipped\<close> or \<open>converted\<close>.
\<close>

theorem parent_dirs_created:
  "(convert_one L wav s d br dry w = (Inr st, w') \<longrightarrow>
      (\<exists>mp3. mp3_path wav s d = Inr mp3
           \<and> node_at (fs w') (parent mp3) = Some Dir
           \<and> (st = ''skipped'' \<or> st = ''would_convert'' \<longrightarrow>
                mkdir_parents (fs w) (parent mp3) = Inr (fs w'))))
   \<and> (process_file L wav s d br w = (Inr st, w') \<and> (st = ''skipped'' \<or> st = ''converted'') \<longrightarrow>
      (\<exists>mp3. mp3_path wav s d = Inr mp3
           \<and> node_at (fs w') (parent mp3) = Some Dir
           \<and> (st = ''skipped'' \<longrightarrow> mkdir_parents (fs w) (parent mp3) = Inr (fs w'))))"
proof (intro conjI impI)
  assume "convert_one L wav s d br dry w = (Inr st, w')"
  then show "\<exists>mp3. mp3_path wav s d = Inr mp3
           \<and> node_at (fs w') (parent mp3) = Some Dir
           \<and> (st = ''skipped'' \<or> st = ''would_convert'' \<longrightarrow>
                mkdir_parents (fs w) (parent mp3) = Inr (fs w'))"
    by (rule convert_one_parent_dir)
next
  assume "process_file L wav s d br w = (Inr st, w') \<and> (st = ''skipped'' \<or> st = ''converted'')"
  then show "\<exists>mp3. mp3_path wav s d = Inr mp3
           \<and> node_at (fs w') (parent mp3) = Some Dir
           \<and> (st = ''skipped'' \<longrightarrow> mkdir_parents (fs w) (parent mp3) = Inr (fs w'))"
    using process_file_skipped_or_converted by blast
qed

theorem parent_dirs_created_witness:
  "convert_one accepting_lib [''s'', ''a'', ''1.wav''] [''s''] [''d''] ''192k'' True music_world =
     (Inr ''would_convert'',
      music_world\<lparr>fs := fs music_world @ [([''d''], Dir), ([''d'', ''a''], Dir)]\<rparr>)
   \<and> node_at (fs music_world) [''d'', ''a''] = None
   \<and> mp3_path [''s'', ''a'', ''1.wav''] [''s''] [''d''] = Inr [''d'', ''a'', ''1.mp3'']
   \<and> node_at (fs music_world @ [([''d''], Dir), ([''d'', ''a''], Dir)]) [''d'', ''a''] = Some Dir
   \<and> mkdir_parents (fs music_world) [''d'', ''a''] =
        Inr (fs music_world @ [([''d''], Dir), ([''d'', ''a''], Dir)])
   \<and> process_file accepting_lib [''s'', ''a'', ''1.wav''] [''s''] [''d''] ''192k'' music_world =
        (Inr ''converted'',
         snd (process_file accepting_lib [''s'', ''a'', ''1.wav''] [''s''] [''d''] ''192k''
                music_world))
   \<and> node_at (fs (snd (process_file accepting_lib [''s'', ''a'', ''1.wav''] [''s''] [''d'']
          ''192k'' music_world))) [''d'', ''a''] = Some Dir
   \<and> process_file accepting_lib [''s'', ''b.wav''] [''s''] [''d''] ''192k'' half_world =
        (Inr ''skipped'', half_world\<lparr>log := [AlreadyPresentName ''b.mp3'']\<rparr>)"
proof -
  let ?w' = "music_world\<lparr>fs := fs music_world @ [([''d''], Dir), ([''d'', ''a''], Dir)]\<rparr>"
  let ?v' = "snd (process_file accepting_lib [''s'', ''a'', ''1.wav''] [''s''] [''d''] ''192k''
                music_world)"
  have a: "convert_one accepting_lib [''s'', ''a'', ''1.wav''] [''s''] [''d''] ''192k'' True music_world =
     (Inr ''would_convert'', ?w')"
    by code_simp
  have b: "node_at (fs music_world) [''d'', ''a''] = None"
    by code_simp
  have c: "mp3_path [''s'', ''a'', ''1.wav''] [''s''] [''d''] = Inr [''d'', ''a'', ''1.mp3'']"
    by code_simp
  have p: "process_file accepting_lib [''s'', ''a'', ''1.wav''] [''s''] [''d''] ''192k'' music_world =
        (Inr ''converted'', ?v')"
    by code_simp
  have q: "process_file accepting_lib [''s'', ''b.wav''] [''s''] [''d''] ''192k'' half_world =
        (Inr ''skipped'', half_world\<lparr>log := [AlreadyPresentName ''b.mp3'']\<rparr>)"
    by code_simp
  note inst = parent_dirs_created [where L = accepting_lib and wav = "[''s'', ''a'', ''1.wav'']"
      and s = "[''s'']" and d = "[''d'']" and br = "''192k''" and w = music_world]
  from inst [where dry = True and st = "''would_convert''" and w' = ?w'] a c
  have d: "node_at (fs ?w') (parent [''d'', ''a'', ''1.mp3'']) = Some Dir"
    and e: "mkdir_parents (fs music_world) (parent [''d'', ''a'', ''1.mp3'']) = Inr (fs ?w')"
    by auto
  from inst [where dry = True and st = "''converted''" and w' = ?v'] p c
  have f: "node_at (fs ?v') (parent [''d'', ''a'', ''1.mp3'']) = Some Dir"
    by auto
  from d e f have d': "node_at (fs music_world @ [([''d''], Dir), ([''d'', ''a''], Dir)]) [''d'', ''a''] = Some Dir"
    and e': "mkdir_parents (fs music_world) [''d'', ''a''] =
        Inr (fs music_world @ [([''d''], Dir), ([''d'', ''a''], Dir)])"
    and f': "node_at (fs ?v') [''d'', ''a''] = Some Dir"
    by (simp_all add: parent_def)
  from a b c d' e' p f' q show ?thesis by (intro conjI)
qed

end
